theory Spec2Isabelle
  imports Main "HOL-Library.AList" "HOL-Library.Multiset"
begin

section \<open>Data model\<close>

text \<open>
  The backend stores its entities in PostgreSQL tables through Sequelize models
  (\<^verbatim>\<open>backend/models/*.js\<close>). A table is a list of rows, a row is a record whose
  fields keep the column names. Primary keys are UUID strings. A \<^verbatim>\<open>TIME\<close>
  column is a number of seconds after midnight, a \<^verbatim>\<open>DATEONLY\<close> column a number
  of days after 1970-01-01.
\<close>

type_synonym uuid = string
type_synonym time = nat
type_synonym date = nat

definition hms :: "nat \<Rightarrow> nat \<Rightarrow> nat \<Rightarrow> time" where
  "hms h m s = h * 3600 + m * 60 + s"

datatype weekday = Sunday | Monday | Tuesday | Wednesday | Thursday | Friday | Saturday

datatype session_type = lecture | tutorial | practical

text \<open>
  \<^verbatim>\<open>TimetableEntry\<close> (models): the values of an entry as the generator and the
  request handlers build them, and the stored row, which adds the primary key.
\<close>

record TimetableEntryData =
  timetableId :: uuid
  day :: weekday
  startTime :: time
  endTime :: time
  subjectId :: uuid
  facultyId :: uuid
  batchId :: uuid
  classroomId :: uuid
  type :: session_type

record TimetableEntry = TimetableEntryData +
  e_id :: uuid

record Timetable =
  t_id :: uuid
  t_department :: string
  t_semester :: int
  t_startDate :: date
  t_endDate :: date
  t_status :: string
  t_isActive :: bool

record Batch =
  b_id :: uuid
  b_department :: string
  b_semester :: int
  b_strength :: int
  b_isActive :: bool

record Subject =
  s_id :: uuid
  s_department :: string
  s_semester :: int
  lectureHoursPerWeek :: int
  tutorialHoursPerWeek :: int
  practicalHoursPerWeek :: int
  s_isActive :: bool

record User =
  u_id :: uuid
  u_role :: string
  u_department :: string
  u_isActive :: bool

record Faculty =
  f_id :: uuid
  f_userId :: uuid
  f_isActive :: bool

record Classroom =
  c_id :: uuid
  c_capacity :: int
  c_isLab :: bool
  c_isActive :: bool

record FacultySubject =
  fs_facultyId :: uuid
  fs_subjectId :: uuid
  fs_preference :: int
  fs_isActive :: bool

record LeaveRequest =
  l_id :: uuid
  l_facultyId :: uuid
  l_startDate :: date
  l_endDate :: date
  l_reason :: string
  l_status :: string
  l_approvedBy :: "uuid option"

record Substitution =
  sub_id :: uuid
  timetableEntryId :: uuid
  originalFacultyId :: uuid
  substituteFacultyId :: "uuid option"
  sub_date :: date
  leaveRequestId :: "uuid option"
  sub_status :: string
  notificationSent :: bool

text \<open>
  The status column of \<^verbatim>\<open>Substitution\<close> as \<^verbatim>\<open>models/Substitution.js\<close> declares it:
  \<^verbatim>\<open>DataTypes.ENUM('pending', 'accepted', 'rejected')\<close>.
\<close>

definition Substitution_status_ENUM :: "string list" where
  "Substitution_status_ENUM = [''pending'', ''accepted'', ''rejected'']"

record db =
  timetables :: "Timetable list"
  entries :: "TimetableEntry list"
  batches :: "Batch list"
  subjects :: "Subject list"
  users :: "User list"
  faculty :: "Faculty list"
  classrooms :: "Classroom list"
  facultySubjects :: "FacultySubject list"
  leaveRequests :: "LeaveRequest list"
  substitutions :: "Substitution list"

text \<open>
  What a handler sends back: the HTTP status, the message, and the payload of the
  handlers that carry one.
\<close>

datatype response =
    Json nat string
  | JsonConflicts nat string "TimetableEntry list"
  | JsonEntry nat string TimetableEntry
  | JsonEntriesCount nat string nat
  | JsonSubstitution nat string Substitution
  | JsonLeave nat string LeaveRequest
  | JsonLeaveCreated nat string LeaveRequest nat

text \<open>
  What makes a handler leave its \<^verbatim>\<open>try\<close> block: a JavaScript \<^verbatim>\<open>TypeError\<close>
  (a property read on \<^verbatim>\<open>undefined\<close> or \<^verbatim>\<open>null\<close>) or an error the database raises
  for a query or a write. Queries and writes are typed as the models declare the
  columns: a day name outside the \<^verbatim>\<open>day\<close> enumeration, a comparison of a day name
  with a number, a status outside the status enumeration of a substitution request
  (\<open>Substitution_status_ENUM\<close>) and a null for a column declared
  \<^verbatim>\<open>allowNull: false\<close> are refused. A refused statement rolls the transaction of
  the handler back: the tables are as they were. Foreign keys are not checked: the
  rows a request names are taken to exist.
\<close>

datatype failure = TypeError | DatabaseError

section \<open>Conflict detection (routes/timetable, checkTimetableConflicts)\<close>

text \<open>
  A Sequelize \<^verbatim>\<open>where\<close> object is a JavaScript object literal: a list of properties
  in which a key written twice keeps its first position and takes the last value.
  The row conditions are the values; a row matches when every property holds.
\<close>

datatype where_key = K_timetableId | K_day | K_facultyId | K_id | K_Op_or

definition object_literal :: "('k \<times> 'v) list \<Rightarrow> ('k \<times> 'v) list" where
  "object_literal props = foldl (\<lambda>obj (k, v). AList.update k v obj) [] props"

definition where_matches :: "(where_key \<times> ('r \<Rightarrow> bool)) list \<Rightarrow> 'r \<Rightarrow> bool" where
  "where_matches whereClause r = list_all (\<lambda>(k, cond). cond r) whereClause"

definition findAll :: "(where_key \<times> ('r \<Rightarrow> bool)) list \<Rightarrow> 'r list \<Rightarrow> 'r list" where
  "findAll whereClause table = filter (where_matches whereClause) table"

text \<open>
  The four time clauses of the first \<^verbatim>\<open>[Op.or]\<close> array, on the existing row
  \<open>e\<close> and the new interval \<open>startTime\<close>, \<open>endTime\<close>.
\<close>

definition time_clauses :: "time \<Rightarrow> time \<Rightarrow> 'a TimetableEntryData_scheme \<Rightarrow> bool" where
  "time_clauses st en e =
     ((startTime e < en \<and> startTime e \<ge> st)
      \<or> (endTime e \<le> en \<and> endTime e > st)
      \<or> (startTime e \<ge> st \<and> endTime e \<le> en)
      \<or> (startTime e \<le> st \<and> endTime e \<ge> en))"

definition truthy :: "string option \<Rightarrow> bool" where
  "truthy v = (case v of None \<Rightarrow> False | Some s \<Rightarrow> s \<noteq> [])"

definition checkTimetableConflicts ::
  "TimetableEntry list \<Rightarrow> uuid \<Rightarrow> weekday \<Rightarrow> time \<Rightarrow> time \<Rightarrow> uuid \<Rightarrow> uuid \<Rightarrow> uuid
     \<Rightarrow> uuid option \<Rightarrow> TimetableEntry list" where
  "checkTimetableConflicts table tid d st en fid bid cid excludeEntryId =
     (let whereClause = object_literal
        [(K_timetableId, \<lambda>e. timetableId e = tid),
         (K_day, \<lambda>e. day e = d),
         (K_Op_or, time_clauses st en),
         (K_Op_or, \<lambda>e. facultyId e = fid \<or> batchId e = bid \<or> classroomId e = cid)];
        whereClause' =
          (if truthy excludeEntryId
           then AList.update K_id (\<lambda>e. e_id e \<noteq> the excludeEntryId) whereClause
           else whereClause)
      in findAll whereClause' table)"

text \<open>The contract of the conflict detector as the specification words it.\<close>

definition intervals_overlap :: "time \<Rightarrow> time \<Rightarrow> time \<Rightarrow> time \<Rightarrow> bool" where
  "intervals_overlap cs ce xs xe = (cs < xe \<and> ce > xs)"

section \<open>Timetable generation (generateTimetableEntries)\<close>

text \<open>The fixed catalogs of the generator: six days, seven hourly slots.\<close>

record TimeSlot =
  ts_start :: time
  ts_end :: time

definition days :: "weekday list" where
  "days = [Monday, Tuesday, Wednesday, Thursday, Friday, Saturday]"

definition timeSlots :: "TimeSlot list" where
  "timeSlots =
     [\<lparr>ts_start = hms 9 0 0, ts_end = hms 10 0 0\<rparr>,
      \<lparr>ts_start = hms 10 0 0, ts_end = hms 11 0 0\<rparr>,
      \<lparr>ts_start = hms 11 0 0, ts_end = hms 12 0 0\<rparr>,
      \<lparr>ts_start = hms 12 0 0, ts_end = hms 13 0 0\<rparr>,
      \<lparr>ts_start = hms 14 0 0, ts_end = hms 15 0 0\<rparr>,
      \<lparr>ts_start = hms 15 0 0, ts_end = hms 16 0 0\<rparr>,
      \<lparr>ts_start = hms 16 0 0, ts_end = hms 17 0 0\<rparr>]"

text \<open>
  \<^verbatim>\<open>facultyPreferences[subjectId]\<close>: the pairs of the subject in the order of the
  query result, then \<^verbatim>\<open>sort((a, b) => b.preference - a.preference)\<close>.
  \<^verbatim>\<open>Array.prototype.sort\<close> is stable; \<^const>\<open>sort_key\<close> is a stable insertion sort.
\<close>

record FacultyPreference =
  fp_facultyId :: uuid
  fp_preference :: int

definition preference_pairs :: "FacultySubject list \<Rightarrow> uuid \<Rightarrow> FacultyPreference list" where
  "preference_pairs fss sid =
     map (\<lambda>fs. \<lparr>fp_facultyId = fs_facultyId fs, fp_preference = fs_preference fs\<rparr>)
       (filter (\<lambda>fs. fs_subjectId fs = sid) fss)"

definition facultyPreferences :: "FacultySubject list \<Rightarrow> uuid \<Rightarrow> FacultyPreference list" where
  "facultyPreferences fss sid = sort_key (\<lambda>fp. - fp_preference fp) (preference_pairs fss sid)"

text \<open>
  \<^verbatim>\<open>assignedSlots\<close>: per resource kind, resource id \<open>\<rightarrow>\<close> day \<open>\<rightarrow>\<close> slot key \<open>\<rightarrow>\<close> true.
  The day map of one resource is the list of its marked (day, slot) pairs; the slot
  key \<^verbatim>\<open>`${start}-${end}`\<close> is the slot itself. A resource id that was never
  initialised has no day map (\<^verbatim>\<open>undefined\<close>).
\<close>

type_synonym day_map = "(weekday \<times> TimeSlot) list"

record AssignedSlots =
  as_faculty :: "uuid \<rightharpoonup> day_map"
  as_batch :: "uuid \<rightharpoonup> day_map"
  as_classroom :: "uuid \<rightharpoonup> day_map"

definition init_assignedSlots :: "Faculty list \<Rightarrow> Batch list \<Rightarrow> Classroom list \<Rightarrow> AssignedSlots" where
  "init_assignedSlots fs bs cs =
     \<lparr>as_faculty = map_of (map (\<lambda>f. (f_id f, [])) fs),
      as_batch = map_of (map (\<lambda>b. (b_id b, [])) bs),
      as_classroom = map_of (map (\<lambda>c. (c_id c, [])) cs)\<rparr>"

definition isSlotAssigned :: "day_map option \<Rightarrow> weekday \<Rightarrow> TimeSlot \<Rightarrow> failure + bool" where
  "isSlotAssigned dayMap d timeSlot =
     (case dayMap of None \<Rightarrow> Inl TypeError | Some m \<Rightarrow> Inr ((d, timeSlot) \<in> set m))"

definition markSlotAsAssigned :: "day_map option \<Rightarrow> weekday \<Rightarrow> TimeSlot \<Rightarrow> failure + day_map" where
  "markSlotAsAssigned dayMap d timeSlot =
     (case dayMap of None \<Rightarrow> Inl TypeError | Some m \<Rightarrow> Inr ((d, timeSlot) # m))"

record gen_state =
  gs_entries :: "TimetableEntryData list"
  gs_slots :: AssignedSlots

text \<open>The classroom search loop of \<^verbatim>\<open>assignSessions\<close>.\<close>

fun find_classroom ::
  "session_type \<Rightarrow> Batch \<Rightarrow> weekday \<Rightarrow> TimeSlot \<Rightarrow> AssignedSlots \<Rightarrow> Classroom list
     \<Rightarrow> failure + Classroom option" where
  "find_classroom ty batch d sl a [] = Inr None"
| "find_classroom ty batch d sl a (classroom # cs) =
     (if ty = practical \<and> \<not> c_isLab classroom then find_classroom ty batch d sl a cs
      else if ty \<noteq> practical \<and> c_isLab classroom then find_classroom ty batch d sl a cs
      else case isSlotAssigned (as_classroom a (c_id classroom)) d sl of
             Inl err \<Rightarrow> Inl err
           | Inr occupied \<Rightarrow>
               if occupied then find_classroom ty batch d sl a cs
               else if c_capacity classroom < b_strength batch
                 then find_classroom ty batch d sl a cs
               else Inr (Some classroom))"

text \<open>
  The commit of one session: push the entry, mark the three resources.
\<close>

definition commit_entry ::
  "uuid \<Rightarrow> session_type \<Rightarrow> Subject \<Rightarrow> Batch \<Rightarrow> weekday \<Rightarrow> TimeSlot \<Rightarrow> uuid \<Rightarrow> Classroom
     \<Rightarrow> gen_state \<Rightarrow> failure + gen_state" where
  "commit_entry tid ty subject batch d sl fid assignedClassroom st =
     (let a = gs_slots st;
          entry = \<lparr>timetableId = tid, day = d, startTime = ts_start sl, endTime = ts_end sl,
                   subjectId = s_id subject, facultyId = fid, batchId = b_id batch,
                   classroomId = c_id assignedClassroom, type = ty\<rparr>
      in (case markSlotAsAssigned (as_faculty a fid) d sl of
            Inl err \<Rightarrow> Inl err
          | Inr fm \<Rightarrow>
             (let a1 = a\<lparr>as_faculty := (as_faculty a)(fid \<mapsto> fm)\<rparr>
              in (case markSlotAsAssigned (as_batch a1 (b_id batch)) d sl of
                    Inl err \<Rightarrow> Inl err
                  | Inr bm \<Rightarrow>
                     (let a2 = a1\<lparr>as_batch := (as_batch a1)(b_id batch \<mapsto> bm)\<rparr>
                      in (case markSlotAsAssigned (as_classroom a2 (c_id assignedClassroom)) d sl of
                            Inl err \<Rightarrow> Inl err
                          | Inr cm \<Rightarrow>
                              Inr \<lparr>gs_entries = gs_entries st @ [entry],
                                   gs_slots = a2\<lparr>as_classroom :=
                                     (as_classroom a2)(c_id assignedClassroom \<mapsto> cm)\<rparr>\<rparr>))))))"

text \<open>
  The loop over the preferred faculty of the subject for one day and slot. The
  result is \<open>None\<close> when no faculty could be placed (\<open>assigned\<close> stays false).
\<close>

fun try_faculty ::
  "uuid \<Rightarrow> session_type \<Rightarrow> Subject \<Rightarrow> Batch \<Rightarrow> Classroom list \<Rightarrow> weekday \<Rightarrow> TimeSlot
     \<Rightarrow> gen_state \<Rightarrow> FacultyPreference list \<Rightarrow> failure + gen_state option" where
  "try_faculty tid ty subject batch cs d sl st [] = Inr None"
| "try_faculty tid ty subject batch cs d sl st (fp # fps) =
     (case isSlotAssigned (as_faculty (gs_slots st) (fp_facultyId fp)) d sl of
        Inl err \<Rightarrow> Inl err
      | Inr facultyBusy \<Rightarrow>
          (if facultyBusy then try_faculty tid ty subject batch cs d sl st fps
           else (case isSlotAssigned (as_batch (gs_slots st) (b_id batch)) d sl of
                   Inl err \<Rightarrow> Inl err
                 | Inr batchBusy \<Rightarrow>
                     (if batchBusy then try_faculty tid ty subject batch cs d sl st fps
                      else (case find_classroom ty batch d sl (gs_slots st) cs of
                              Inl err \<Rightarrow> Inl err
                            | Inr None \<Rightarrow> try_faculty tid ty subject batch cs d sl st fps
                            | Inr (Some assignedClassroom) \<Rightarrow>
                                (case commit_entry tid ty subject batch d sl (fp_facultyId fp)
                                        assignedClassroom st of
                                   Inl err \<Rightarrow> Inl err
                                 | Inr st' \<Rightarrow> Inr (Some st')))))))"

fun try_slots ::
  "uuid \<Rightarrow> session_type \<Rightarrow> Subject \<Rightarrow> Batch \<Rightarrow> Classroom list \<Rightarrow> FacultyPreference list
     \<Rightarrow> weekday \<Rightarrow> gen_state \<Rightarrow> TimeSlot list \<Rightarrow> failure + gen_state option" where
  "try_slots tid ty subject batch cs prefs d st [] = Inr None"
| "try_slots tid ty subject batch cs prefs d st (sl # sls) =
     (case try_faculty tid ty subject batch cs d sl st prefs of
        Inl err \<Rightarrow> Inl err
      | Inr (Some st') \<Rightarrow> Inr (Some st')
      | Inr None \<Rightarrow> try_slots tid ty subject batch cs prefs d st sls)"

fun try_days ::
  "uuid \<Rightarrow> session_type \<Rightarrow> Subject \<Rightarrow> Batch \<Rightarrow> Classroom list \<Rightarrow> FacultyPreference list
     \<Rightarrow> gen_state \<Rightarrow> weekday list \<Rightarrow> failure + gen_state option" where
  "try_days tid ty subject batch cs prefs st [] = Inr None"
| "try_days tid ty subject batch cs prefs st (d # ds) =
     (case try_slots tid ty subject batch cs prefs d st timeSlots of
        Inl err \<Rightarrow> Inl err
      | Inr (Some st') \<Rightarrow> Inr (Some st')
      | Inr None \<Rightarrow> try_days tid ty subject batch cs prefs st ds)"

text \<open>
  \<^verbatim>\<open>while (assignedSessions < sessionsPerWeek)\<close>: the argument counts the sessions
  still to place; the loop leaves at the first session that finds no place.
\<close>

fun assign_loop ::
  "nat \<Rightarrow> uuid \<Rightarrow> session_type \<Rightarrow> Subject \<Rightarrow> Batch \<Rightarrow> Classroom list \<Rightarrow> FacultyPreference list
     \<Rightarrow> gen_state \<Rightarrow> failure + gen_state" where
  "assign_loop 0 tid ty subject batch cs prefs st = Inr st"
| "assign_loop (Suc n) tid ty subject batch cs prefs st =
     (case try_days tid ty subject batch cs prefs st days of
        Inl err \<Rightarrow> Inl err
      | Inr None \<Rightarrow> Inr st
      | Inr (Some st') \<Rightarrow> assign_loop n tid ty subject batch cs prefs st')"

definition assignSessions ::
  "uuid \<Rightarrow> Classroom list \<Rightarrow> FacultySubject list \<Rightarrow> session_type \<Rightarrow> int \<Rightarrow> Subject \<Rightarrow> Batch
     \<Rightarrow> bool \<Rightarrow> gen_state \<Rightarrow> failure + gen_state" where
  "assignSessions tid cs fss ty sessionsPerWeek subject batch requiresLab st =
     assign_loop (nat sessionsPerWeek) tid ty subject batch cs
       (facultyPreferences fss (s_id subject)) st"

fun forEach :: "('a \<Rightarrow> 's \<Rightarrow> failure + 's) \<Rightarrow> 'a list \<Rightarrow> 's \<Rightarrow> failure + 's" where
  "forEach body [] st = Inr st"
| "forEach body (x # xs) st =
     (case body x st of Inl err \<Rightarrow> Inl err | Inr st' \<Rightarrow> forEach body xs st')"

definition assign_subject ::
  "uuid \<Rightarrow> Classroom list \<Rightarrow> FacultySubject list \<Rightarrow> Batch \<Rightarrow> Subject \<Rightarrow> gen_state
     \<Rightarrow> failure + gen_state" where
  "assign_subject tid cs fss batch subject st =
     (case assignSessions tid cs fss lecture (lectureHoursPerWeek subject) subject batch False st of
        Inl err \<Rightarrow> Inl err
      | Inr st1 \<Rightarrow>
          (case assignSessions tid cs fss tutorial (tutorialHoursPerWeek subject) subject batch
                  False st1 of
             Inl err \<Rightarrow> Inl err
           | Inr st2 \<Rightarrow>
               assignSessions tid cs fss practical (practicalHoursPerWeek subject) subject batch
                 True st2))"

definition generateTimetableEntries ::
  "Timetable \<Rightarrow> Batch list \<Rightarrow> Subject list \<Rightarrow> Faculty list \<Rightarrow> Classroom list
     \<Rightarrow> FacultySubject list \<Rightarrow> failure + TimetableEntryData list" where
  "generateTimetableEntries timetable bs ss fs cs fss =
     (case forEach (\<lambda>batch. forEach (assign_subject (t_id timetable) cs fss batch) ss) bs
             \<lparr>gs_entries = [], gs_slots = init_assignedSlots fs bs cs\<rparr> of
        Inl err \<Rightarrow> Inl err
      | Inr st \<Rightarrow> Inr (gs_entries st))"

section \<open>Timetable routes\<close>

definition isAdminOrHOD :: "User \<Rightarrow> bool" where
  "isAdminOrHOD user = (u_role user = ''admin'' \<or> u_role user = ''hod'')"

definition with_id :: "uuid \<Rightarrow> TimetableEntryData \<Rightarrow> TimetableEntry" where
  "with_id i e =
     \<lparr>timetableId = timetableId e, day = day e, startTime = startTime e, endTime = endTime e,
      subjectId = subjectId e, facultyId = facultyId e, batchId = batchId e,
      classroomId = classroomId e, type = type e, e_id = i\<rparr>"

text \<open>
  \<^verbatim>\<open>TimetableEntry.bulkCreate\<close>: the rows get their \<^verbatim>\<open>UUIDV4\<close> defaults; \<open>newId k\<close>
  is the key drawn for the \<open>k\<close>-th row.
\<close>

definition bulkCreate :: "(nat \<Rightarrow> uuid) \<Rightarrow> TimetableEntryData list \<Rightarrow> TimetableEntry list" where
  "bulkCreate newId es = map (\<lambda>(k, e). with_id (newId k) e) (enumerate 0 es)"

text \<open>
  The raw query of the generate handler: the active \<^verbatim>\<open>FacultySubjects\<close> rows joined
  with \<^verbatim>\<open>Faculty\<close> and \<^verbatim>\<open>Users\<close> of the department. The query has no
  \<^verbatim>\<open>ORDER BY\<close>; the rows are taken in the order of the table, which is one of the
  orders the database may answer in. What is proved of a run of the generator holds
  for every list of pairs, in any order.
\<close>

definition department_facultySubjects :: "db \<Rightarrow> string \<Rightarrow> FacultySubject list" where
  "department_facultySubjects s department =
     [fs. fs \<leftarrow> facultySubjects s, f \<leftarrow> faculty s, f_id f = fs_facultyId fs,
          u \<leftarrow> users s, u_id u = f_userId f,
          u_department u = department \<and> fs_isActive fs]"

text \<open>\<^verbatim>\<open>POST /api/timetables/:id/generate\<close>\<close>

definition generate_route :: "db \<Rightarrow> User \<Rightarrow> uuid \<Rightarrow> (nat \<Rightarrow> uuid) \<Rightarrow> response \<times> db" where
  "generate_route s user tid newId =
     (if \<not> isAdminOrHOD user then (Json 403 ''Access denied. Admin or HOD role required'', s)
      else case find (\<lambda>t. t_id t = tid) (timetables s) of
        None \<Rightarrow> (Json 404 ''Timetable not found'', s)
      | Some timetable \<Rightarrow>
          if u_role user = ''hod'' \<and> t_department timetable \<noteq> u_department user
          then (Json 403
            ''Access denied. You can only generate timetables for your department'', s)
          else if t_status timetable = ''approved'' \<or> t_status timetable = ''published''
          then (Json 400 ''Cannot generate approved or published timetable'', s)
          else
            let bs = filter (\<lambda>b. b_department b = t_department timetable
                              \<and> b_semester b = t_semester timetable \<and> b_isActive b) (batches s);
                ss = filter (\<lambda>x. s_department x = t_department timetable
                              \<and> s_semester x = t_semester timetable \<and> s_isActive x) (subjects s);
                fs = filter (\<lambda>f. f_isActive f
                              \<and> list_ex (\<lambda>u. u_id u = f_userId f
                                    \<and> u_department u = t_department timetable \<and> u_isActive u)
                                  (users s)) (faculty s);
                cs = filter c_isActive (classrooms s)
            in
            if bs = [] then
              (Json 400 ''No active batches found for this department and semester'', s)
            else if ss = [] then
              (Json 400 ''No active subjects found for this department and semester'', s)
            else if fs = [] then (Json 400 ''No active faculty found for this department'', s)
            else if cs = [] then (Json 400 ''No active classrooms found'', s)
            else
              (case generateTimetableEntries timetable bs ss fs cs
                      (department_facultySubjects s (t_department timetable)) of
                 Inl err \<Rightarrow> (Json 500 ''Server error while generating timetable'', s)
               | Inr timetableEntries \<Rightarrow>
                   (JsonEntriesCount 200 ''Timetable generated successfully''
                      (length timetableEntries),
                    s\<lparr>entries := filter (\<lambda>e. timetableId e \<noteq> t_id timetable) (entries s)
                                   @ bulkCreate newId timetableEntries,
                      timetables := map (\<lambda>t. if t_id t = t_id timetable
                                               then t\<lparr>t_status := ''pending_approval''\<rparr> else t)
                                      (timetables s)\<rparr>)))"

text \<open>
  The body of an entry request. \<open>None\<close> is a field that is absent (or \<^verbatim>\<open>null\<close>);
  an empty string is falsy as well.
\<close>

record entry_body =
  body_day :: "weekday option"
  body_startTime :: "time option"
  body_endTime :: "time option"
  body_subjectId :: "string option"
  body_facultyId :: "string option"
  body_batchId :: "string option"
  body_classroomId :: "string option"
  body_type :: "session_type option"

text \<open>\<^verbatim>\<open>a || b\<close> on a string field and on a field of another type.\<close>

definition or_else :: "string option \<Rightarrow> string \<Rightarrow> string" where
  "or_else v dflt = (if truthy v then the v else dflt)"

definition or_default :: "'a option \<Rightarrow> 'a \<Rightarrow> 'a" where
  "or_default v dflt = (case v of None \<Rightarrow> dflt | Some x \<Rightarrow> x)"

text \<open>
  \<^verbatim>\<open>POST /api/timetables/:id/entries\<close>. The \<^verbatim>\<open>day\<close> column is
  \<^verbatim>\<open>ENUM('Monday', ..., 'Saturday')\<close>: the database refuses \<^verbatim>\<open>'Sunday'\<close> in the
  conflict query, and the handler's \<^verbatim>\<open>catch\<close> answers 500.
\<close>

definition missing_fields :: "entry_body \<Rightarrow> bool" where
  "missing_fields body =
     (body_day body = None \<or> body_startTime body = None \<or> body_endTime body = None
      \<or> \<not> truthy (body_subjectId body) \<or> \<not> truthy (body_facultyId body)
      \<or> \<not> truthy (body_batchId body) \<or> \<not> truthy (body_classroomId body))"

definition new_entry :: "uuid \<Rightarrow> entry_body \<Rightarrow> uuid \<Rightarrow> TimetableEntry" where
  "new_entry tid body newId =
     \<lparr>timetableId = tid, day = the (body_day body),
      startTime = the (body_startTime body), endTime = the (body_endTime body),
      subjectId = the (body_subjectId body), facultyId = the (body_facultyId body),
      batchId = the (body_batchId body), classroomId = the (body_classroomId body),
      type = or_default (body_type body) lecture, e_id = newId\<rparr>"

definition add_entry_route :: "db \<Rightarrow> User \<Rightarrow> uuid \<Rightarrow> entry_body \<Rightarrow> uuid \<Rightarrow> response \<times> db" where
  "add_entry_route s user tid body newId =
     (if \<not> isAdminOrHOD user then (Json 403 ''Access denied. Admin or HOD role required'', s)
      else case find (\<lambda>t. t_id t = tid) (timetables s) of
        None \<Rightarrow> (Json 404 ''Timetable not found'', s)
      | Some timetable \<Rightarrow>
          if u_role user = ''hod'' \<and> t_department timetable \<noteq> u_department user
          then (Json 403
            ''Access denied. You can only add entries to timetables for your department'', s)
          else if t_status timetable = ''published''
          then (Json 400 ''Cannot add entries to published timetable'', s)
          else if missing_fields body
          then (Json 400
            ''Please provide day, startTime, endTime, subjectId, facultyId, batchId, and classroomId'',
            s)
          else if the (body_day body) = Sunday
          then (Json 500 ''Server error while adding timetable entry'', s)
          else
            let entry = new_entry (t_id timetable) body newId;
                conflicts = checkTimetableConflicts (entries s) (t_id timetable)
                  (day entry) (startTime entry) (endTime entry)
                  (facultyId entry) (batchId entry) (classroomId entry) None
            in
            if length conflicts > 0
            then (JsonConflicts 400 ''Timetable entry conflicts with existing entries'' conflicts, s)
            else (JsonEntry 201 ''Timetable entry added successfully'' entry,
                  s\<lparr>entries := entries s @ [entry]\<rparr>))"

text \<open>
  \<^verbatim>\<open>PUT /api/timetables/:id/entries/:entryId\<close>. The values checked for conflicts
  and the values written are the same \<^verbatim>\<open>field || entry.field\<close>.
\<close>

definition merged_entry :: "TimetableEntry \<Rightarrow> entry_body \<Rightarrow> TimetableEntry" where
  "merged_entry entry body =
     entry\<lparr>day := or_default (body_day body) (day entry),
           startTime := or_default (body_startTime body) (startTime entry),
           endTime := or_default (body_endTime body) (endTime entry),
           subjectId := or_else (body_subjectId body) (subjectId entry),
           facultyId := or_else (body_facultyId body) (facultyId entry),
           batchId := or_else (body_batchId body) (batchId entry),
           classroomId := or_else (body_classroomId body) (classroomId entry),
           type := or_default (body_type body) (type entry)\<rparr>"

definition changes_schedule :: "entry_body \<Rightarrow> bool" where
  "changes_schedule body =
     (body_day body \<noteq> None \<or> body_startTime body \<noteq> None \<or> body_endTime body \<noteq> None
      \<or> truthy (body_facultyId body) \<or> truthy (body_batchId body)
      \<or> truthy (body_classroomId body))"

definition update_entry_route :: "db \<Rightarrow> User \<Rightarrow> uuid \<Rightarrow> uuid \<Rightarrow> entry_body \<Rightarrow> response \<times> db" where
  "update_entry_route s user tid entryId body =
     (if \<not> isAdminOrHOD user then (Json 403 ''Access denied. Admin or HOD role required'', s)
      else case find (\<lambda>t. t_id t = tid) (timetables s) of
        None \<Rightarrow> (Json 404 ''Timetable not found'', s)
      | Some timetable \<Rightarrow>
          if u_role user = ''hod'' \<and> t_department timetable \<noteq> u_department user
          then (Json 403
            ''Access denied. You can only update entries in timetables for your department'', s)
          else if t_status timetable = ''published''
          then (Json 400 ''Cannot update entries in published timetable'', s)
          else
            (case find (\<lambda>e. e_id e = entryId \<and> timetableId e = t_id timetable) (entries s) of
               None \<Rightarrow> (Json 404 ''Timetable entry not found'', s)
             | Some entry \<Rightarrow>
                 let entry' = merged_entry entry body;
                     conflicts = (if changes_schedule body
                        then checkTimetableConflicts (entries s) (t_id timetable) (day entry')
                               (startTime entry') (endTime entry') (facultyId entry')
                               (batchId entry') (classroomId entry') (Some (e_id entry))
                        else [])
                 in
                 if body_day body = Some Sunday
                 then (Json 500 ''Server error while updating timetable entry'', s)
                 else if length conflicts > 0
                 then (JsonConflicts 400 ''Timetable entry conflicts with existing entries''
                         conflicts, s)
                 else (JsonEntry 200 ''Timetable entry updated successfully'' entry',
                       s\<lparr>entries := map (\<lambda>e. if e_id e = e_id entry then entry' else e)
                                        (entries s)\<rparr>)))"

text \<open>
  The invariant of the timetable: two entries of one timetable on the same day that
  share the faculty, the batch or the classroom do not overlap in time.
\<close>

definition shares_resource ::
  "'a TimetableEntryData_scheme \<Rightarrow> 'b TimetableEntryData_scheme \<Rightarrow> bool" where
  "shares_resource a b =
     (facultyId a = facultyId b \<or> batchId a = batchId b \<or> classroomId a = classroomId b)"

definition clash :: "'a TimetableEntryData_scheme \<Rightarrow> 'a TimetableEntryData_scheme \<Rightarrow> bool" where
  "clash a b =
     (timetableId a = timetableId b \<and> day a = day b \<and> shares_resource a b
      \<and> intervals_overlap (startTime a) (endTime a) (startTime b) (endTime b))"

definition conflict_free :: "'a TimetableEntryData_scheme list \<Rightarrow> bool" where
  "conflict_free es = (\<forall>i j. i < j \<and> j < length es \<longrightarrow> \<not> clash (es ! i) (es ! j))"

section \<open>Substitution routes\<close>

text \<open>
  The conflict query of the accept handler filters \<^verbatim>\<open>TimetableEntries\<close> by
  \<^verbatim>\<open>day: sequelize.literal(`EXTRACT(DOW FROM TIMESTAMP '...')`)\<close>: the \<^verbatim>\<open>day\<close> column,
  an enumeration of day names, is set equal to the day-of-week number (0 for Sunday
  to 6 for Saturday) of the date. PostgreSQL has no equality between an enumeration
  and a number: it rejects the comparison, and the query raises.
\<close>

datatype sql_value = SqlDayName weekday | SqlNumber nat

fun sql_eq :: "sql_value \<Rightarrow> sql_value \<Rightarrow> failure + bool" where
  "sql_eq (SqlDayName a) (SqlDayName b) = Inr (a = b)"
| "sql_eq (SqlNumber m) (SqlNumber n) = Inr (m = n)"
| "sql_eq (SqlDayName a) (SqlNumber n) = Inl DatabaseError"
| "sql_eq (SqlNumber n) (SqlDayName a) = Inl DatabaseError"

fun select_where :: "('r \<Rightarrow> failure + bool) \<Rightarrow> 'r list \<Rightarrow> failure + 'r list" where
  "select_where cond [] = Inr []"
| "select_where cond (r # rs) =
     (case cond r of
        Inl err \<Rightarrow> Inl err
      | Inr keep \<Rightarrow>
          (case select_where cond rs of
             Inl err \<Rightarrow> Inl err
           | Inr rest \<Rightarrow> Inr (if keep then r # rest else rest)))"

text \<open>
  1970-01-01 was a Thursday. \<open>getDay\<close> is the weekday of a calendar date, which is
  what \<^verbatim>\<open>EXTRACT(DOW FROM TIMESTAMP '...')\<close> computes for the date it is given.
\<close>

definition getDay :: "date \<Rightarrow> nat" where
  "getDay d = (d + 4) mod 7"

definition substitute_conflicts ::
  "TimetableEntry list \<Rightarrow> uuid \<Rightarrow> date \<Rightarrow> time \<Rightarrow> time \<Rightarrow> failure + TimetableEntry list" where
  "substitute_conflicts table fid dt st en =
     select_where
       (\<lambda>e. case sql_eq (SqlDayName (day e)) (SqlNumber (getDay dt)) of
               Inl err \<Rightarrow> Inl err
             | Inr sameDay \<Rightarrow> Inr (facultyId e = fid \<and> sameDay \<and> time_clauses st en e))
       table"

definition update_substitution :: "uuid \<Rightarrow> (Substitution \<Rightarrow> Substitution) \<Rightarrow> db \<Rightarrow> db" where
  "update_substitution i f s =
     s\<lparr>substitutions := map (\<lambda>x. if sub_id x = i then f x else x) (substitutions s)\<rparr>"

text \<open>
  The user of a faculty row (\<^verbatim>\<open>include: [{ model: User }]\<close>); reading a property
  of a missing one is a \<^verbatim>\<open>TypeError\<close>.
\<close>

definition faculty_user :: "db \<Rightarrow> uuid \<Rightarrow> User option" where
  "faculty_user s fid =
     (case find (\<lambda>f. f_id f = fid) (faculty s) of
        None \<Rightarrow> None
      | Some f \<Rightarrow> find (\<lambda>u. u_id u = f_userId f) (users s))"

text \<open>\<^verbatim>\<open>PUT /api/substitutions/:id/accept\<close>\<close>

definition accept_route :: "db \<Rightarrow> User \<Rightarrow> uuid \<Rightarrow> response \<times> db" where
  "accept_route s user subId =
     (if u_role user \<noteq> ''faculty''
      then (Json 403 ''Only faculty can accept substitution requests'', s)
      else case find (\<lambda>f. f_userId f = u_id user) (faculty s) of
        None \<Rightarrow> (Json 404 ''Faculty record not found'', s)
      | Some fac \<Rightarrow>
          (case find (\<lambda>x. sub_id x = subId) (substitutions s) of
             None \<Rightarrow> (Json 404 ''Substitution not found'', s)
           | Some substitution \<Rightarrow>
               if substituteFacultyId substitution \<noteq> Some (f_id fac)
                  \<and> substituteFacultyId substitution \<noteq> None
               then (Json 403
                 ''Access denied. You are not the requested substitute for this class'', s)
               else if sub_status substitution \<noteq> ''pending''
               then (Json 400 ''Only pending substitution requests can be accepted'', s)
               else
                 (case find (\<lambda>e. e_id e = timetableEntryId substitution) (entries s) of
                    None \<Rightarrow> (Json 500 ''Server error while accepting substitution'', s)
                  | Some te \<Rightarrow>
                      (case substitute_conflicts (entries s) (f_id fac) (sub_date substitution)
                              (startTime te) (endTime te) of
                         Inl err \<Rightarrow> (Json 500 ''Server error while accepting substitution'', s)
                       | Inr conflicts \<Rightarrow>
                           if length conflicts > 0
                           then (JsonConflicts 400
                             ''You have a scheduling conflict with this substitution'' conflicts, s)
                           else
                             let substitution' = substitution
                                   \<lparr>substituteFacultyId := Some (f_id fac),
                                    sub_status := ''accepted'', notificationSent := True\<rparr>
                             in (case faculty_user s (originalFacultyId substitution) of
                                   None \<Rightarrow>
                                     (Json 500 ''Server error while accepting substitution'', s)
                                 | Some originalUser \<Rightarrow>
                                     (JsonSubstitution 200
                                        ''Substitution request accepted successfully''
                                        substitution',
                                      update_substitution (sub_id substitution)
                                        (\<lambda>x. substitution') s))))))"

text \<open>
  The candidate query of the decline handler and of leave creation: \<^verbatim>\<open>Faculty\<close>
  joined with \<^verbatim>\<open>Users\<close> and the active \<^verbatim>\<open>FacultySubjects\<close> of the subject, in the
  department, without the excluded faculty, \<^verbatim>\<open>ORDER BY preference DESC\<close>.
\<close>

definition potentialSubstitutes ::
  "db \<Rightarrow> string \<Rightarrow> uuid \<Rightarrow> uuid list \<Rightarrow> FacultyPreference list" where
  "potentialSubstitutes s department subj excluded =
     sort_key (\<lambda>c. - fp_preference c)
       [\<lparr>fp_facultyId = f_id f, fp_preference = fs_preference fs\<rparr>.
          f \<leftarrow> faculty s, u \<leftarrow> users s, u_id u = f_userId f,
          fs \<leftarrow> facultySubjects s, fs_facultyId fs = f_id f,
          u_department u = department \<and> fs_subjectId fs = subj \<and> fs_isActive fs
          \<and> f_id f \<notin> set excluded]"

text \<open>
  The status column of a substitution request admits the values of its enumeration
  only: \<^verbatim>\<open>substitution.update\<close> with another status is refused and the handler
  leaves its \<^verbatim>\<open>try\<close> block. The updates that the decline and the assign handlers
  issue:
\<close>

definition set_status :: "string \<Rightarrow> Substitution \<Rightarrow> failure + Substitution" where
  "set_status v x =
     (if v \<in> set Substitution_status_ENUM then Inr (x\<lparr>sub_status := v\<rparr>)
      else Inl DatabaseError)"

definition decline_update :: "Substitution \<Rightarrow> failure + Substitution" where
  "decline_update x = set_status ''declined'' (x\<lparr>notificationSent := True\<rparr>)"

definition readdress_update :: "uuid \<Rightarrow> Substitution \<Rightarrow> failure + Substitution" where
  "readdress_update c x =
     set_status ''pending'' (x\<lparr>substituteFacultyId := Some c, notificationSent := False\<rparr>)"

definition assign_update :: "uuid \<Rightarrow> Substitution \<Rightarrow> failure + Substitution" where
  "assign_update fid x =
     set_status ''assigned'' (x\<lparr>substituteFacultyId := Some fid, notificationSent := True\<rparr>)"

text \<open>\<^verbatim>\<open>PUT /api/substitutions/:id/decline\<close>\<close>

definition decline_route :: "db \<Rightarrow> User \<Rightarrow> uuid \<Rightarrow> response \<times> db" where
  "decline_route s user subId =
     (if u_role user \<noteq> ''faculty''
      then (Json 403 ''Only faculty can decline substitution requests'', s)
      else case find (\<lambda>f. f_userId f = u_id user) (faculty s) of
        None \<Rightarrow> (Json 404 ''Faculty record not found'', s)
      | Some fac \<Rightarrow>
          (case find (\<lambda>x. sub_id x = subId) (substitutions s) of
             None \<Rightarrow> (Json 404 ''Substitution not found'', s)
           | Some substitution \<Rightarrow>
               if substituteFacultyId substitution \<noteq> Some (f_id fac)
               then (Json 403
                 ''Access denied. You are not the requested substitute for this class'', s)
               else if sub_status substitution \<noteq> ''pending''
               then (Json 400 ''Only pending substitution requests can be declined'', s)
               else
                 (case decline_update substitution of
                    Inl err \<Rightarrow> (Json 500 ''Server error while declining substitution'', s)
                  | Inr declined \<Rightarrow>
                 (case (faculty_user s (originalFacultyId substitution),
                           find (\<lambda>e. e_id e = timetableEntryId substitution) (entries s)) of
                       (Some originalUser, Some te) \<Rightarrow>
                         (case find (\<lambda>x. s_id x = subjectId te) (subjects s) of
                            None \<Rightarrow>
                              (JsonSubstitution 200 ''Substitution request declined successfully''
                                 declined,
                               update_substitution (sub_id substitution) (\<lambda>x. declined) s)
                          | Some subject \<Rightarrow>
                              (case potentialSubstitutes s (u_department originalUser)
                                      (s_id subject)
                                      [originalFacultyId substitution, f_id fac] of
                                 [] \<Rightarrow>
                                   (JsonSubstitution 200
                                      ''Substitution request declined successfully'' declined,
                                    update_substitution (sub_id substitution) (\<lambda>x. declined) s)
                               | newSubstitute # others \<Rightarrow>
                                   (case readdress_update (fp_facultyId newSubstitute) declined of
                                      Inl err \<Rightarrow>
                                        (Json 500 ''Server error while declining substitution'', s)
                                    | Inr readdressed \<Rightarrow>
                                        (JsonSubstitution 200
                                           ''Substitution request declined successfully''
                                           readdressed,
                                         update_substitution (sub_id substitution)
                                           (\<lambda>x. readdressed) s))))
                     | _ \<Rightarrow> (Json 500 ''Server error while declining substitution'', s)))))"

text \<open>
  \<^verbatim>\<open>PUT /api/substitutions/:id/assign\<close>; \<open>bodyFacultyId\<close> is \<^verbatim>\<open>req.body.facultyId\<close>.
  The users of the original and of the assigned faculty are read for a head of
  department before the conflict query, and for everybody after the update.
\<close>

definition assign_route :: "db \<Rightarrow> User \<Rightarrow> uuid \<Rightarrow> string option \<Rightarrow> response \<times> db" where
  "assign_route s user subId bodyFacultyId =
     (if u_role user \<noteq> ''admin'' \<and> u_role user \<noteq> ''hod''
      then (Json 403 ''Only admin or HOD can assign substitutions'', s)
      else if \<not> truthy bodyFacultyId then (Json 400 ''Faculty ID is required'', s)
      else case find (\<lambda>x. sub_id x = subId) (substitutions s) of
        None \<Rightarrow> (Json 404 ''Substitution not found'', s)
      | Some substitution \<Rightarrow>
          (case (if u_role user = ''hod''
                 then (case faculty_user s (originalFacultyId substitution) of
                         None \<Rightarrow> Inl TypeError
                       | Some originalUser \<Rightarrow>
                           Inr (u_department originalUser \<noteq> u_department user))
                 else Inr False) of
             Inl err \<Rightarrow> (Json 500 ''Server error while assigning substitution'', s)
           | Inr True \<Rightarrow>
               (Json 403
                  ''Access denied. You can only assign substitutions from your department'', s)
           | Inr False \<Rightarrow>
               (case find (\<lambda>f. f_id f = the bodyFacultyId) (faculty s) of
                  None \<Rightarrow> (Json 404 ''Faculty not found'', s)
                | Some fac \<Rightarrow>
                    (case (if u_role user = ''hod''
                           then (case find (\<lambda>u. u_id u = f_userId fac) (users s) of
                                   None \<Rightarrow> Inl TypeError
                                 | Some facultyUser \<Rightarrow>
                                     Inr (u_department facultyUser \<noteq> u_department user))
                           else Inr False) of
                       Inl err \<Rightarrow> (Json 500 ''Server error while assigning substitution'', s)
                     | Inr True \<Rightarrow>
                         (Json 403
                            ''Access denied. You can only assign faculty from your department'', s)
                     | Inr False \<Rightarrow>
                         (case find (\<lambda>e. e_id e = timetableEntryId substitution) (entries s) of
                            None \<Rightarrow> (Json 500 ''Server error while assigning substitution'', s)
                          | Some te \<Rightarrow>
                              (case substitute_conflicts (entries s) (f_id fac)
                                      (sub_date substitution) (startTime te) (endTime te) of
                                 Inl err \<Rightarrow>
                                   (Json 500 ''Server error while assigning substitution'', s)
                               | Inr conflicts \<Rightarrow>
                                   if length conflicts > 0
                                   then (JsonConflicts 400
                                     ''Faculty has a scheduling conflict with this substitution''
                                     conflicts, s)
                                   else
                                     (case assign_update (f_id fac) substitution of
                                        Inl err \<Rightarrow>
                                          (Json 500
                                             ''Server error while assigning substitution'', s)
                                      | Inr substitution' \<Rightarrow>
                                          (case (find (\<lambda>u. u_id u = f_userId fac) (users s),
                                                 faculty_user s (originalFacultyId substitution)) of
                                             (Some facultyUser, Some originalUser) \<Rightarrow>
                                               (JsonSubstitution 200
                                                  ''Faculty assigned to substitution successfully''
                                                  substitution',
                                                update_substitution (sub_id substitution)
                                                  (\<lambda>x. substitution') s)
                                           | _ \<Rightarrow>
                                               (Json 500
                                                  ''Server error while assigning substitution'',
                                                s)))))))))"

section \<open>Leave routes\<close>

definition daysOfWeek :: "weekday list" where
  "daysOfWeek = [Sunday, Monday, Tuesday, Wednesday, Thursday, Friday, Saturday]"

text \<open>
  \<^verbatim>\<open>Date.prototype.getDay()\<close> reads the weekday in the time zone of the server.
  The dates of a leave arrive as \<^verbatim>\<open>YYYY-MM-DD\<close> strings, which \<^verbatim>\<open>new Date\<close> reads
  as midnight UTC: on a server at or east of UTC the local weekday is the weekday of
  the date, on a server west of UTC it is the weekday of the day before. \<open>west\<close>
  tells which; the offset of the zone is taken to be the same over the dates of a
  leave.
\<close>

definition local_getDay :: "bool \<Rightarrow> date \<Rightarrow> nat" where
  "local_getDay west d = (if west then (d + 3) mod 7 else getDay d)"

text \<open>The two date loops run from the start date to the end date, a day at a time.\<close>

definition getDaysOfWeekBetweenDates :: "bool \<Rightarrow> date \<Rightarrow> date \<Rightarrow> weekday list" where
  "getDaysOfWeekBetweenDates west startDate endDate =
     fold (\<lambda>currentDate ds.
             let dayOfWeek = daysOfWeek ! local_getDay west currentDate
             in if dayOfWeek \<in> set ds then ds else ds @ [dayOfWeek])
       [startDate..<Suc endDate] []"

fun indexOf :: "'a list \<Rightarrow> 'a \<Rightarrow> nat option" where
  "indexOf [] x = None"
| "indexOf (y # ys) x = (if x = y then Some 0 else map_option Suc (indexOf ys x))"

definition getDatesByDayOfWeek :: "bool \<Rightarrow> weekday \<Rightarrow> date \<Rightarrow> date \<Rightarrow> date list" where
  "getDatesByDayOfWeek west dayOfWeek startDate endDate =
     (case indexOf daysOfWeek dayOfWeek of
        None \<Rightarrow> []
      | Some dayIndex \<Rightarrow> filter (\<lambda>currentDate. local_getDay west currentDate = dayIndex)
                           [startDate..<Suc endDate])"

record leave_body =
  body_startDate :: "date option"
  body_endDate :: "date option"
  body_reason :: "string option"
  body_leaveFacultyId :: "string option"

definition date_ms :: "date \<Rightarrow> nat" where
  "date_ms d = d * 86400000"

text \<open>
  \<^verbatim>\<open>entriesBySubject\<close>: the subject ids in the order of their first entry
  (the order of \<^verbatim>\<open>for ... in\<close> over the string keys), each with its entries.
\<close>

fun first_occurrences :: "'a list \<Rightarrow> 'a list" where
  "first_occurrences [] = []"
| "first_occurrences (x # xs) = x # filter (\<lambda>y. y \<noteq> x) (first_occurrences xs)"

definition entriesBySubject :: "TimetableEntry list \<Rightarrow> (uuid \<times> TimetableEntry list) list" where
  "entriesBySubject affected =
     map (\<lambda>sid. (sid, filter (\<lambda>e. subjectId e = sid) affected))
       (first_occurrences (map subjectId affected))"

text \<open>
  The substitution requests of one leave, in the order of their creation: per
  subject, per entry of the subject, per date of the entry's day of the week. The
  date of a request is the date the loop hands to \<^verbatim>\<open>Substitution.create\<close>.
\<close>

definition planned_substitutions ::
  "bool \<Rightarrow> db \<Rightarrow> string \<Rightarrow> uuid \<Rightarrow> date \<Rightarrow> date \<Rightarrow> TimetableEntry list
     \<Rightarrow> (uuid \<times> uuid option \<times> date) list" where
  "planned_substitutions west s department fid startDate endDate affected =
     concat (map (\<lambda>(sid, es).
        let candidates = potentialSubstitutes s department sid [fid]
        in concat (map (\<lambda>entry.
             map (\<lambda>dt. (e_id entry,
                        (if length candidates > 0 then Some (fp_facultyId (hd candidates))
                         else None),
                        dt))
               (getDatesByDayOfWeek west (day entry) startDate endDate)) es))
       (entriesBySubject affected))"

text \<open>
  \<^verbatim>\<open>Substitution.create\<close>, once per planned request. The column
  \<^verbatim>\<open>substituteFacultyId\<close> is declared \<^verbatim>\<open>allowNull: false\<close>: a request without
  substitute is refused, and with it the whole transaction.
\<close>

definition create_substitutions ::
  "(nat \<Rightarrow> uuid) \<Rightarrow> uuid \<Rightarrow> uuid \<Rightarrow> (uuid \<times> uuid option \<times> date) list
     \<Rightarrow> failure + Substitution list" where
  "create_substitutions newId fid leaveId plan =
     (if list_ex (\<lambda>(entryId, substitute, dt). substitute = None) plan
      then Inl DatabaseError
      else Inr (map (\<lambda>(k, (entryId, substitute, dt)).
            \<lparr>sub_id = newId k, timetableEntryId = entryId, originalFacultyId = fid,
             substituteFacultyId = substitute, sub_date = dt, leaveRequestId = Some leaveId,
             sub_status = ''pending'', notificationSent = False\<rparr>)
          (enumerate 0 plan)))"

definition affectedEntries :: "bool \<Rightarrow> db \<Rightarrow> uuid \<Rightarrow> date \<Rightarrow> date \<Rightarrow> TimetableEntry list" where
  "affectedEntries west s fid startDate endDate =
     filter (\<lambda>e. facultyId e = fid
                \<and> day e \<in> set (getDaysOfWeekBetweenDates west startDate endDate)
                \<and> list_ex (\<lambda>t. t_id t = timetableId e \<and> t_startDate t \<le> endDate
                              \<and> t_endDate t \<ge> startDate \<and> t_status t = ''published''
                              \<and> t_isActive t) (timetables s))
       (entries s)"

text \<open>
  The second half of \<^verbatim>\<open>POST /api/leaves\<close>, once the faculty is known:
  the overlap check, the leave request, the affected entries and their substitution
  requests.
\<close>

definition create_leave_for ::
  "bool \<Rightarrow> db \<Rightarrow> uuid \<Rightarrow> date \<Rightarrow> date \<Rightarrow> string \<Rightarrow> uuid \<Rightarrow> (nat \<Rightarrow> uuid) \<Rightarrow> response \<times> db" where
  "create_leave_for west s fid startDate endDate reason newLeaveId newId =
     (if list_ex (\<lambda>l. l_facultyId l = fid \<and> l_status l \<noteq> ''rejected''
                     \<and> ((startDate \<le> l_startDate l \<and> l_startDate l \<le> endDate)
                        \<or> (startDate \<le> l_endDate l \<and> l_endDate l \<le> endDate)
                        \<or> (l_startDate l \<le> startDate \<and> l_endDate l \<ge> endDate)))
           (leaveRequests s)
      then (Json 400 ''Overlapping leave request already exists for this period'', s)
      else
        let leaveRequest = \<lparr>l_id = newLeaveId, l_facultyId = fid, l_startDate = startDate,
              l_endDate = endDate, l_reason = reason, l_status = ''pending'',
              l_approvedBy = None\<rparr>
        in
        if Sunday \<in> set (getDaysOfWeekBetweenDates west startDate endDate)
        then (Json 500 ''Server error while creating leave request'', s)
        else
          let affected = affectedEntries west s fid startDate endDate
          in
          if length affected > 0
          then (case faculty_user s fid of
                  None \<Rightarrow> (Json 500 ''Server error while creating leave request'', s)
                | Some facultyUser \<Rightarrow>
                    (case create_substitutions newId fid newLeaveId
                            (planned_substitutions west s (u_department facultyUser) fid
                               startDate endDate affected) of
                       Inl err \<Rightarrow> (Json 500 ''Server error while creating leave request'', s)
                     | Inr created \<Rightarrow>
                         (JsonLeaveCreated 201 ''Leave request created successfully''
                            leaveRequest (length affected),
                          s\<lparr>leaveRequests := leaveRequests s @ [leaveRequest],
                            substitutions := substitutions s @ created\<rparr>)))
          else (JsonLeaveCreated 201 ''Leave request created successfully'' leaveRequest
                  (length affected),
                s\<lparr>leaveRequests := leaveRequests s @ [leaveRequest]\<rparr>))"

text \<open>\<^verbatim>\<open>POST /api/leaves\<close>; \<open>now\<close> is the clock in milliseconds.\<close>

definition create_leave_route ::
  "bool \<Rightarrow> db \<Rightarrow> User \<Rightarrow> leave_body \<Rightarrow> nat \<Rightarrow> uuid \<Rightarrow> (nat \<Rightarrow> uuid) \<Rightarrow> response \<times> db" where
  "create_leave_route west s user body now newLeaveId newId =
     (if body_startDate body = None \<or> body_endDate body = None \<or> \<not> truthy (body_reason body)
      then (Json 400 ''Please provide startDate, endDate, and reason'', s)
      else
        let startDate = the (body_startDate body); endDate = the (body_endDate body)
        in
        if startDate > endDate then (Json 400 ''Start date must be before end date'', s)
        else if date_ms startDate < now
        then (Json 400 ''Cannot create leave request for past dates'', s)
        else if u_role user = ''faculty'' \<or> u_role user = ''hod''
        then (case find (\<lambda>f. f_userId f = u_id user) (faculty s) of
                None \<Rightarrow> (Json 404 ''Faculty record not found'', s)
              | Some fac \<Rightarrow>
                  create_leave_for west s (f_id fac) startDate endDate (the (body_reason body))
                    newLeaveId newId)
        else if u_role user = ''admin'' \<and> truthy (body_leaveFacultyId body)
        then (case find (\<lambda>f. f_id f = the (body_leaveFacultyId body)) (faculty s) of
                None \<Rightarrow> (Json 404 ''Faculty not found'', s)
              | Some fac \<Rightarrow>
                  create_leave_for west s (f_id fac) startDate endDate (the (body_reason body))
                    newLeaveId newId)
        else (Json 400 ''Faculty ID is required for admin users'', s))"

text \<open>\<^verbatim>\<open>PUT /api/leaves/:id/approve\<close>\<close>

definition approve_leave_route :: "db \<Rightarrow> User \<Rightarrow> uuid \<Rightarrow> response \<times> db" where
  "approve_leave_route s user leaveId =
     (if \<not> isAdminOrHOD user then (Json 403 ''Access denied. Admin or HOD role required'', s)
      else case find (\<lambda>l. l_id l = leaveId) (leaveRequests s) of
        None \<Rightarrow> (Json 404 ''Leave request not found'', s)
      | Some leaveRequest \<Rightarrow>
          (case faculty_user s (l_facultyId leaveRequest) of
             None \<Rightarrow>
               if u_role user = ''hod''
               then (Json 500 ''Server error while approving leave request'', s)
               else if l_status leaveRequest \<noteq> ''pending''
               then (Json 400 ''Only pending leave requests can be approved'', s)
               else (Json 500 ''Server error while approving leave request'', s)
           | Some facultyUser \<Rightarrow>
               if u_role user = ''hod'' \<and> u_department facultyUser \<noteq> u_department user
               then (Json 403
                 ''Access denied. You can only approve leave requests from your department'', s)
               else if l_status leaveRequest \<noteq> ''pending''
               then (Json 400 ''Only pending leave requests can be approved'', s)
               else
                 let leaveRequest' = leaveRequest
                       \<lparr>l_status := ''approved'', l_approvedBy := Some (u_id user)\<rparr>
                 in (JsonLeave 200 ''Leave request approved successfully'' leaveRequest',
                     s\<lparr>leaveRequests := map (\<lambda>l. if l_id l = l_id leaveRequest
                                                  then leaveRequest' else l) (leaveRequests s),
                       substitutions := map (\<lambda>x. if leaveRequestId x = Some (l_id leaveRequest)
                                                  then x\<lparr>sub_status := ''pending''\<rparr> else x)
                                          (substitutions s)\<rparr>)))"

section \<open>Invariants of a generation run\<close>

text \<open>
  One committed session, as a relation between the state before and after: the
  entry that was pushed and the three marks, with what the searches had checked.
\<close>

definition mk_entry ::
  "uuid \<Rightarrow> session_type \<Rightarrow> Subject \<Rightarrow> Batch \<Rightarrow> weekday \<Rightarrow> TimeSlot \<Rightarrow> uuid \<Rightarrow> Classroom
     \<Rightarrow> TimetableEntryData" where
  "mk_entry tid ty subject batch d sl fid c =
     \<lparr>timetableId = tid, day = d, startTime = ts_start sl, endTime = ts_end sl,
      subjectId = s_id subject, facultyId = fid, batchId = b_id batch,
      classroomId = c_id c, type = ty\<rparr>"

definition placed ::
  "uuid \<Rightarrow> session_type \<Rightarrow> Subject \<Rightarrow> Batch \<Rightarrow> Classroom list \<Rightarrow> FacultyPreference list
     \<Rightarrow> gen_state \<Rightarrow> gen_state \<Rightarrow> bool" where
  "placed tid ty subject batch cs prefs st st' =
     (\<exists>d sl fp c fm bm cm.
        d \<in> set days \<and> sl \<in> set timeSlots \<and> fp \<in> set prefs \<and> c \<in> set cs
        \<and> as_faculty (gs_slots st) (fp_facultyId fp) = Some fm \<and> (d, sl) \<notin> set fm
        \<and> as_batch (gs_slots st) (b_id batch) = Some bm \<and> (d, sl) \<notin> set bm
        \<and> as_classroom (gs_slots st) (c_id c) = Some cm \<and> (d, sl) \<notin> set cm
        \<and> (c_isLab c \<longleftrightarrow> ty = practical) \<and> b_strength batch \<le> c_capacity c
        \<and> st' = \<lparr>gs_entries = gs_entries st
                      @ [mk_entry tid ty subject batch d sl (fp_facultyId fp) c],
                  gs_slots =
                    \<lparr>as_faculty = (as_faculty (gs_slots st))(fp_facultyId fp \<mapsto> (d, sl) # fm),
                     as_batch = (as_batch (gs_slots st))(b_id batch \<mapsto> (d, sl) # bm),
                     as_classroom = (as_classroom (gs_slots st))(c_id c \<mapsto> (d, sl) # cm)\<rparr>\<rparr>)"

text \<open>
  What the occupancy index records about the entries pushed so far.
\<close>

definition slot_of :: "'a TimetableEntryData_scheme \<Rightarrow> TimeSlot" where
  "slot_of e = \<lparr>ts_start = startTime e, ts_end = endTime e\<rparr>"

definition marked :: "(uuid \<rightharpoonup> day_map) \<Rightarrow> uuid \<Rightarrow> weekday \<Rightarrow> TimeSlot \<Rightarrow> bool" where
  "marked m k d sl = (\<exists>dm. m k = Some dm \<and> (d, sl) \<in> set dm)"

definition tracked :: "uuid \<Rightarrow> gen_state \<Rightarrow> bool" where
  "tracked tid st =
     (conflict_free (gs_entries st)
      \<and> (\<forall>e \<in> set (gs_entries st).
            timetableId e = tid \<and> slot_of e \<in> set timeSlots
            \<and> marked (as_faculty (gs_slots st)) (facultyId e) (day e) (slot_of e)
            \<and> marked (as_batch (gs_slots st)) (batchId e) (day e) (slot_of e)
            \<and> marked (as_classroom (gs_slots st)) (classroomId e) (day e) (slot_of e)))"

text \<open>What the classroom search guarantees for the entries pushed so far.\<close>

definition rooms_ok :: "Batch list \<Rightarrow> Classroom list \<Rightarrow> gen_state \<Rightarrow> bool" where
  "rooms_ok bs cs st =
     (\<forall>e \<in> set (gs_entries st). \<exists>c \<in> set cs. \<exists>b \<in> set bs.
        c_id c = classroomId e \<and> b_id b = batchId e
        \<and> b_strength b \<le> c_capacity c \<and> (c_isLab c \<longleftrightarrow> type e = practical))"

text \<open>
  The occupancy index has a day map for every faculty, batch and classroom of the
  three sets.
\<close>

definition doms_ok :: "uuid set \<Rightarrow> uuid set \<Rightarrow> uuid set \<Rightarrow> gen_state \<Rightarrow> bool" where
  "doms_ok F B C st =
     (F \<subseteq> dom (as_faculty (gs_slots st)) \<and> B \<subseteq> dom (as_batch (gs_slots st))
      \<and> C \<subseteq> dom (as_classroom (gs_slots st)))"

text \<open>
  One committed session with what the loop over the preferred faculty had seen: the
  faculty of the entry is at a position of the ranking, and every faculty at an
  earlier position was marked for the day and slot. And what the marks of the
  faculty stand for: an entry of the run.
\<close>

definition chosen ::
  "uuid \<Rightarrow> session_type \<Rightarrow> Subject \<Rightarrow> Batch \<Rightarrow> FacultyPreference list
     \<Rightarrow> gen_state \<Rightarrow> gen_state \<Rightarrow> bool" where
  "chosen tid ty subject batch prefs st st' =
     (\<exists>d sl j c fm. j < length prefs
        \<and> (\<forall>j' < j. marked (as_faculty (gs_slots st)) (fp_facultyId (prefs ! j')) d sl)
        \<and> as_faculty (gs_slots st) (fp_facultyId (prefs ! j)) = Some fm
        \<and> gs_entries st' = gs_entries st
             @ [mk_entry tid ty subject batch d sl (fp_facultyId (prefs ! j)) c]
        \<and> as_faculty (gs_slots st') =
             (as_faculty (gs_slots st))(fp_facultyId (prefs ! j) \<mapsto> (d, sl) # fm))"

definition justified :: "gen_state \<Rightarrow> bool" where
  "justified st =
     (\<forall>fid d sl. marked (as_faculty (gs_slots st)) fid d sl \<longrightarrow>
        (\<exists>x \<in> set (gs_entries st). facultyId x = fid \<and> day x = d \<and> slot_of x = sl))"

section \<open>Requirement units\<close>

text \<open>
  The sessions a subject asks for in a week, the requirement units of a run (every
  batch with every subject), and the units a run left without an entry.
\<close>

definition subject_units :: "Subject \<Rightarrow> nat" where
  "subject_units subject =
     nat (lectureHoursPerWeek subject) + nat (tutorialHoursPerWeek subject)
     + nat (practicalHoursPerWeek subject)"

definition required_units :: "Batch list \<Rightarrow> Subject list \<Rightarrow> nat" where
  "required_units bs ss = length bs * sum_list (map subject_units ss)"

definition unassigned_units :: "Batch list \<Rightarrow> Subject list \<Rightarrow> 'a list \<Rightarrow> nat" where
  "unassigned_units bs ss es = required_units bs ss - length es"

section \<open>Example data\<close>

text \<open>A stored entry: Monday 10:00 to 11:00, faculty f1, batch b1, classroom c1.\<close>

definition ex_entry :: TimetableEntry where
  "ex_entry =
     \<lparr>timetableId = ''t1'', day = Monday, startTime = hms 10 0 0, endTime = hms 11 0 0,
      subjectId = ''s1'', facultyId = ''f1'', batchId = ''b1'', classroomId = ''c1'',
      type = lecture, e_id = ''e1''\<rparr>"

text \<open>
  A department with one batch of 60, one subject of three lectures a week, three
  faculty of whom two teach the subject (preferences 4 and 9), a classroom for 70
  and a laboratory for 40.
\<close>

definition ex_timetable :: Timetable where
  "ex_timetable = \<lparr>t_id = ''t1'', t_department = ''CS'', t_semester = 3, t_startDate = 19723,
      t_endDate = 19900, t_status = ''draft'', t_isActive = True\<rparr>"

definition ex_admin :: User where
  "ex_admin = \<lparr>u_id = ''u0'', u_role = ''admin'', u_department = ''CS'', u_isActive = True\<rparr>"

definition ex_batch :: Batch where
  "ex_batch = \<lparr>b_id = ''b1'', b_department = ''CS'', b_semester = 3, b_strength = 60,
                  b_isActive = True\<rparr>"
definition ex_subject :: Subject where
  "ex_subject = \<lparr>s_id = ''s1'', s_department = ''CS'', s_semester = 3,
                   lectureHoursPerWeek = 3, tutorialHoursPerWeek = 0,
                   practicalHoursPerWeek = 0, s_isActive = True\<rparr>"
definition ex_faculty :: "Faculty list" where
  "ex_faculty = [\<lparr>f_id = ''f1'', f_userId = ''u1'', f_isActive = True\<rparr>,
                 \<lparr>f_id = ''f2'', f_userId = ''u2'', f_isActive = True\<rparr>,
                 \<lparr>f_id = ''f3'', f_userId = ''u3'', f_isActive = True\<rparr>]"
definition ex_classroom :: Classroom where
  "ex_classroom = \<lparr>c_id = ''c1'', c_capacity = 70, c_isLab = False, c_isActive = True\<rparr>"

definition ex_lab :: Classroom where
  "ex_lab = \<lparr>c_id = ''c2'', c_capacity = 40, c_isLab = True, c_isActive = True\<rparr>"

definition ex_classrooms :: "Classroom list" where
  "ex_classrooms = [ex_classroom, ex_lab]"
definition ex_facultySubjects :: "FacultySubject list" where
  "ex_facultySubjects = [\<lparr>fs_facultyId = ''f2'', fs_subjectId = ''s1'', fs_preference = 4,
                           fs_isActive = True\<rparr>,
                         \<lparr>fs_facultyId = ''f3'', fs_subjectId = ''s1'', fs_preference = 9,
                           fs_isActive = True\<rparr>]"

definition ex_first :: TimetableEntryData where
  "ex_first =
     \<lparr>timetableId = ''t1'', day = Monday, startTime = hms 9 0 0, endTime = hms 10 0 0,
      subjectId = ''s1'', facultyId = ''f3'', batchId = ''b1'', classroomId = ''c1'',
      type = lecture\<rparr>"

definition ex_generated :: "TimetableEntryData list" where
  "ex_generated =
     [ex_first,
      \<lparr>timetableId = ''t1'', day = Monday, startTime = hms 10 0 0, endTime = hms 11 0 0,
       subjectId = ''s1'', facultyId = ''f3'', batchId = ''b1'', classroomId = ''c1'',
       type = lecture\<rparr>,
      \<lparr>timetableId = ''t1'', day = Monday, startTime = hms 11 0 0, endTime = hms 12 0 0,
       subjectId = ''s1'', facultyId = ''f3'', batchId = ''b1'', classroomId = ''c1'',
       type = lecture\<rparr>]"

definition ex_users :: "User list" where
  "ex_users =
     [\<lparr>u_id = ''u1'', u_role = ''faculty'', u_department = ''CS'', u_isActive = True\<rparr>,
      \<lparr>u_id = ''u2'', u_role = ''faculty'', u_department = ''CS'', u_isActive = True\<rparr>,
      \<lparr>u_id = ''u3'', u_role = ''faculty'', u_department = ''CS'', u_isActive = True\<rparr>]"

definition ex_db :: db where
  "ex_db =
     \<lparr>timetables = [ex_timetable],
      entries = [ex_entry],
      batches = [ex_batch],
      subjects = [ex_subject],
      users = ex_users,
      faculty = ex_faculty,
      classrooms = ex_classrooms,
      facultySubjects = ex_facultySubjects,
      leaveRequests = [],
      substitutions = []\<rparr>"

definition ex_newId :: "nat \<Rightarrow> uuid" where
  "ex_newId k = ''new'' @ replicate k (CHR ''x'')"

text \<open>A request for Tuesday 10:00 to 11:00 with the resources of the stored entry.\<close>

definition ex_body :: entry_body where
  "ex_body =
     \<lparr>body_day = Some Tuesday, body_startTime = Some (hms 10 0 0),
      body_endTime = Some (hms 11 0 0), body_subjectId = Some ''s1'',
      body_facultyId = Some ''f1'', body_batchId = Some ''b1'',
      body_classroomId = Some ''c1'', body_type = None\<rparr>"

text \<open>A request that moves an entry to 14:00 to 15:00.\<close>

definition ex_move_body :: entry_body where
  "ex_move_body =
     \<lparr>body_day = None, body_startTime = Some (hms 14 0 0),
      body_endTime = Some (hms 15 0 0), body_subjectId = None,
      body_facultyId = None, body_batchId = None,
      body_classroomId = None, body_type = None\<rparr>"

text \<open>
  The subject with one practical session a week in addition (no laboratory holds the
  batch), and preference pairs with a tie.
\<close>

definition ex_subject_with_lab :: Subject where
  "ex_subject_with_lab = ex_subject\<lparr>practicalHoursPerWeek := 1\<rparr>"

definition ex_db_with_lab :: db where
  "ex_db_with_lab = ex_db\<lparr>subjects := [ex_subject_with_lab]\<rparr>"

definition ex_tied :: "FacultySubject list" where
  "ex_tied =
     [\<lparr>fs_facultyId = ''f2'', fs_subjectId = ''s1'', fs_preference = 5, fs_isActive = True\<rparr>,
      \<lparr>fs_facultyId = ''f3'', fs_subjectId = ''s1'', fs_preference = 5, fs_isActive = True\<rparr>,
      \<lparr>fs_facultyId = ''f1'', fs_subjectId = ''s1'', fs_preference = 7, fs_isActive = True\<rparr>]"

text \<open>
  A department with two batches and two classrooms; the tied pairs in the other
  order; and the entries of the two runs, which differ in the faculty \<open>g\<close> of the
  second batch.
\<close>

definition ex_batches :: "Batch list" where
  "ex_batches = [ex_batch, ex_batch\<lparr>b_id := ''b2''\<rparr>]"

definition ex_rooms :: "Classroom list" where
  "ex_rooms = [ex_classroom, ex_classroom\<lparr>c_id := ''c3''\<rparr>]"

definition ex_tied_swapped :: "FacultySubject list" where
  "ex_tied_swapped =
     [\<lparr>fs_facultyId = ''f3'', fs_subjectId = ''s1'', fs_preference = 5, fs_isActive = True\<rparr>,
      \<lparr>fs_facultyId = ''f2'', fs_subjectId = ''s1'', fs_preference = 5, fs_isActive = True\<rparr>,
      \<lparr>fs_facultyId = ''f1'', fs_subjectId = ''s1'', fs_preference = 7, fs_isActive = True\<rparr>]"

definition ex_lecture :: "uuid \<Rightarrow> nat \<Rightarrow> uuid \<Rightarrow> uuid \<Rightarrow> TimetableEntryData" where
  "ex_lecture b h f c =
     \<lparr>timetableId = ''t1'', day = Monday, startTime = hms h 0 0, endTime = hms (Suc h) 0 0,
      subjectId = ''s1'', facultyId = f, batchId = b, classroomId = c, type = lecture\<rparr>"

definition ex_tied_generated :: "uuid \<Rightarrow> TimetableEntryData list" where
  "ex_tied_generated g =
     [ex_lecture ''b1'' 9 ''f1'' ''c1'', ex_lecture ''b1'' 10 ''f1'' ''c1'',
      ex_lecture ''b1'' 11 ''f1'' ''c1'',
      ex_lecture ''b2'' 9 g ''c3'', ex_lecture ''b2'' 10 g ''c3'',
      ex_lecture ''b2'' 11 g ''c3'']"

text \<open>
  Two more requests for Tuesday 10:00 to 11:00: a practical session in the classroom
  that is no laboratory, and a lecture for the batch of 60 in the laboratory for 40.
\<close>

definition ex_practical_body :: entry_body where
  "ex_practical_body = ex_body\<lparr>body_type := Some practical\<rparr>"

definition ex_small_room_body :: entry_body where
  "ex_small_room_body = ex_body\<lparr>body_classroomId := Some ''c2''\<rparr>"

text \<open>
  The substitution examples. The faculty f2 teaches on Monday 10:00 to 11:00 (entry
  e9) and is asked to stand in on Monday 2024-01-01 (day 19723) for the entry e1 of
  the same hour, which the faculty f1 leaves. The user u2 is the faculty f2.
\<close>

definition ex_entry_g :: TimetableEntry where
  "ex_entry_g =
     \<lparr>timetableId = ''t1'', day = Monday, startTime = hms 10 0 0, endTime = hms 11 0 0,
      subjectId = ''s1'', facultyId = ''f2'', batchId = ''b2'', classroomId = ''c2'',
      type = lecture, e_id = ''e9''\<rparr>"

definition ex_offer :: Substitution where
  "ex_offer =
     \<lparr>sub_id = ''x1'', timetableEntryId = ''e1'', originalFacultyId = ''f1'',
      substituteFacultyId = Some ''f2'', sub_date = 19723, leaveRequestId = Some ''l1'',
      sub_status = ''pending'', notificationSent = False\<rparr>"

definition ex_user_g :: User where
  "ex_user_g = \<lparr>u_id = ''u2'', u_role = ''faculty'', u_department = ''CS'', u_isActive = True\<rparr>"

definition ex_sub_db :: db where
  "ex_sub_db = ex_db\<lparr>entries := [ex_entry, ex_entry_g], substitutions := [ex_offer]\<rparr>"

text \<open>
  A department where f2 is the only faculty with a preference for the subject, and a
  head of department who assigns f3 to the request.
\<close>

definition ex_lone_db :: db where
  "ex_lone_db = ex_sub_db\<lparr>facultySubjects :=
     [\<lparr>fs_facultyId = ''f2'', fs_subjectId = ''s1'', fs_preference = 4, fs_isActive = True\<rparr>]\<rparr>"

definition ex_hod :: User where
  "ex_hod = \<lparr>u_id = ''u9'', u_role = ''hod'', u_department = ''CS'', u_isActive = True\<rparr>"

text \<open>
  The leave examples. The timetable is published and the faculty f1 has a second
  entry of the subject, Wednesday 9:00 to 10:00. The leave of f1 runs from Monday
  2024-01-01 to Wednesday 2024-01-03 (days 19723 to 19725); the two requests are
  those of its Monday and of its Wednesday, both for f3.
\<close>

definition ex_entry_w :: TimetableEntry where
  "ex_entry_w =
     \<lparr>timetableId = ''t1'', day = Wednesday, startTime = hms 9 0 0, endTime = hms 10 0 0,
      subjectId = ''s1'', facultyId = ''f1'', batchId = ''b1'', classroomId = ''c1'',
      type = lecture, e_id = ''e2''\<rparr>"

definition ex_leave_db :: db where
  "ex_leave_db = ex_db\<lparr>timetables := [ex_timetable\<lparr>t_status := ''published''\<rparr>],
                        entries := [ex_entry, ex_entry_w]\<rparr>"

definition ex_leave :: LeaveRequest where
  "ex_leave = \<lparr>l_id = ''l1'', l_facultyId = ''f1'', l_startDate = 19723, l_endDate = 19725,
                 l_reason = ''conference'', l_status = ''pending'', l_approvedBy = None\<rparr>"

definition ex_leave_approved :: LeaveRequest where
  "ex_leave_approved = ex_leave\<lparr>l_status := ''approved'', l_approvedBy := Some ''u0''\<rparr>"

definition ex_offers :: "Substitution list" where
  "ex_offers =
     [\<lparr>sub_id = ex_newId 0, timetableEntryId = ''e1'', originalFacultyId = ''f1'',
       substituteFacultyId = Some ''f3'', sub_date = 19723, leaveRequestId = Some ''l1'',
       sub_status = ''pending'', notificationSent = False\<rparr>,
      \<lparr>sub_id = ex_newId 1, timetableEntryId = ''e2'', originalFacultyId = ''f1'',
       substituteFacultyId = Some ''f3'', sub_date = 19725, leaveRequestId = Some ''l1'',
       sub_status = ''pending'', notificationSent = False\<rparr>]"

definition ex_requested_db :: db where
  "ex_requested_db = ex_leave_db\<lparr>leaveRequests := [ex_leave], substitutions := ex_offers\<rparr>"

definition ex_unplanned_db :: db where
  "ex_unplanned_db = ex_leave_db\<lparr>leaveRequests := [ex_leave]\<rparr>"

text \<open>The user of f1 and the body of the request for that leave.\<close>

definition ex_user_f :: User where
  "ex_user_f = \<lparr>u_id = ''u1'', u_role = ''faculty'', u_department = ''CS'', u_isActive = True\<rparr>"

definition ex_leave_body :: leave_body where
  "ex_leave_body = \<lparr>body_startDate = Some 19723, body_endDate = Some 19725,
                      body_reason = Some ''conference'', body_leaveFacultyId = None\<rparr>"

section \<open>Eligible substitutes\<close>

text \<open>
  A faculty is eligible for a subject in a department, with a preference, when the
  candidate query has a row for it: a faculty row, its user in the department, and an
  active preference pair for the subject.
\<close>

definition eligible_substitute :: "db \<Rightarrow> string \<Rightarrow> uuid \<Rightarrow> uuid \<Rightarrow> int \<Rightarrow> bool" where
  "eligible_substitute s department subj fid pref =
     (\<exists>f \<in> set (faculty s). \<exists>u \<in> set (users s). \<exists>fs \<in> set (facultySubjects s).
        f_id f = fid \<and> u_id u = f_userId f \<and> fs_facultyId fs = f_id f
        \<and> u_department u = department \<and> fs_subjectId fs = subj \<and> fs_isActive fs
        \<and> fs_preference fs = pref)"

text \<open>
  The top-ranked candidate of a subject, the original faculty left out; what
  identifies a substitution request (entry, substitute, date); and the requests
  expected for a list of entries: one per entry and date of the entry's day of the
  week between the two dates, for the top-ranked candidate of the entry's subject.
\<close>

definition top_ranked :: "db \<Rightarrow> string \<Rightarrow> uuid \<Rightarrow> uuid \<Rightarrow> uuid option" where
  "top_ranked s department subj fid =
     (case potentialSubstitutes s department subj [fid] of
        [] \<Rightarrow> None
      | c # cs \<Rightarrow> Some (fp_facultyId c))"

definition offer_key :: "Substitution \<Rightarrow> uuid \<times> uuid option \<times> date" where
  "offer_key x = (timetableEntryId x, substituteFacultyId x, sub_date x)"

definition expected_offers ::
  "bool \<Rightarrow> db \<Rightarrow> string \<Rightarrow> uuid \<Rightarrow> date \<Rightarrow> date \<Rightarrow> TimetableEntry list
     \<Rightarrow> (uuid \<times> uuid option \<times> date) list" where
  "expected_offers west s department fid startDate endDate affected =
     concat (map (\<lambda>e. map (\<lambda>dt. (e_id e, top_ranked s department (subjectId e) fid, dt))
                         (getDatesByDayOfWeek west (day e) startDate endDate))
               affected)"

text \<open>
  The ranking of a run of the generator, read off its entries. A faculty is busy for
  an entry when an earlier entry of the run has it on the same day in the same slot.
  An entry is picked by rank when its faculty has a preference pair for the subject
  such that every pair of greater preference is busy, and so is every pair of equal
  preference that stands before it in the list of pairs.
\<close>

definition busy_at :: "TimetableEntryData list \<Rightarrow> TimetableEntryData \<Rightarrow> uuid \<Rightarrow> bool" where
  "busy_at earlier e fid =
     list_ex (\<lambda>x. facultyId x = fid \<and> day x = day e \<and> startTime x = startTime e
                 \<and> endTime x = endTime e) earlier"

definition picked_by_rank ::
  "FacultySubject list \<Rightarrow> TimetableEntryData list \<Rightarrow> TimetableEntryData \<Rightarrow> bool" where
  "picked_by_rank fss earlier e =
     list_ex (\<lambda>p. fp_facultyId p = facultyId e
        \<and> list_all (\<lambda>q. fp_preference p < fp_preference q \<longrightarrow> busy_at earlier e (fp_facultyId q))
            (preference_pairs fss (subjectId e))
        \<and> list_all (\<lambda>q. busy_at earlier e (fp_facultyId q))
            (takeWhile (\<lambda>q. q \<noteq> p)
               (filter (\<lambda>q. fp_preference q = fp_preference p)
                  (preference_pairs fss (subjectId e)))))
       (preference_pairs fss (subjectId e))"

definition ranked :: "FacultySubject list \<Rightarrow> TimetableEntryData list \<Rightarrow> bool" where
  "ranked fss es = list_all (\<lambda>i. picked_by_rank fss (take i es) (es ! i)) [0..<length es]"

section \<open>The room rules, on the stored entries\<close>

text \<open>
  The two room rules as the specification states them for every assignment: a
  practical entry is in a laboratory, and the classroom of an entry holds its batch.
\<close>

definition entry_classroom :: "db \<Rightarrow> 'a TimetableEntryData_scheme \<Rightarrow> Classroom option" where
  "entry_classroom s e = find (\<lambda>c. c_id c = classroomId e) (classrooms s)"

definition entry_batch :: "db \<Rightarrow> 'a TimetableEntryData_scheme \<Rightarrow> Batch option" where
  "entry_batch s e = find (\<lambda>b. b_id b = batchId e) (batches s)"

definition practical_in_lab :: "db \<Rightarrow> bool" where
  "practical_in_lab s =
     list_all (\<lambda>e. type e = practical \<longrightarrow>
                 (case entry_classroom s e of None \<Rightarrow> False | Some c \<Rightarrow> c_isLab c))
       (entries s)"

definition capacity_respected :: "db \<Rightarrow> bool" where
  "capacity_respected s =
     list_all (\<lambda>e. case (entry_classroom s e, entry_batch s e) of
                   (Some c, Some b) \<Rightarrow> b_strength b \<le> c_capacity c
                 | _ \<Rightarrow> False)
       (entries s)"

section \<open>Conflict detection: what the query selects\<close>

lemma checkTimetableConflicts_filter:
  "checkTimetableConflicts table tid d st en fid bid cid ex =
     filter (\<lambda>e. timetableId e = tid \<and> day e = d
                \<and> (facultyId e = fid \<or> batchId e = bid \<or> classroomId e = cid)
                \<and> (truthy ex \<longrightarrow> e_id e \<noteq> the ex)) table"
  by (auto simp: checkTimetableConflicts_def object_literal_def findAll_def
      where_matches_def Let_def intro: filter_cong)

text \<open>
  C1. The claim: the check reports a conflict exactly for the entries of the same day
  that share a resource and whose interval overlaps the candidate's, so that touching
  endpoints never conflict. The code: the object literal of the query has two
  \<^verbatim>\<open>[Op.or]\<close> keys, the second (the resources) replaces the first (the time clauses),
  and the query selects by timetable, day and resource alone. A candidate on Monday
  11:00 to 12:00 with the faculty of the stored entry of 10:00 to 11:00 is reported
  as a conflict although the two intervals only touch.
\<close>

theorem checkTimetableConflicts_touching_endpoints:
  "checkTimetableConflicts [ex_entry] ''t1'' Monday (hms 11 0 0) (hms 12 0 0)
      ''f1'' ''b2'' ''c2'' None = [ex_entry]
   \<and> \<not> intervals_overlap (hms 11 0 0) (hms 12 0 0) (startTime ex_entry) (endTime ex_entry)"
  by (simp add: checkTimetableConflicts_filter ex_entry_def intervals_overlap_def hms_def
      truthy_def)

section \<open>Entry lists without collisions\<close>

lemma conflict_free_sorted_wrt: "conflict_free es = sorted_wrt (\<lambda>a b. \<not> clash a b) es"
  by (auto simp: conflict_free_def sorted_wrt_iff_nth_less)

lemma conflict_free_snoc:
  "conflict_free (es @ [e]) = (conflict_free es \<and> (\<forall>x \<in> set es. \<not> clash x e))"
  by (auto simp: conflict_free_sorted_wrt sorted_wrt_append)

lemma clash_sym: "clash a b = clash b a"
  by (auto simp: clash_def shares_resource_def intervals_overlap_def)

lemma conflict_free_append:
  "conflict_free (xs @ ys) =
     (conflict_free xs \<and> conflict_free ys \<and> (\<forall>x \<in> set xs. \<forall>y \<in> set ys. \<not> clash x y))"
  by (auto simp: conflict_free_sorted_wrt sorted_wrt_append)

lemma conflict_free_filter: "conflict_free es \<Longrightarrow> conflict_free (filter P es)"
  by (simp add: conflict_free_sorted_wrt sorted_wrt_filter)

lemma conflict_free_distinct_elems:
  assumes "conflict_free es" and "i < length es" and "j < length es" and "i \<noteq> j"
  shows "\<not> clash (es ! i) (es ! j)"
proof (cases "i < j")
  case True
  with assms show ?thesis by (simp add: conflict_free_def)
next
  case False
  with assms have "j < i" by simp
  with assms have "\<not> clash (es ! j) (es ! i)" by (simp add: conflict_free_def)
  then show ?thesis by (simp add: clash_sym)
qed

lemma clash_with_id [simp]: "clash (with_id i a) (with_id j b) = clash a b"
  by (simp add: clash_def with_id_def shares_resource_def)

lemma length_bulkCreate [simp]: "length (bulkCreate newId es) = length es"
  by (simp add: bulkCreate_def)

lemma nth_bulkCreate:
  "i < length es \<Longrightarrow> bulkCreate newId es ! i = with_id (newId i) (es ! i)"
  by (simp add: bulkCreate_def nth_enumerate_eq)

lemma conflict_free_bulkCreate: "conflict_free (bulkCreate newId es) = conflict_free es"
  by (simp add: conflict_free_def nth_bulkCreate)

lemma timetableId_bulkCreate:
  "x \<in> set (bulkCreate newId es) \<Longrightarrow> \<exists>e \<in> set es. timetableId x = timetableId e"
  by (auto simp: bulkCreate_def with_id_def in_set_enumerate_eq)

lemma conflict_free_replace:
  assumes "distinct (map e_id es)" and "conflict_free es"
    and "\<And>x. x \<in> set es \<Longrightarrow> e_id x \<noteq> k \<Longrightarrow> \<not> clash x e'"
  shows "conflict_free (map (\<lambda>e. if e_id e = k then e' else e) es)"
  unfolding conflict_free_def
proof (intro allI impI)
  fix i j
  assume ij: "i < j \<and> j < length (map (\<lambda>e. if e_id e = k then e' else e) es)"
  then have i: "i < length es" and j: "j < length es" and ne: "i \<noteq> j" by simp_all
  have idne: "e_id (es ! i) \<noteq> e_id (es ! j)"
    using assms(1) i j ne by (simp add: distinct_conv_nth)
  have old: "\<not> clash (es ! i) (es ! j)"
    using assms(2) ij by (simp add: conflict_free_def)
  show "\<not> clash (map (\<lambda>e. if e_id e = k then e' else e) es ! i)
              (map (\<lambda>e. if e_id e = k then e' else e) es ! j)"
  proof (cases "e_id (es ! i) = k")
    case True
    with idne have "e_id (es ! j) \<noteq> k" by simp
    then have "\<not> clash (es ! j) e'" using assms(3) j by simp
    with True idne i j show ?thesis by (simp add: clash_sym)
  next
    case False
    show ?thesis
    proof (cases "e_id (es ! j) = k")
      case True
      have "\<not> clash (es ! i) e'" using assms(3) i False by simp
      with True False i j show ?thesis by simp
    next
      case F2: False
      with False old i j show ?thesis by simp
    qed
  qed
qed

lemma no_conflicts_no_clash:
  assumes "checkTimetableConflicts table (timetableId e) (day e) st en (facultyId e)
             (batchId e) (classroomId e) ex = []"
    and "x \<in> set table" and "truthy ex \<longrightarrow> e_id x \<noteq> the ex"
  shows "\<not> clash x e"
  using assms
  by (auto simp: checkTimetableConflicts_filter filter_empty_conv clash_def shares_resource_def)


section \<open>Generation: one committed session\<close>

lemma find_classroom_Some:
  "find_classroom ty batch d sl a cs = Inr (Some c) \<Longrightarrow>
     c \<in> set cs \<and> (c_isLab c \<longleftrightarrow> ty = practical) \<and> b_strength batch \<le> c_capacity c
     \<and> (\<exists>cm. as_classroom a (c_id c) = Some cm \<and> (d, sl) \<notin> set cm)"
proof (induction cs)
  case Nil
  then show ?case by simp
next
  case (Cons x xs)
  then show ?case
    by (auto simp: isSlotAssigned_def split: if_splits sum.splits option.splits)
qed

lemma commit_entry_eq:
  assumes "as_faculty (gs_slots st) fid = Some fm"
    and "as_batch (gs_slots st) (b_id batch) = Some bm"
    and "as_classroom (gs_slots st) (c_id c) = Some cm"
  shows "commit_entry tid ty subject batch d sl fid c st =
     Inr \<lparr>gs_entries = gs_entries st @ [mk_entry tid ty subject batch d sl fid c],
          gs_slots =
            \<lparr>as_faculty = (as_faculty (gs_slots st))(fid \<mapsto> (d, sl) # fm),
             as_batch = (as_batch (gs_slots st))(b_id batch \<mapsto> (d, sl) # bm),
             as_classroom = (as_classroom (gs_slots st))(c_id c \<mapsto> (d, sl) # cm)\<rparr>\<rparr>"
  using assms
  by (simp add: commit_entry_def markSlotAsAssigned_def mk_entry_def Let_def)

lemma try_faculty_placed:
  assumes "try_faculty tid ty subject batch cs d sl st fps = Inr (Some st')"
    and "d \<in> set days" and "sl \<in> set timeSlots" and "set fps \<subseteq> set prefs"
  shows "placed tid ty subject batch cs prefs st st'"
  using assms
proof (induction fps)
  case Nil
  then show ?case by simp
next
  case (Cons fp fps)
  show ?case
  proof (cases "as_faculty (gs_slots st) (fp_facultyId fp)")
    case None
    with Cons.prems show ?thesis by (simp add: isSlotAssigned_def)
  next
    case fm: (Some fm)
    show ?thesis
    proof (cases "(d, sl) \<in> set fm")
      case True
      with fm Cons show ?thesis by (simp add: isSlotAssigned_def)
    next
      case ffree: False
      show ?thesis
      proof (cases "as_batch (gs_slots st) (b_id batch)")
        case None
        with fm ffree Cons.prems show ?thesis by (simp add: isSlotAssigned_def)
      next
        case bm: (Some bm)
        show ?thesis
        proof (cases "(d, sl) \<in> set bm")
          case True
          with fm ffree bm Cons show ?thesis by (simp add: isSlotAssigned_def)
        next
          case bfree: False
          show ?thesis
          proof (cases "find_classroom ty batch d sl (gs_slots st) cs")
            case (Inl e)
            with fm ffree bm bfree Cons.prems show ?thesis by (simp add: isSlotAssigned_def)
          next
            case (Inr r)
            show ?thesis
            proof (cases r)
              case None
              with Inr fm ffree bm bfree Cons show ?thesis by (simp add: isSlotAssigned_def)
            next
              case (Some c)
              with Inr have fc: "find_classroom ty batch d sl (gs_slots st) cs = Inr (Some c)"
                by simp
              from find_classroom_Some[OF fc] obtain cm where
                c: "c \<in> set cs" "c_isLab c \<longleftrightarrow> ty = practical" "b_strength batch \<le> c_capacity c"
                  "as_classroom (gs_slots st) (c_id c) = Some cm" "(d, sl) \<notin> set cm"
                by blast
              have "st' = \<lparr>gs_entries = gs_entries st
                      @ [mk_entry tid ty subject batch d sl (fp_facultyId fp) c],
                  gs_slots =
                    \<lparr>as_faculty = (as_faculty (gs_slots st))(fp_facultyId fp \<mapsto> (d, sl) # fm),
                     as_batch = (as_batch (gs_slots st))(b_id batch \<mapsto> (d, sl) # bm),
                     as_classroom = (as_classroom (gs_slots st))(c_id c \<mapsto> (d, sl) # cm)\<rparr>\<rparr>"
                using Cons.prems(1) fm ffree bm bfree fc commit_entry_eq[OF fm bm c(4)]
                by (simp add: isSlotAssigned_def)
              moreover have "fp \<in> set prefs" using Cons.prems(4) by simp
              ultimately show ?thesis
                unfolding placed_def using Cons.prems(2,3) c fm ffree bm bfree by blast
            qed
          qed
        qed
      qed
    qed
  qed
qed

lemma try_slots_placed:
  assumes "try_slots tid ty subject batch cs prefs d st sls = Inr (Some st')"
    and "d \<in> set days" and "set sls \<subseteq> set timeSlots"
  shows "placed tid ty subject batch cs prefs st st'"
  using assms
proof (induction sls)
  case Nil
  then show ?case by simp
next
  case (Cons sl sls)
  then show ?case
    by (auto split: sum.splits option.splits intro: try_faculty_placed)
qed

lemma try_days_placed:
  assumes "try_days tid ty subject batch cs prefs st ds = Inr (Some st')"
    and "set ds \<subseteq> set days"
  shows "placed tid ty subject batch cs prefs st st'"
  using assms
proof (induction ds)
  case Nil
  then show ?case by simp
next
  case (Cons d ds)
  then show ?case
    by (auto split: sum.splits option.splits intro: try_slots_placed)
qed

lemma assign_loop_invariant:
  assumes "assign_loop n tid ty subject batch cs prefs st = Inr st'"
    and "P st"
    and "\<And>s s'. P s \<Longrightarrow> placed tid ty subject batch cs prefs s s' \<Longrightarrow> P s'"
  shows "P st'"
  using assms(1,2)
proof (induction n arbitrary: st)
  case 0
  then show ?case by simp
next
  case (Suc n)
  show ?case
  proof (cases "try_days tid ty subject batch cs prefs st days")
    case (Inl e)
    with Suc.prems show ?thesis by simp
  next
    case (Inr r)
    show ?thesis
    proof (cases r)
      case None
      with Inr Suc.prems show ?thesis by simp
    next
      case (Some s1)
      with Inr have td: "try_days tid ty subject batch cs prefs st days = Inr (Some s1)" by simp
      have "P s1" using assms(3)[OF Suc.prems(2) try_days_placed[OF td]] by simp
      moreover have "assign_loop n tid ty subject batch cs prefs s1 = Inr st'"
        using Suc.prems(1) td by simp
      ultimately show ?thesis using Suc.IH by blast
    qed
  qed
qed

lemma forEach_invariant:
  assumes "forEach body xs st = Inr st'"
    and "P st"
    and "\<And>x s s'. x \<in> set xs \<Longrightarrow> P s \<Longrightarrow> body x s = Inr s' \<Longrightarrow> P s'"
  shows "P st'"
  using assms
proof (induction xs arbitrary: st)
  case Nil
  then show ?case by simp
next
  case (Cons x xs)
  from Cons.prems(1) obtain s1 where b: "body x st = Inr s1" and r: "forEach body xs s1 = Inr st'"
    by (auto split: sum.splits)
  have p1: "P s1" using Cons.prems(3)[OF _ Cons.prems(2) b] by simp
  have step: "P s'" if "y \<in> set xs" "P s" "body y s = Inr s'" for y s s'
    using Cons.prems(3)[of y s s'] that by simp
  show ?case by (rule Cons.IH[OF r p1 step])
qed

lemma assign_subject_invariant:
  assumes "assign_subject tid cs fss batch subject st = Inr st'"
    and "P st"
    and "\<And>ty s s'. P s \<Longrightarrow>
          placed tid ty subject batch cs (facultyPreferences fss (s_id subject)) s s' \<Longrightarrow> P s'"
  shows "P st'"
proof -
  let ?prefs = "facultyPreferences fss (s_id subject)"
  from assms(1) obtain s1 s2 where
    a1: "assign_loop (nat (lectureHoursPerWeek subject)) tid lecture subject batch cs ?prefs st
           = Inr s1"
    and a2: "assign_loop (nat (tutorialHoursPerWeek subject)) tid tutorial subject batch cs ?prefs s1
           = Inr s2"
    and a3: "assign_loop (nat (practicalHoursPerWeek subject)) tid practical subject batch cs ?prefs s2
           = Inr st'"
    by (auto simp: assign_subject_def assignSessions_def split: sum.splits)
  have p1: "P s1"
    by (rule assign_loop_invariant[where P = P, OF a1 assms(2)]) (rule assms(3))
  have p2: "P s2"
    by (rule assign_loop_invariant[where P = P, OF a2 p1]) (rule assms(3))
  show ?thesis
    by (rule assign_loop_invariant[where P = P, OF a3 p2]) (rule assms(3))
qed

lemma generate_invariant:
  assumes "generateTimetableEntries timetable bs ss fs cs fss = Inr es"
    and "P \<lparr>gs_entries = [], gs_slots = init_assignedSlots fs bs cs\<rparr>"
    and "\<And>ty batch subject s s'. batch \<in> set bs \<Longrightarrow> subject \<in> set ss \<Longrightarrow> P s \<Longrightarrow>
          placed (t_id timetable) ty subject batch cs (facultyPreferences fss (s_id subject)) s s'
          \<Longrightarrow> P s'"
  shows "\<exists>st. P st \<and> gs_entries st = es"
proof -
  from assms(1) obtain st where
    f: "forEach (\<lambda>batch. forEach (assign_subject (t_id timetable) cs fss batch) ss) bs
          \<lparr>gs_entries = [], gs_slots = init_assignedSlots fs bs cs\<rparr> = Inr st"
    and es: "es = gs_entries st"
    by (auto simp: generateTimetableEntries_def split: sum.splits)
  have "P st"
  proof (rule forEach_invariant[where P = P, OF f assms(2)])
    fix batch s s'
    assume b: "batch \<in> set bs" and p: "P s"
      and i: "forEach (assign_subject (t_id timetable) cs fss batch) ss s = Inr s'"
    show "P s'"
    proof (rule forEach_invariant[where P = P, OF i p])
      fix subject s1 s2
      assume su: "subject \<in> set ss" and p1: "P s1"
        and a: "assign_subject (t_id timetable) cs fss batch subject s1 = Inr s2"
      show "P s2"
        by (rule assign_subject_invariant[where P = P, OF a p1]) (rule assms(3)[OF b su])
    qed
  qed
  with es show ?thesis by blast
qed


section \<open>Generation: the entries of a run do not collide\<close>

lemma slots_disjoint:
  "a \<in> set timeSlots \<Longrightarrow> b \<in> set timeSlots \<Longrightarrow> a \<noteq> b \<Longrightarrow>
     \<not> intervals_overlap (ts_start a) (ts_end a) (ts_start b) (ts_end b)"
  by (auto simp: timeSlots_def hms_def intervals_overlap_def)

lemma marked_upd:
  "marked m k d sl \<Longrightarrow> m k' = Some dm \<Longrightarrow> marked (m(k' \<mapsto> x # dm)) k d sl"
  by (auto simp: marked_def)

lemma marked_new: "marked (m(k \<mapsto> (d, sl) # dm)) k d sl"
  by (simp add: marked_def)

lemma not_marked: "m k = Some dm \<Longrightarrow> (d, sl) \<notin> set dm \<Longrightarrow> \<not> marked m k d sl"
  by (simp add: marked_def)

lemma tracked_placed:
  assumes "tracked tid st" and "placed tid ty subject batch cs prefs st st'"
  shows "tracked tid st'"
proof -
  from assms(2) obtain d sl fp c fm bm cm where all:
    "d \<in> set days \<and> sl \<in> set timeSlots \<and> fp \<in> set prefs \<and> c \<in> set cs
        \<and> as_faculty (gs_slots st) (fp_facultyId fp) = Some fm \<and> (d, sl) \<notin> set fm
        \<and> as_batch (gs_slots st) (b_id batch) = Some bm \<and> (d, sl) \<notin> set bm
        \<and> as_classroom (gs_slots st) (c_id c) = Some cm \<and> (d, sl) \<notin> set cm
        \<and> (c_isLab c \<longleftrightarrow> ty = practical) \<and> b_strength batch \<le> c_capacity c
        \<and> st' = \<lparr>gs_entries = gs_entries st
                      @ [mk_entry tid ty subject batch d sl (fp_facultyId fp) c],
                  gs_slots =
                    \<lparr>as_faculty = (as_faculty (gs_slots st))(fp_facultyId fp \<mapsto> (d, sl) # fm),
                     as_batch = (as_batch (gs_slots st))(b_id batch \<mapsto> (d, sl) # bm),
                     as_classroom = (as_classroom (gs_slots st))(c_id c \<mapsto> (d, sl) # cm)\<rparr>\<rparr>"
    unfolding placed_def by (elim exE) (rule that)
  then have sl: "sl \<in> set timeSlots"
    and fm: "as_faculty (gs_slots st) (fp_facultyId fp) = Some fm" "(d, sl) \<notin> set fm"
    and bm: "as_batch (gs_slots st) (b_id batch) = Some bm" "(d, sl) \<notin> set bm"
    and cm: "as_classroom (gs_slots st) (c_id c) = Some cm" "(d, sl) \<notin> set cm"
    and st': "st' = \<lparr>gs_entries = gs_entries st
                      @ [mk_entry tid ty subject batch d sl (fp_facultyId fp) c],
                  gs_slots =
                    \<lparr>as_faculty = (as_faculty (gs_slots st))(fp_facultyId fp \<mapsto> (d, sl) # fm),
                     as_batch = (as_batch (gs_slots st))(b_id batch \<mapsto> (d, sl) # bm),
                     as_classroom = (as_classroom (gs_slots st))(c_id c \<mapsto> (d, sl) # cm)\<rparr>\<rparr>"
    by blast+
  let ?new = "mk_entry tid ty subject batch d sl (fp_facultyId fp) c"
  have new_slot: "slot_of ?new = sl" by (simp add: slot_of_def mk_entry_def)
  have old: "\<forall>e \<in> set (gs_entries st).
            timetableId e = tid \<and> slot_of e \<in> set timeSlots
            \<and> marked (as_faculty (gs_slots st)) (facultyId e) (day e) (slot_of e)
            \<and> marked (as_batch (gs_slots st)) (batchId e) (day e) (slot_of e)
            \<and> marked (as_classroom (gs_slots st)) (classroomId e) (day e) (slot_of e)"
    and cf: "conflict_free (gs_entries st)"
    using assms(1) by (auto simp: tracked_def)
  have no_clash: "\<not> clash e ?new" if e: "e \<in> set (gs_entries st)" for e
  proof
    assume cl: "clash e ?new"
    then have dd: "day e = d" by (simp add: clash_def mk_entry_def)
    from cl have ov: "intervals_overlap (ts_start (slot_of e)) (ts_end (slot_of e))
                        (ts_start sl) (ts_end sl)"
      by (simp add: clash_def mk_entry_def slot_of_def)
    from old e have es: "slot_of e \<in> set timeSlots" by blast
    from slots_disjoint[OF es sl] ov have same: "slot_of e = sl" by blast
    from cl have "facultyId e = fp_facultyId fp \<or> batchId e = b_id batch
                  \<or> classroomId e = c_id c"
      by (simp add: clash_def shares_resource_def mk_entry_def)
    then show False
    proof (elim disjE)
      assume "facultyId e = fp_facultyId fp"
      with old e dd same have "marked (as_faculty (gs_slots st)) (fp_facultyId fp) d sl"
        by force
      with not_marked[of "as_faculty (gs_slots st)", OF fm] show False by blast
    next
      assume "batchId e = b_id batch"
      with old e dd same have "marked (as_batch (gs_slots st)) (b_id batch) d sl"
        by force
      with not_marked[of "as_batch (gs_slots st)", OF bm] show False by blast
    next
      assume "classroomId e = c_id c"
      with old e dd same have "marked (as_classroom (gs_slots st)) (c_id c) d sl"
        by force
      with not_marked[of "as_classroom (gs_slots st)", OF cm] show False by blast
    qed
  qed
  have cf': "conflict_free (gs_entries st')"
    using cf no_clash by (simp add: st' conflict_free_snoc)
  have new_ok: "timetableId ?new = tid \<and> slot_of ?new \<in> set timeSlots
            \<and> marked (as_faculty (gs_slots st')) (facultyId ?new) (day ?new) (slot_of ?new)
            \<and> marked (as_batch (gs_slots st')) (batchId ?new) (day ?new) (slot_of ?new)
            \<and> marked (as_classroom (gs_slots st')) (classroomId ?new) (day ?new) (slot_of ?new)"
    using sl by (simp add: st' new_slot marked_new) (simp add: mk_entry_def marked_new)
  have old_ok: "timetableId e = tid \<and> slot_of e \<in> set timeSlots
            \<and> marked (as_faculty (gs_slots st')) (facultyId e) (day e) (slot_of e)
            \<and> marked (as_batch (gs_slots st')) (batchId e) (day e) (slot_of e)
            \<and> marked (as_classroom (gs_slots st')) (classroomId e) (day e) (slot_of e)"
    if e: "e \<in> set (gs_entries st)" for e
    using old e fm(1) bm(1) cm(1) by (simp add: st' marked_upd)
  show ?thesis
    unfolding tracked_def using cf' new_ok old_ok by (auto simp: st')
qed

lemma generated_conflict_free:
  assumes "generateTimetableEntries timetable bs ss fs cs fss = Inr es"
  shows "conflict_free es \<and> (\<forall>e \<in> set es. timetableId e = t_id timetable)"
proof -
  have init: "tracked (t_id timetable) \<lparr>gs_entries = [], gs_slots = init_assignedSlots fs bs cs\<rparr>"
    by (simp add: tracked_def conflict_free_def)
  from generate_invariant[where P = "tracked (t_id timetable)", OF assms init]
  obtain st where "tracked (t_id timetable) st" "gs_entries st = es"
    using tracked_placed by blast
  then show ?thesis by (auto simp: tracked_def)
qed


section \<open>Timetable routes: what they do to the entries\<close>

lemma find_SomeD: "find P xs = Some x \<Longrightarrow> P x \<and> x \<in> set xs"
  by (auto simp: find_Some_iff)

lemma add_entry_route_entries:
  assumes "entries (snd (add_entry_route s user tid body newId)) \<noteq> entries s"
  obtains entry where
    "entries (snd (add_entry_route s user tid body newId)) = entries s @ [entry]"
    "checkTimetableConflicts (entries s) (timetableId entry) (day entry)
       (startTime entry) (endTime entry) (facultyId entry) (batchId entry)
       (classroomId entry) None = []"
proof (cases "find (\<lambda>t. t_id t = tid) (timetables s)")
  case None
  with assms show ?thesis by (simp add: add_entry_route_def split: if_splits)
next
  case (Some timetable)
  let ?entry = "new_entry (t_id timetable) body newId"
  from assms Some have
    "entries (snd (add_entry_route s user tid body newId)) = entries s @ [?entry]
     \<and> checkTimetableConflicts (entries s) (t_id timetable) (day ?entry)
       (startTime ?entry) (endTime ?entry) (facultyId ?entry) (batchId ?entry)
       (classroomId ?entry) None = []"
    by (simp add: add_entry_route_def Let_def split: if_splits)
  moreover have "timetableId ?entry = t_id timetable" by (simp add: new_entry_def)
  ultimately show ?thesis using that[of ?entry] by simp
qed

lemma update_entry_route_entries:
  assumes "entries (snd (update_entry_route s user tid entryId body)) \<noteq> entries s"
  obtains entry where "entry \<in> set (entries s)"
    "entries (snd (update_entry_route s user tid entryId body)) =
       map (\<lambda>e. if e_id e = e_id entry then merged_entry entry body else e) (entries s)"
    "changes_schedule body \<longrightarrow>
       checkTimetableConflicts (entries s) (timetableId entry) (day (merged_entry entry body))
         (startTime (merged_entry entry body)) (endTime (merged_entry entry body))
         (facultyId (merged_entry entry body)) (batchId (merged_entry entry body))
         (classroomId (merged_entry entry body)) (Some (e_id entry)) = []"
proof (cases "find (\<lambda>t. t_id t = tid) (timetables s)")
  case None
  with assms show ?thesis by (simp add: update_entry_route_def split: if_splits)
next
  case t: (Some timetable)
  show ?thesis
  proof (cases "find (\<lambda>e. e_id e = entryId \<and> timetableId e = t_id timetable) (entries s)")
    case None
    with assms t show ?thesis by (simp add: update_entry_route_def split: if_splits)
  next
    case e: (Some entry)
    from find_SomeD[OF e] have mem: "entry \<in> set (entries s)"
      and tt: "timetableId entry = t_id timetable" by simp_all
    from assms t e have
      "entries (snd (update_entry_route s user tid entryId body)) =
         map (\<lambda>e. if e_id e = e_id entry then merged_entry entry body else e) (entries s)
       \<and> (changes_schedule body \<longrightarrow>
         checkTimetableConflicts (entries s) (t_id timetable) (day (merged_entry entry body))
         (startTime (merged_entry entry body)) (endTime (merged_entry entry body))
         (facultyId (merged_entry entry body)) (batchId (merged_entry entry body))
         (classroomId (merged_entry entry body)) (Some (e_id entry)) = [])"
      by (simp add: update_entry_route_def Let_def split: if_splits)
    with mem tt show ?thesis using that[of entry] by simp
  qed
qed

lemma generate_route_entries:
  assumes "entries (snd (generate_route s user tid newId)) \<noteq> entries s"
  obtains timetable bs ss fs cs fss es where
    "t_id timetable = tid"
    "generateTimetableEntries timetable bs ss fs cs fss = Inr es"
    "entries (snd (generate_route s user tid newId)) =
       filter (\<lambda>e. timetableId e \<noteq> tid) (entries s) @ bulkCreate newId es"
proof (cases "find (\<lambda>t. t_id t = tid) (timetables s)")
  case None
  with assms show ?thesis by (simp add: generate_route_def split: if_splits)
next
  case t: (Some timetable)
  from find_SomeD[OF t] have tid: "t_id timetable = tid" by simp
  let ?bs = "filter (\<lambda>b. b_department b = t_department timetable
                              \<and> b_semester b = t_semester timetable \<and> b_isActive b) (batches s)"
  let ?ss = "filter (\<lambda>x. s_department x = t_department timetable
                              \<and> s_semester x = t_semester timetable \<and> s_isActive x) (subjects s)"
  let ?fs = "filter (\<lambda>f. f_isActive f
                              \<and> list_ex (\<lambda>u. u_id u = f_userId f
                                    \<and> u_department u = t_department timetable \<and> u_isActive u)
                                  (users s)) (faculty s)"
  let ?cs = "filter c_isActive (classrooms s)"
  let ?fss = "department_facultySubjects s (t_department timetable)"
  show ?thesis
  proof (cases "generateTimetableEntries timetable ?bs ?ss ?fs ?cs ?fss")
    case (Inl err)
    with assms t show ?thesis by (simp add: generate_route_def Let_def split: if_splits)
  next
    case (Inr es)
    from assms t Inr have
      "entries (snd (generate_route s user tid newId)) =
         filter (\<lambda>e. timetableId e \<noteq> tid) (entries s) @ bulkCreate newId es"
      by (simp add: generate_route_def Let_def tid split: if_splits)
    with tid Inr show ?thesis using that by blast
  qed
qed

lemma conflict_free_elems:
  assumes "conflict_free es" and "x \<in> set es" and "y \<in> set es" and "x \<noteq> y"
  shows "\<not> clash x y"
proof -
  from assms(2,3) obtain i j where "i < length es" "es ! i = x" "j < length es" "es ! j = y"
    by (auto simp: in_set_conv_nth)
  moreover from this assms(4) have "i \<noteq> j" by auto
  ultimately show ?thesis using conflict_free_distinct_elems[OF assms(1)] by blast
qed

lemma add_entry_route_conflict_free:
  assumes "conflict_free (entries s)"
  shows "conflict_free (entries (snd (add_entry_route s user tid body newId)))"
proof (cases "entries (snd (add_entry_route s user tid body newId)) = entries s")
  case True
  with assms show ?thesis by simp
next
  case False
  then obtain entry where
    a: "entries (snd (add_entry_route s user tid body newId)) = entries s @ [entry]"
    and c: "checkTimetableConflicts (entries s) (timetableId entry) (day entry)
       (startTime entry) (endTime entry) (facultyId entry) (batchId entry)
       (classroomId entry) None = []"
    by (rule add_entry_route_entries)
  have "\<not> clash x entry" if "x \<in> set (entries s)" for x
    by (rule no_conflicts_no_clash[OF c that]) (simp add: truthy_def)
  with assms show ?thesis by (simp add: a conflict_free_snoc)
qed

lemma merged_entry_same_schedule:
  assumes "\<not> changes_schedule body"
  shows "clash x (merged_entry entry body) = clash x entry"
  using assms
  by (auto simp: changes_schedule_def merged_entry_def clash_def shares_resource_def
      or_default_def or_else_def)

lemma update_entry_route_conflict_free:
  assumes "distinct (map e_id (entries s))" and "conflict_free (entries s)"
  shows "conflict_free (entries (snd (update_entry_route s user tid entryId body)))"
proof (cases "entries (snd (update_entry_route s user tid entryId body)) = entries s")
  case True
  with assms show ?thesis by simp
next
  case False
  then obtain entry where mem: "entry \<in> set (entries s)"
    and u: "entries (snd (update_entry_route s user tid entryId body)) =
       map (\<lambda>e. if e_id e = e_id entry then merged_entry entry body else e) (entries s)"
    and c: "changes_schedule body \<longrightarrow>
       checkTimetableConflicts (entries s) (timetableId entry) (day (merged_entry entry body))
         (startTime (merged_entry entry body)) (endTime (merged_entry entry body))
         (facultyId (merged_entry entry body)) (batchId (merged_entry entry body))
         (classroomId (merged_entry entry body)) (Some (e_id entry)) = []"
    by (rule update_entry_route_entries)
  have tt: "timetableId (merged_entry entry body) = timetableId entry"
    by (simp add: merged_entry_def)
  have "\<not> clash x (merged_entry entry body)"
    if x: "x \<in> set (entries s)" and ne: "e_id x \<noteq> e_id entry" for x
  proof (cases "changes_schedule body")
    case True
    from c True have "checkTimetableConflicts (entries s)
         (timetableId (merged_entry entry body)) (day (merged_entry entry body))
         (startTime (merged_entry entry body)) (endTime (merged_entry entry body))
         (facultyId (merged_entry entry body)) (batchId (merged_entry entry body))
         (classroomId (merged_entry entry body)) (Some (e_id entry)) = []"
      by (simp add: tt)
    then show ?thesis
      by (rule no_conflicts_no_clash[OF _ x]) (simp add: ne)
  next
    case False
    from ne have "x \<noteq> entry" by auto
    with assms(2) x mem have "\<not> clash x entry" by (rule conflict_free_elems)
    with False show ?thesis by (simp add: merged_entry_same_schedule)
  qed
  with assms show ?thesis unfolding u by (intro conflict_free_replace) 
qed

lemma generate_route_conflict_free:
  assumes "conflict_free (entries s)"
  shows "conflict_free (entries (snd (generate_route s user tid newId)))"
proof (cases "entries (snd (generate_route s user tid newId)) = entries s")
  case True
  with assms show ?thesis by simp
next
  case False
  then obtain timetable bs ss fs cs fss es where
    tid: "t_id timetable = tid"
    and g: "generateTimetableEntries timetable bs ss fs cs fss = Inr es"
    and e: "entries (snd (generate_route s user tid newId)) =
       filter (\<lambda>e. timetableId e \<noteq> tid) (entries s) @ bulkCreate newId es"
    by (rule generate_route_entries)
  from generated_conflict_free[OF g] tid have cf: "conflict_free es"
    and tt: "\<forall>e \<in> set es. timetableId e = tid" by simp_all
  have cross: "\<not> clash x y"
    if "x \<in> set (filter (\<lambda>e. timetableId e \<noteq> tid) (entries s))"
      and "y \<in> set (bulkCreate newId es)" for x y
  proof -
    from timetableId_bulkCreate[OF that(2)] tt have "timetableId y = tid" by auto
    with that(1) show ?thesis by (auto simp: clash_def)
  qed
  show ?thesis
    unfolding e conflict_free_append
    using assms cf cross by (simp add: conflict_free_filter conflict_free_bulkCreate)
qed

lemma generate_route_establishes:
  assumes "fst (generate_route s user tid newId) = JsonEntriesCount 200 msg n"
  shows "conflict_free (filter (\<lambda>e. timetableId e = tid)
           (entries (snd (generate_route s user tid newId))))"
proof (cases "find (\<lambda>t. t_id t = tid) (timetables s)")
  case None
  with assms show ?thesis by (simp add: generate_route_def split: if_splits)
next
  case t: (Some timetable)
  from find_SomeD[OF t] have tid: "t_id timetable = tid" by simp
  let ?bs = "filter (\<lambda>b. b_department b = t_department timetable
                              \<and> b_semester b = t_semester timetable \<and> b_isActive b) (batches s)"
  let ?ss = "filter (\<lambda>x. s_department x = t_department timetable
                              \<and> s_semester x = t_semester timetable \<and> s_isActive x) (subjects s)"
  let ?fs = "filter (\<lambda>f. f_isActive f
                              \<and> list_ex (\<lambda>u. u_id u = f_userId f
                                    \<and> u_department u = t_department timetable \<and> u_isActive u)
                                  (users s)) (faculty s)"
  let ?cs = "filter c_isActive (classrooms s)"
  let ?fss = "department_facultySubjects s (t_department timetable)"
  show ?thesis
  proof (cases "generateTimetableEntries timetable ?bs ?ss ?fs ?cs ?fss")
    case (Inl err)
    with assms t show ?thesis by (simp add: generate_route_def Let_def split: if_splits)
  next
    case (Inr es)
    from assms t Inr have e:
      "entries (snd (generate_route s user tid newId)) =
         filter (\<lambda>e. timetableId e \<noteq> tid) (entries s) @ bulkCreate newId es"
      by (auto simp: generate_route_def Let_def tid split: if_splits)
    from generated_conflict_free[OF Inr] have cf: "conflict_free es" by simp
    have "filter (\<lambda>e. timetableId e = tid) (filter (\<lambda>e. timetableId e \<noteq> tid) (entries s)) = []"
      by (simp add: filter_empty_conv)
    then show ?thesis
      unfolding e using cf by (simp add: conflict_free_filter conflict_free_bulkCreate)
  qed
qed


section \<open>The example department\<close>

lemma ex_facultyPreferences:
  "facultyPreferences ex_facultySubjects ''s1'' =
     [\<lparr>fp_facultyId = ''f3'', fp_preference = 9\<rparr>, \<lparr>fp_facultyId = ''f2'', fp_preference = 4\<rparr>]"
  by (simp add: facultyPreferences_def preference_pairs_def ex_facultySubjects_def)

lemma ex_generateTimetableEntries:
  "generateTimetableEntries ex_timetable [ex_batch] [ex_subject] ex_faculty ex_classrooms
     ex_facultySubjects = Inr ex_generated"
  by (simp add: generateTimetableEntries_def assign_subject_def assignSessions_def
     ex_subject_def ex_facultyPreferences numeral_3_eq_3 days_def timeSlots_def
     ex_classrooms_def ex_classroom_def ex_lab_def isSlotAssigned_def init_assignedSlots_def
     ex_faculty_def ex_batch_def commit_entry_def markSlotAsAssigned_def ex_timetable_def hms_def
     ex_generated_def ex_first_def)

lemma ex_department_facultySubjects:
  "department_facultySubjects ex_db ''CS'' = ex_facultySubjects"
  by (simp add: department_facultySubjects_def ex_db_def ex_facultySubjects_def ex_faculty_def
      ex_users_def)

lemma ex_generate_route:
  "generate_route ex_db ex_admin ''t1'' ex_newId =
     (JsonEntriesCount 200 ''Timetable generated successfully'' 3,
      ex_db\<lparr>entries := bulkCreate ex_newId ex_generated,
            timetables := [ex_timetable\<lparr>t_status := ''pending_approval''\<rparr>]\<rparr>)"
proof -
  have bs: "b_department ex_batch = ''CS''" "b_semester ex_batch = 3" "b_isActive ex_batch"
    by (simp_all add: ex_batch_def)
  have ss: "s_department ex_subject = ''CS''" "s_semester ex_subject = 3" "s_isActive ex_subject"
    by (simp_all add: ex_subject_def)
  have fs: "filter (\<lambda>f. f_isActive f \<and> list_ex (\<lambda>u. u_id u = f_userId f
                \<and> u_department u = ''CS'' \<and> u_isActive u) ex_users) ex_faculty = ex_faculty"
    by (simp add: ex_faculty_def ex_users_def)
  have cs: "filter c_isActive ex_classrooms = ex_classrooms"
    by (simp add: ex_classrooms_def ex_classroom_def ex_lab_def)
  have t: "find (\<lambda>t. t_id t = ''t1'') (timetables ex_db) = Some ex_timetable"
    by (simp add: ex_db_def ex_timetable_def)
  have tf: "t_department ex_timetable = ''CS''" "t_semester ex_timetable = 3"
    "t_status ex_timetable = ''draft''" "t_id ex_timetable = ''t1''"
    by (simp_all add: ex_timetable_def)
  have sel: "batches ex_db = [ex_batch]" "subjects ex_db = [ex_subject]"
    "faculty ex_db = ex_faculty" "classrooms ex_db = ex_classrooms" "users ex_db = ex_users"
    "entries ex_db = [ex_entry]" "timetables ex_db = [ex_timetable]"
    by (simp_all add: ex_db_def)
  have ne: "ex_faculty \<noteq> []" "ex_classrooms \<noteq> []"
    by (simp_all add: ex_faculty_def ex_classrooms_def)
  have old: "timetableId ex_entry = ''t1''" by (simp add: ex_entry_def)
  have len: "length ex_generated = 3" by (simp add: ex_generated_def)
  show ?thesis
    by (simp add: generate_route_def t tf sel bs ss fs cs ex_department_facultySubjects
        ex_generateTimetableEntries ne isAdminOrHOD_def ex_admin_def old len)
qed


lemma ex_add_entry_route:
  "add_entry_route ex_db ex_admin ''t1'' ex_body ''e2'' =
     (JsonEntry 201 ''Timetable entry added successfully'' (new_entry ''t1'' ex_body ''e2''),
      ex_db\<lparr>entries := [ex_entry, new_entry ''t1'' ex_body ''e2'']\<rparr>)"
proof -
  have t: "find (\<lambda>t. t_id t = ''t1'') (timetables ex_db) = Some ex_timetable"
    by (simp add: ex_db_def ex_timetable_def)
  have tf: "t_status ex_timetable = ''draft''" "t_id ex_timetable = ''t1''"
    by (simp_all add: ex_timetable_def)
  have m: "\<not> missing_fields ex_body" "the (body_day ex_body) = Tuesday"
    by (simp_all add: missing_fields_def ex_body_def truthy_def)
  have c: "checkTimetableConflicts [ex_entry] ''t1'' (day (new_entry ''t1'' ex_body ''e2''))
      (startTime (new_entry ''t1'' ex_body ''e2'')) (endTime (new_entry ''t1'' ex_body ''e2''))
      (facultyId (new_entry ''t1'' ex_body ''e2'')) (batchId (new_entry ''t1'' ex_body ''e2''))
      (classroomId (new_entry ''t1'' ex_body ''e2'')) None = []"
    by (simp add: checkTimetableConflicts_filter ex_entry_def new_entry_def ex_body_def)
  have e: "entries ex_db = [ex_entry]" by (simp add: ex_db_def)
  show ?thesis
    by (simp add: add_entry_route_def t tf m c isAdminOrHOD_def ex_admin_def Let_def e)
qed

lemma ex_update_entry_route:
  "update_entry_route ex_db ex_admin ''t1'' ''e1'' ex_move_body =
     (JsonEntry 200 ''Timetable entry updated successfully'' (merged_entry ex_entry ex_move_body),
      ex_db\<lparr>entries := [merged_entry ex_entry ex_move_body]\<rparr>)"
proof -
  have t: "find (\<lambda>t. t_id t = ''t1'') (timetables ex_db) = Some ex_timetable"
    by (simp add: ex_db_def ex_timetable_def)
  have tf: "t_status ex_timetable = ''draft''" "t_id ex_timetable = ''t1''"
    by (simp_all add: ex_timetable_def)
  have f: "e_id ex_entry = ''e1''" "timetableId ex_entry = ''t1''"
    by (simp_all add: ex_entry_def)
  have m: "changes_schedule ex_move_body" "body_day ex_move_body = None"
    by (simp_all add: changes_schedule_def ex_move_body_def)
  have c: "checkTimetableConflicts [ex_entry] ''t1'' (day (merged_entry ex_entry ex_move_body))
      (startTime (merged_entry ex_entry ex_move_body)) (endTime (merged_entry ex_entry ex_move_body))
      (facultyId (merged_entry ex_entry ex_move_body)) (batchId (merged_entry ex_entry ex_move_body))
      (classroomId (merged_entry ex_entry ex_move_body)) (Some ''e1'') = []"
    by (simp add: checkTimetableConflicts_filter ex_entry_def truthy_def)
  have e: "entries ex_db = [ex_entry]" by (simp add: ex_db_def)
  show ?thesis
    by (simp add: update_entry_route_def t tf f m c isAdminOrHOD_def ex_admin_def Let_def e)
qed

section \<open>The invariant of the timetable\<close>

text \<open>
  C2. Two entries of one timetable on the same day that share the faculty, the batch
  or the classroom never overlap in time (intervals that only touch do not overlap).
  Generation establishes this for the timetable it fills, whatever was stored before:
  its entries replace the old ones and do not collide with each other. Generation,
  the addition of an entry and the update of an entry (on rows with distinct primary
  keys) each keep the stored entries free of collisions.
\<close>

theorem timetable_entries_never_collide:
  "(fst (generate_route s user tid newId) = JsonEntriesCount 200 msg n \<longrightarrow>
      conflict_free (filter (\<lambda>e. timetableId e = tid)
        (entries (snd (generate_route s user tid newId)))))
   \<and> (conflict_free (entries s) \<longrightarrow>
        conflict_free (entries (snd (generate_route s user tid newId))))
   \<and> (conflict_free (entries s) \<longrightarrow>
        conflict_free (entries (snd (add_entry_route s user tid body newEntryId))))
   \<and> (distinct (map e_id (entries s)) \<and> conflict_free (entries s) \<longrightarrow>
        conflict_free (entries (snd (update_entry_route s user tid entryId body))))"
  using generate_route_establishes generate_route_conflict_free add_entry_route_conflict_free
    update_entry_route_conflict_free
  by blast

theorem timetable_entries_never_collide_witness:
  "conflict_free (entries ex_db) \<and> distinct (map e_id (entries ex_db))
   \<and> fst (generate_route ex_db ex_admin ''t1'' ex_newId) =
       JsonEntriesCount 200 ''Timetable generated successfully'' 3
   \<and> entries (snd (generate_route ex_db ex_admin ''t1'' ex_newId)) =
       bulkCreate ex_newId ex_generated
   \<and> conflict_free (filter (\<lambda>e. timetableId e = ''t1'')
        (entries (snd (generate_route ex_db ex_admin ''t1'' ex_newId))))
   \<and> conflict_free (entries (snd (generate_route ex_db ex_admin ''t1'' ex_newId)))
   \<and> entries (snd (add_entry_route ex_db ex_admin ''t1'' ex_body ''e2'')) =
       [ex_entry, new_entry ''t1'' ex_body ''e2'']
   \<and> conflict_free (entries (snd (add_entry_route ex_db ex_admin ''t1'' ex_body ''e2'')))
   \<and> entries (snd (update_entry_route ex_db ex_admin ''t1'' ''e1'' ex_move_body)) =
       [merged_entry ex_entry ex_move_body]
   \<and> conflict_free (entries (snd (update_entry_route ex_db ex_admin ''t1'' ''e1'' ex_move_body)))"
proof -
  have cf: "conflict_free (entries ex_db)"
    by (simp add: ex_db_def conflict_free_def)
  have d: "distinct (map e_id (entries ex_db))"
    by (simp add: ex_db_def)
  have g: "fst (generate_route ex_db ex_admin ''t1'' ex_newId) =
       JsonEntriesCount 200 ''Timetable generated successfully'' 3"
    by (simp add: ex_generate_route)
  note inst = timetable_entries_never_collide[of ex_db ex_admin "''t1''" ex_newId
      "''Timetable generated successfully''" 3 ex_body "''e2''"]
  note inst2 = timetable_entries_never_collide[of ex_db ex_admin "''t1''" ex_newId
      "''Timetable generated successfully''" 3 ex_move_body "''e2''" "''e1''"]
  from inst cf g d inst2 show ?thesis
    by (simp add: ex_generate_route ex_add_entry_route ex_update_entry_route)
qed


section \<open>Generation: the classroom of an entry\<close>

lemma rooms_ok_placed:
  assumes "rooms_ok bs cs st" and "batch \<in> set bs"
    and "placed tid ty subject batch cs prefs st st'"
  shows "rooms_ok bs cs st'"
proof -
  from assms(3) obtain d sl fp c fm bm cm where all:
    "d \<in> set days \<and> sl \<in> set timeSlots \<and> fp \<in> set prefs \<and> c \<in> set cs
        \<and> as_faculty (gs_slots st) (fp_facultyId fp) = Some fm \<and> (d, sl) \<notin> set fm
        \<and> as_batch (gs_slots st) (b_id batch) = Some bm \<and> (d, sl) \<notin> set bm
        \<and> as_classroom (gs_slots st) (c_id c) = Some cm \<and> (d, sl) \<notin> set cm
        \<and> (c_isLab c \<longleftrightarrow> ty = practical) \<and> b_strength batch \<le> c_capacity c
        \<and> st' = \<lparr>gs_entries = gs_entries st
                      @ [mk_entry tid ty subject batch d sl (fp_facultyId fp) c],
                  gs_slots =
                    \<lparr>as_faculty = (as_faculty (gs_slots st))(fp_facultyId fp \<mapsto> (d, sl) # fm),
                     as_batch = (as_batch (gs_slots st))(b_id batch \<mapsto> (d, sl) # bm),
                     as_classroom = (as_classroom (gs_slots st))(c_id c \<mapsto> (d, sl) # cm)\<rparr>\<rparr>"
    unfolding placed_def by (elim exE) (rule that)
  then have c: "c \<in> set cs" "c_isLab c \<longleftrightarrow> ty = practical" "b_strength batch \<le> c_capacity c"
    and es: "gs_entries st' = gs_entries st @ [mk_entry tid ty subject batch d sl (fp_facultyId fp) c]"
    by simp_all
  have new: "\<exists>c' \<in> set cs. \<exists>b \<in> set bs.
        c_id c' = classroomId (mk_entry tid ty subject batch d sl (fp_facultyId fp) c)
        \<and> b_id b = batchId (mk_entry tid ty subject batch d sl (fp_facultyId fp) c)
        \<and> b_strength b \<le> c_capacity c'
        \<and> (c_isLab c' \<longleftrightarrow> type (mk_entry tid ty subject batch d sl (fp_facultyId fp) c) = practical)"
    using c assms(2) by (auto simp: mk_entry_def)
  show ?thesis
    unfolding rooms_ok_def es using assms(1) new by (auto simp: rooms_ok_def)
qed

lemma generated_rooms_ok:
  assumes "generateTimetableEntries timetable bs ss fs cs fss = Inr es" and "e \<in> set es"
  shows "\<exists>c \<in> set cs. \<exists>b \<in> set bs.
        c_id c = classroomId e \<and> b_id b = batchId e
        \<and> b_strength b \<le> c_capacity c \<and> (c_isLab c \<longleftrightarrow> type e = practical)"
proof -
  have init: "rooms_ok bs cs \<lparr>gs_entries = [], gs_slots = init_assignedSlots fs bs cs\<rparr>"
    by (simp add: rooms_ok_def)
  from generate_invariant[where P = "rooms_ok bs cs", OF assms(1) init]
  obtain st where "rooms_ok bs cs st" "gs_entries st = es"
    using rooms_ok_placed by blast
  with assms(2) show ?thesis by (simp add: rooms_ok_def)
qed

lemma distinct_ids_unique:
  assumes "distinct (map f xs)" and "x \<in> set xs" and "y \<in> set xs" and "f x = f y"
  shows "x = y"
  using assms by (meson distinct_map inj_onD)

text \<open>
  C7, as amended. Every practical entry that generation produces is in a laboratory,
  and every other entry that generation produces is in a classroom that is no
  laboratory (the search skips laboratories for lectures and tutorials, so none is
  used even when no regular classroom fits). The classroom is the one of the
  catalog with the entry's classroom id. Entries added by hand are not covered:
  see the counterexample.
\<close>

theorem generated_room_kind:
  assumes "generateTimetableEntries timetable bs ss fs cs fss = Inr es"
    and "e \<in> set es" and "distinct (map c_id cs)"
  shows "(\<exists>c \<in> set cs. c_id c = classroomId e)
     \<and> (\<forall>c \<in> set cs. c_id c = classroomId e \<longrightarrow> (c_isLab c \<longleftrightarrow> type e = practical))"
proof -
  from generated_rooms_ok[OF assms(1,2)] obtain c where
    c: "c \<in> set cs" "c_id c = classroomId e" "c_isLab c \<longleftrightarrow> type e = practical"
    by blast
  have "c' = c" if "c' \<in> set cs" "c_id c' = classroomId e" for c'
    using distinct_ids_unique[OF assms(3) that(1) c(1)] that(2) c(2) by simp
  with c show ?thesis by blast
qed

theorem generated_room_kind_witness:
  "generateTimetableEntries ex_timetable [ex_batch] [ex_subject] ex_faculty ex_classrooms
     ex_facultySubjects = Inr ex_generated
   \<and> ex_first \<in> set ex_generated \<and> distinct (map c_id ex_classrooms)
   \<and> ex_classroom \<in> set ex_classrooms \<and> c_id ex_classroom = classroomId ex_first
   \<and> type ex_first = lecture
   \<and> (c_isLab ex_classroom \<longleftrightarrow> type ex_first = practical)"
proof -
  have m: "ex_first \<in> set ex_generated" by (simp add: ex_generated_def)
  have d: "distinct (map c_id ex_classrooms)"
    by (simp add: ex_classrooms_def ex_classroom_def ex_lab_def)
  have c: "ex_classroom \<in> set ex_classrooms" "c_id ex_classroom = classroomId ex_first"
    "type ex_first = lecture"
    by (simp_all add: ex_classrooms_def ex_classroom_def ex_first_def)
  from generated_room_kind[OF ex_generateTimetableEntries m d] c
  have "c_isLab ex_classroom \<longleftrightarrow> type ex_first = practical" by blast
  with ex_generateTimetableEntries m d c show ?thesis by simp
qed

text \<open>
  C7 as stated also covers entries added by hand. The add handler checks conflicts
  only: a practical session is accepted in a classroom that is no laboratory.
\<close>

theorem manual_entry_room_kind_counterexample:
  "practical_in_lab ex_db
   \<and> fst (add_entry_route ex_db ex_admin ''t1'' ex_practical_body ''e2'') =
       JsonEntry 201 ''Timetable entry added successfully''
         (new_entry ''t1'' ex_practical_body ''e2'')
   \<and> type (new_entry ''t1'' ex_practical_body ''e2'') = practical
   \<and> entry_classroom ex_db (new_entry ''t1'' ex_practical_body ''e2'') = Some ex_classroom
   \<and> \<not> c_isLab ex_classroom
   \<and> \<not> practical_in_lab (snd (add_entry_route ex_db ex_admin ''t1'' ex_practical_body ''e2''))"
proof -
  have t: "find (\<lambda>t. t_id t = ''t1'') (timetables ex_db) = Some ex_timetable"
    by (simp add: ex_db_def ex_timetable_def)
  have tf: "t_status ex_timetable = ''draft''" "t_id ex_timetable = ''t1''"
    by (simp_all add: ex_timetable_def)
  have m: "\<not> missing_fields ex_practical_body" "the (body_day ex_practical_body) = Tuesday"
    by (simp_all add: missing_fields_def ex_practical_body_def ex_body_def truthy_def)
  have c: "checkTimetableConflicts [ex_entry] ''t1''
      (day (new_entry ''t1'' ex_practical_body ''e2''))
      (startTime (new_entry ''t1'' ex_practical_body ''e2''))
      (endTime (new_entry ''t1'' ex_practical_body ''e2''))
      (facultyId (new_entry ''t1'' ex_practical_body ''e2''))
      (batchId (new_entry ''t1'' ex_practical_body ''e2''))
      (classroomId (new_entry ''t1'' ex_practical_body ''e2'')) None = []"
    by (simp add: checkTimetableConflicts_filter ex_entry_def new_entry_def ex_practical_body_def
        ex_body_def)
  have e: "entries ex_db = [ex_entry]" by (simp add: ex_db_def)
  have r: "add_entry_route ex_db ex_admin ''t1'' ex_practical_body ''e2'' =
     (JsonEntry 201 ''Timetable entry added successfully''
        (new_entry ''t1'' ex_practical_body ''e2''),
      ex_db\<lparr>entries := [ex_entry, new_entry ''t1'' ex_practical_body ''e2'']\<rparr>)"
    by (simp add: add_entry_route_def t tf m c isAdminOrHOD_def ex_admin_def Let_def e)
  have k: "type (new_entry ''t1'' ex_practical_body ''e2'') = practical"
    "classroomId (new_entry ''t1'' ex_practical_body ''e2'') = ''c1''"
    by (simp_all add: new_entry_def ex_practical_body_def ex_body_def or_default_def)
  have cl: "classrooms ex_db = ex_classrooms" by (simp add: ex_db_def)
  have ec: "entry_classroom ex_db (new_entry ''t1'' ex_practical_body ''e2'') = Some ex_classroom"
    by (simp add: entry_classroom_def k cl ex_classrooms_def ex_classroom_def)
  have nl: "\<not> c_isLab ex_classroom" by (simp add: ex_classroom_def)
  have before: "practical_in_lab ex_db"
    by (simp add: practical_in_lab_def e ex_entry_def)
  have after: "\<not> practical_in_lab (ex_db\<lparr>entries := [ex_entry, new_entry ''t1'' ex_practical_body ''e2'']\<rparr>)"
    using ec nl by (simp add: practical_in_lab_def k entry_classroom_def)
  from r k ec nl before after show ?thesis by simp
qed

text \<open>
  C8, as amended. For every entry that generation produces, the capacity of its
  classroom is at least the strength of its batch. Entries added by hand are not
  covered: see the counterexample.
\<close>

theorem generated_room_capacity:
  assumes "generateTimetableEntries timetable bs ss fs cs fss = Inr es"
    and "e \<in> set es" and "distinct (map c_id cs)" and "distinct (map b_id bs)"
  shows "(\<exists>c \<in> set cs. \<exists>b \<in> set bs. c_id c = classroomId e \<and> b_id b = batchId e)
     \<and> (\<forall>c \<in> set cs. \<forall>b \<in> set bs. c_id c = classroomId e \<and> b_id b = batchId e
           \<longrightarrow> b_strength b \<le> c_capacity c)"
proof -
  from generated_rooms_ok[OF assms(1,2)] obtain c b where
    c: "c \<in> set cs" "c_id c = classroomId e" and b: "b \<in> set bs" "b_id b = batchId e"
    and le: "b_strength b \<le> c_capacity c"
    by blast
  have "c' = c" if "c' \<in> set cs" "c_id c' = classroomId e" for c'
    using distinct_ids_unique[OF assms(3) that(1) c(1)] that(2) c(2) by simp
  moreover have "b' = b" if "b' \<in> set bs" "b_id b' = batchId e" for b'
    using distinct_ids_unique[OF assms(4) that(1) b(1)] that(2) b(2) by simp
  ultimately show ?thesis using c b le by blast
qed


theorem generated_room_capacity_witness:
  "generateTimetableEntries ex_timetable [ex_batch] [ex_subject] ex_faculty ex_classrooms
     ex_facultySubjects = Inr ex_generated
   \<and> ex_first \<in> set ex_generated \<and> distinct (map c_id ex_classrooms)
   \<and> distinct (map b_id [ex_batch])
   \<and> ex_classroom \<in> set ex_classrooms \<and> c_id ex_classroom = classroomId ex_first
   \<and> ex_batch \<in> set [ex_batch] \<and> b_id ex_batch = batchId ex_first
   \<and> b_strength ex_batch = 60 \<and> c_capacity ex_classroom = 70
   \<and> b_strength ex_batch \<le> c_capacity ex_classroom"
proof -
  have m: "ex_first \<in> set ex_generated" by (simp add: ex_generated_def)
  have d: "distinct (map c_id ex_classrooms)"
    by (simp add: ex_classrooms_def ex_classroom_def ex_lab_def)
  have d2: "distinct (map b_id [ex_batch])" by simp
  have c: "ex_classroom \<in> set ex_classrooms" "c_id ex_classroom = classroomId ex_first"
    "ex_batch \<in> set [ex_batch]" "b_id ex_batch = batchId ex_first"
    "b_strength ex_batch = 60" "c_capacity ex_classroom = 70"
    by (simp_all add: ex_classrooms_def ex_classroom_def ex_first_def ex_batch_def)
  from generated_room_capacity[OF ex_generateTimetableEntries m d d2] c(1-4)
  have "b_strength ex_batch \<le> c_capacity ex_classroom" by blast
  with ex_generateTimetableEntries m d d2 c show ?thesis by simp
qed

text \<open>
  C8 as stated also covers entries added by hand. The add handler accepts a lecture
  for the batch of 60 in the laboratory for 40.
\<close>

theorem manual_entry_capacity_counterexample:
  "capacity_respected ex_db
   \<and> fst (add_entry_route ex_db ex_admin ''t1'' ex_small_room_body ''e2'') =
       JsonEntry 201 ''Timetable entry added successfully''
         (new_entry ''t1'' ex_small_room_body ''e2'')
   \<and> entry_classroom ex_db (new_entry ''t1'' ex_small_room_body ''e2'') = Some ex_lab
   \<and> entry_batch ex_db (new_entry ''t1'' ex_small_room_body ''e2'') = Some ex_batch
   \<and> c_capacity ex_lab < b_strength ex_batch
   \<and> \<not> capacity_respected (snd (add_entry_route ex_db ex_admin ''t1'' ex_small_room_body ''e2''))"
proof -
  have t: "find (\<lambda>t. t_id t = ''t1'') (timetables ex_db) = Some ex_timetable"
    by (simp add: ex_db_def ex_timetable_def)
  have tf: "t_status ex_timetable = ''draft''" "t_id ex_timetable = ''t1''"
    by (simp_all add: ex_timetable_def)
  have m: "\<not> missing_fields ex_small_room_body" "the (body_day ex_small_room_body) = Tuesday"
    by (simp_all add: missing_fields_def ex_small_room_body_def ex_body_def truthy_def)
  have c: "checkTimetableConflicts [ex_entry] ''t1''
      (day (new_entry ''t1'' ex_small_room_body ''e2''))
      (startTime (new_entry ''t1'' ex_small_room_body ''e2''))
      (endTime (new_entry ''t1'' ex_small_room_body ''e2''))
      (facultyId (new_entry ''t1'' ex_small_room_body ''e2''))
      (batchId (new_entry ''t1'' ex_small_room_body ''e2''))
      (classroomId (new_entry ''t1'' ex_small_room_body ''e2'')) None = []"
    by (simp add: checkTimetableConflicts_filter ex_entry_def new_entry_def ex_small_room_body_def
        ex_body_def)
  have e: "entries ex_db = [ex_entry]" by (simp add: ex_db_def)
  have r: "add_entry_route ex_db ex_admin ''t1'' ex_small_room_body ''e2'' =
     (JsonEntry 201 ''Timetable entry added successfully''
        (new_entry ''t1'' ex_small_room_body ''e2''),
      ex_db\<lparr>entries := [ex_entry, new_entry ''t1'' ex_small_room_body ''e2'']\<rparr>)"
    by (simp add: add_entry_route_def t tf m c isAdminOrHOD_def ex_admin_def Let_def e)
  have k: "classroomId (new_entry ''t1'' ex_small_room_body ''e2'') = ''c2''"
    "batchId (new_entry ''t1'' ex_small_room_body ''e2'') = ''b1''"
    by (simp_all add: new_entry_def ex_small_room_body_def ex_body_def)
  have cl: "classrooms ex_db = ex_classrooms" "batches ex_db = [ex_batch]"
    by (simp_all add: ex_db_def)
  have ec: "entry_classroom ex_db (new_entry ''t1'' ex_small_room_body ''e2'') = Some ex_lab"
    by (simp add: entry_classroom_def k cl ex_classrooms_def ex_classroom_def ex_lab_def)
  have eb: "entry_batch ex_db (new_entry ''t1'' ex_small_room_body ''e2'') = Some ex_batch"
    by (simp add: entry_batch_def k cl ex_batch_def)
  have lt: "c_capacity ex_lab < b_strength ex_batch" by (simp add: ex_lab_def ex_batch_def)
  have before: "capacity_respected ex_db"
    by (simp add: capacity_respected_def e entry_classroom_def entry_batch_def cl
        ex_classrooms_def ex_classroom_def ex_entry_def ex_batch_def)
  have after: "\<not> capacity_respected
      (ex_db\<lparr>entries := [ex_entry, new_entry ''t1'' ex_small_room_body ''e2'']\<rparr>)"
    using ec eb lt by (simp add: capacity_respected_def entry_classroom_def entry_batch_def)
  from r ec eb lt before after show ?thesis by simp
qed


section \<open>Generation: a run ends, and what the handler answers\<close>

lemma find_classroom_total:
  "c_id ` set cs \<subseteq> dom (as_classroom a) \<Longrightarrow> \<exists>r. find_classroom ty batch d sl a cs = Inr r"
  by (induction cs) (auto simp: isSlotAssigned_def)

lemma try_faculty_total:
  assumes "fp_facultyId ` set fps \<subseteq> dom (as_faculty (gs_slots st))"
    and "b_id batch \<in> dom (as_batch (gs_slots st))"
    and "c_id ` set cs \<subseteq> dom (as_classroom (gs_slots st))"
  shows "\<exists>r. try_faculty tid ty subject batch cs d sl st fps = Inr r"
  using assms(1)
proof (induction fps)
  case Nil
  then show ?case by simp
next
  case (Cons fp fps)
  then obtain fm where fm: "as_faculty (gs_slots st) (fp_facultyId fp) = Some fm" by auto
  from assms(2) obtain bm where bm: "as_batch (gs_slots st) (b_id batch) = Some bm" by auto
  from Cons have ih: "\<exists>r. try_faculty tid ty subject batch cs d sl st fps = Inr r" by simp
  from find_classroom_total[OF assms(3)] obtain r where
    fc: "find_classroom ty batch d sl (gs_slots st) cs = Inr r" by blast
  show ?case
  proof (cases r)
    case None
    with fc fm bm ih show ?thesis by (simp add: isSlotAssigned_def)
  next
    case (Some c)
    with fc have fc': "find_classroom ty batch d sl (gs_slots st) cs = Inr (Some c)" by simp
    from find_classroom_Some[OF fc'] obtain cm where
      cm: "as_classroom (gs_slots st) (c_id c) = Some cm" by blast
    from commit_entry_eq[OF fm bm cm] fc' fm bm ih show ?thesis
      by (simp add: isSlotAssigned_def)
  qed
qed

lemma try_slots_total:
  assumes "fp_facultyId ` set prefs \<subseteq> dom (as_faculty (gs_slots st))"
    and "b_id batch \<in> dom (as_batch (gs_slots st))"
    and "c_id ` set cs \<subseteq> dom (as_classroom (gs_slots st))"
  shows "\<exists>r. try_slots tid ty subject batch cs prefs d st sls = Inr r"
proof (induction sls)
  case Nil
  then show ?case by simp
next
  case (Cons sl sls)
  from try_faculty_total[OF assms] obtain r where
    "try_faculty tid ty subject batch cs d sl st prefs = Inr r" by blast
  with Cons show ?case by (cases r) auto
qed

lemma try_days_total:
  assumes "fp_facultyId ` set prefs \<subseteq> dom (as_faculty (gs_slots st))"
    and "b_id batch \<in> dom (as_batch (gs_slots st))"
    and "c_id ` set cs \<subseteq> dom (as_classroom (gs_slots st))"
  shows "\<exists>r. try_days tid ty subject batch cs prefs st ds = Inr r"
proof (induction ds)
  case Nil
  then show ?case by simp
next
  case (Cons d ds)
  from try_slots_total[OF assms] obtain r where
    "try_slots tid ty subject batch cs prefs d st timeSlots = Inr r" by blast
  with Cons show ?case by (cases r) auto
qed

lemma placed_grows:
  assumes "placed tid ty subject batch cs prefs st st'"
  shows "dom (as_faculty (gs_slots st)) \<subseteq> dom (as_faculty (gs_slots st'))
     \<and> dom (as_batch (gs_slots st)) \<subseteq> dom (as_batch (gs_slots st'))
     \<and> dom (as_classroom (gs_slots st)) \<subseteq> dom (as_classroom (gs_slots st'))
     \<and> length (gs_entries st') = Suc (length (gs_entries st))"
  using assms unfolding placed_def by (elim exE conjE) auto

lemma doms_ok_placed:
  "doms_ok F B C st \<Longrightarrow> placed tid ty subject batch cs prefs st st' \<Longrightarrow> doms_ok F B C st'"
  using placed_grows unfolding doms_ok_def by blast

lemma assign_loop_total:
  assumes "fp_facultyId ` set prefs \<subseteq> F" and "b_id batch \<in> B" and "c_id ` set cs \<subseteq> C"
    and "doms_ok F B C st"
  shows "\<exists>st'. assign_loop n tid ty subject batch cs prefs st = Inr st' \<and> doms_ok F B C st'
           \<and> length (gs_entries st') \<le> length (gs_entries st) + n"
  using assms(4)
proof (induction n arbitrary: st)
  case 0
  then show ?case by simp
next
  case (Suc n)
  from Suc.prems assms(1-3) have
    "fp_facultyId ` set prefs \<subseteq> dom (as_faculty (gs_slots st))"
    "b_id batch \<in> dom (as_batch (gs_slots st))"
    "c_id ` set cs \<subseteq> dom (as_classroom (gs_slots st))"
    unfolding doms_ok_def by blast+
  from try_days_total[OF this] obtain r where
    td: "try_days tid ty subject batch cs prefs st days = Inr r" by blast
  show ?case
  proof (cases r)
    case None
    with td Suc.prems show ?thesis by simp
  next
    case (Some s1)
    with td have td': "try_days tid ty subject batch cs prefs st days = Inr (Some s1)" by simp
    from try_days_placed[OF td'] have p: "placed tid ty subject batch cs prefs st s1" by simp
    from doms_ok_placed[OF Suc.prems p] have d1: "doms_ok F B C s1" .
    from placed_grows[OF p] have l1: "length (gs_entries s1) = Suc (length (gs_entries st))"
      by simp
    from Suc.IH[OF d1] obtain st' where
      "assign_loop n tid ty subject batch cs prefs s1 = Inr st'" "doms_ok F B C st'"
      "length (gs_entries st') \<le> length (gs_entries s1) + n" by blast
    with td' l1 show ?thesis by simp
  qed
qed

lemma set_facultyPreferences:
  "fp_facultyId ` set (facultyPreferences fss sid) \<subseteq> fs_facultyId ` set fss"
  by (auto simp: facultyPreferences_def preference_pairs_def)

lemma assign_subject_total:
  assumes "fs_facultyId ` set fss \<subseteq> F" and "b_id batch \<in> B" and "c_id ` set cs \<subseteq> C"
    and "doms_ok F B C st"
  shows "\<exists>st'. assign_subject tid cs fss batch subject st = Inr st' \<and> doms_ok F B C st'
           \<and> length (gs_entries st') \<le> length (gs_entries st) + subject_units subject"
proof -
  let ?prefs = "facultyPreferences fss (s_id subject)"
  have pf: "fp_facultyId ` set ?prefs \<subseteq> F"
    using set_facultyPreferences assms(1) by blast
  from assign_loop_total[OF pf assms(2,3,4)] obtain s1 where
    a1: "assign_loop (nat (lectureHoursPerWeek subject)) tid lecture subject batch cs ?prefs st
           = Inr s1" and d1: "doms_ok F B C s1"
    and l1: "length (gs_entries s1) \<le> length (gs_entries st) + nat (lectureHoursPerWeek subject)"
    by blast
  from assign_loop_total[OF pf assms(2,3) d1] obtain s2 where
    a2: "assign_loop (nat (tutorialHoursPerWeek subject)) tid tutorial subject batch cs ?prefs s1
           = Inr s2" and d2: "doms_ok F B C s2"
    and l2: "length (gs_entries s2) \<le> length (gs_entries s1) + nat (tutorialHoursPerWeek subject)"
    by blast
  from assign_loop_total[OF pf assms(2,3) d2] obtain s3 where
    a3: "assign_loop (nat (practicalHoursPerWeek subject)) tid practical subject batch cs ?prefs s2
           = Inr s3" and d3: "doms_ok F B C s3"
    and l3: "length (gs_entries s3) \<le> length (gs_entries s2) + nat (practicalHoursPerWeek subject)"
    by blast
  from a1 a2 a3 have "assign_subject tid cs fss batch subject st = Inr s3"
    by (simp add: assign_subject_def assignSessions_def)
  moreover from l1 l2 l3 have
    "length (gs_entries s3) \<le> length (gs_entries st) + subject_units subject"
    by (simp add: subject_units_def)
  ultimately show ?thesis using d3 by blast
qed

lemma forEach_total:
  assumes "P st"
    and "\<And>x s. x \<in> set xs \<Longrightarrow> P s \<Longrightarrow>
           \<exists>s'. body x s = Inr s' \<and> P s' \<and> (size_of s' :: nat) \<le> size_of s + w x"
  shows "\<exists>st'. forEach body xs st = Inr st' \<and> P st'
           \<and> size_of st' \<le> size_of st + sum_list (map w xs)"
  using assms
proof (induction xs arbitrary: st)
  case Nil
  then show ?case by simp
next
  case (Cons x xs)
  from Cons.prems(2)[of x st] Cons.prems(1) obtain s1 where
    b: "body x st = Inr s1" and p1: "P s1" and l1: "size_of s1 \<le> size_of st + w x" by auto
  have step: "\<exists>s'. body y s = Inr s' \<and> P s' \<and> size_of s' \<le> size_of s + w y"
    if "y \<in> set xs" "P s" for y s
    using Cons.prems(2)[of y s] that by simp
  from Cons.IH[OF p1 step] obtain st' where
    "forEach body xs s1 = Inr st'" "P st'" "size_of st' \<le> size_of s1 + sum_list (map w xs)"
    by blast
  with b l1 show ?case by (simp add: add.assoc)
qed

lemma generate_total:
  assumes "\<forall>x \<in> set fss. fs_facultyId x \<in> f_id ` set fs"
  shows "\<exists>es. generateTimetableEntries timetable bs ss fs cs fss = Inr es
           \<and> length es \<le> required_units bs ss"
proof -
  let ?F = "f_id ` set fs" and ?B = "b_id ` set bs" and ?C = "c_id ` set cs"
  let ?init = "\<lparr>gs_entries = [], gs_slots = init_assignedSlots fs bs cs\<rparr>"
  let ?len = "\<lambda>st. length (gs_entries st)"
  have F: "fs_facultyId ` set fss \<subseteq> ?F" using assms by blast
  have init: "doms_ok ?F ?B ?C ?init"
    by (auto simp: doms_ok_def init_assignedSlots_def dom_map_of_conv_image_fst image_image)
  have inner: "\<exists>s'. forEach (assign_subject (t_id timetable) cs fss batch) ss s = Inr s'
        \<and> doms_ok ?F ?B ?C s' \<and> ?len s' \<le> ?len s + sum_list (map subject_units ss)"
    if b: "batch \<in> set bs" and d: "doms_ok ?F ?B ?C s" for batch s
  proof (rule forEach_total[where P = "doms_ok ?F ?B ?C" and size_of = ?len, OF d])
    fix subject s1
    assume "subject \<in> set ss" and d1: "doms_ok ?F ?B ?C s1"
    from b have bb: "b_id batch \<in> ?B" by simp
    show "\<exists>s'. assign_subject (t_id timetable) cs fss batch subject s1 = Inr s'
        \<and> doms_ok ?F ?B ?C s' \<and> ?len s' \<le> ?len s1 + subject_units subject"
      by (rule assign_subject_total[OF F bb subset_refl d1])
  qed
  from forEach_total[where P = "doms_ok ?F ?B ?C" and size_of = ?len
      and w = "\<lambda>b. sum_list (map subject_units ss)"
      and body = "\<lambda>batch. forEach (assign_subject (t_id timetable) cs fss batch) ss",
      OF init inner]
  obtain st where f: "forEach (\<lambda>batch. forEach (assign_subject (t_id timetable) cs fss batch) ss)
      bs ?init = Inr st"
    and l: "?len st \<le> ?len ?init + sum_list (map (\<lambda>b. sum_list (map subject_units ss)) bs)"
    by blast
  have "sum_list (map (\<lambda>b. sum_list (map subject_units ss)) bs) = required_units bs ss"
    by (simp add: required_units_def sum_list_triv)
  with f l show ?thesis by (simp add: generateTimetableEntries_def)
qed


lemma timetableId_with_id [simp]: "timetableId (with_id i e) = timetableId e"
  by (simp add: with_id_def)

lemma generate_route_response:
  "(\<exists>code m. generate_route s user tid newId = (Json code m, s))
   \<or> (\<exists>n s'. generate_route s user tid newId =
          (JsonEntriesCount 200 ''Timetable generated successfully'' n, s')
        \<and> n = length (filter (\<lambda>e. timetableId e = tid) (entries s')))"
proof (cases "find (\<lambda>t. t_id t = tid) (timetables s)")
  case None
  then show ?thesis by (simp add: generate_route_def)
next
  case t: (Some timetable)
  from find_SomeD[OF t] have tid: "t_id timetable = tid" by simp
  let ?bs = "filter (\<lambda>b. b_department b = t_department timetable
                              \<and> b_semester b = t_semester timetable \<and> b_isActive b) (batches s)"
  let ?ss = "filter (\<lambda>x. s_department x = t_department timetable
                              \<and> s_semester x = t_semester timetable \<and> s_isActive x) (subjects s)"
  let ?fs = "filter (\<lambda>f. f_isActive f
                              \<and> list_ex (\<lambda>u. u_id u = f_userId f
                                    \<and> u_department u = t_department timetable \<and> u_isActive u)
                                  (users s)) (faculty s)"
  let ?cs = "filter c_isActive (classrooms s)"
  let ?fss = "department_facultySubjects s (t_department timetable)"
  show ?thesis
  proof (cases "generateTimetableEntries timetable ?bs ?ss ?fs ?cs ?fss")
    case (Inl err)
    with t show ?thesis by (simp add: generate_route_def Let_def)
  next
    case (Inr es)
    from generated_conflict_free[OF Inr] tid have "\<forall>e \<in> set es. timetableId e = tid" by simp
    then have "filter (\<lambda>e. timetableId e = tid) (bulkCreate newId es) = bulkCreate newId es"
      by (auto simp: filter_id_conv dest: timetableId_bulkCreate)
    then have "length (filter (\<lambda>e. timetableId e = tid)
        (filter (\<lambda>e. timetableId e \<noteq> tid) (entries s) @ bulkCreate newId es)) = length es"
      by (simp add: filter_empty_conv[THEN iffD2])
    with t Inr tid show ?thesis by (simp add: generate_route_def Let_def)
  qed
qed

lemma ex_generate_with_lab:
  "generateTimetableEntries ex_timetable [ex_batch] [ex_subject_with_lab] ex_faculty ex_classrooms
     ex_facultySubjects = Inr ex_generated"
  by (simp add: generateTimetableEntries_def assign_subject_def assignSessions_def
     ex_subject_with_lab_def ex_subject_def ex_facultyPreferences numeral_3_eq_3 days_def
     timeSlots_def ex_classrooms_def ex_classroom_def ex_lab_def isSlotAssigned_def
     init_assignedSlots_def ex_faculty_def ex_batch_def commit_entry_def markSlotAsAssigned_def
     ex_timetable_def hms_def ex_generated_def ex_first_def)

lemma ex_generate_route_with_lab:
  "fst (generate_route ex_db_with_lab ex_admin ''t1'' ex_newId) =
     JsonEntriesCount 200 ''Timetable generated successfully'' 3"
proof -
  have bs: "b_department ex_batch = ''CS''" "b_semester ex_batch = 3" "b_isActive ex_batch"
    by (simp_all add: ex_batch_def)
  have ss: "s_department ex_subject_with_lab = ''CS''" "s_semester ex_subject_with_lab = 3"
    "s_isActive ex_subject_with_lab"
    by (simp_all add: ex_subject_def ex_subject_with_lab_def)
  have fs: "filter (\<lambda>f. f_isActive f \<and> list_ex (\<lambda>u. u_id u = f_userId f
                \<and> u_department u = ''CS'' \<and> u_isActive u) ex_users) ex_faculty = ex_faculty"
    by (simp add: ex_faculty_def ex_users_def)
  have cs: "filter c_isActive ex_classrooms = ex_classrooms"
    by (simp add: ex_classrooms_def ex_classroom_def ex_lab_def)
  have t: "find (\<lambda>t. t_id t = ''t1'') (timetables ex_db_with_lab) = Some ex_timetable"
    by (simp add: ex_db_with_lab_def ex_db_def ex_timetable_def)
  have tf: "t_department ex_timetable = ''CS''" "t_semester ex_timetable = 3"
    "t_status ex_timetable = ''draft''" "t_id ex_timetable = ''t1''"
    by (simp_all add: ex_timetable_def)
  have sel: "batches ex_db_with_lab = [ex_batch]" "subjects ex_db_with_lab = [ex_subject_with_lab]"
    "faculty ex_db_with_lab = ex_faculty" "classrooms ex_db_with_lab = ex_classrooms"
    "users ex_db_with_lab = ex_users"
    by (simp_all add: ex_db_with_lab_def ex_db_def)
  have q: "department_facultySubjects ex_db_with_lab ''CS'' = ex_facultySubjects"
    by (simp add: department_facultySubjects_def ex_db_with_lab_def ex_db_def
        ex_facultySubjects_def ex_faculty_def ex_users_def)
  have ne: "ex_faculty \<noteq> []" "ex_classrooms \<noteq> []"
    by (simp_all add: ex_faculty_def ex_classrooms_def)
  have len: "length ex_generated = 3" by (simp add: ex_generated_def)
  show ?thesis
    by (simp add: generate_route_def t tf sel bs ss fs cs q ex_generate_with_lab ne
        isAdminOrHOD_def ex_admin_def len)
qed

text \<open>
  C5, as amended. The generate handler answers with the number of entries it created
  (\<^verbatim>\<open>{message, entriesCount}\<close>) or with an error message and an unchanged store; no
  count of unassigned units is part of the answer. A requirement unit that finds no
  day, slot, faculty and classroom is passed over without being counted, and the run
  goes on: when every preference pair names a faculty of the faculty list, the run
  returns its entries, at most one per requirement unit.
\<close>

theorem generate_reports_created_entries:
  "((\<exists>code m. generate_route s user tid newId = (Json code m, s))
    \<or> (\<exists>n s'. generate_route s user tid newId =
           (JsonEntriesCount 200 ''Timetable generated successfully'' n, s')
         \<and> n = length (filter (\<lambda>e. timetableId e = tid) (entries s'))))
   \<and> ((\<forall>x \<in> set fss. fs_facultyId x \<in> f_id ` set fs) \<longrightarrow>
        (\<exists>es. generateTimetableEntries timetable bs ss fs cs fss = Inr es
              \<and> length es \<le> required_units bs ss))"
proof (intro conjI impI)
  show "(\<exists>code m. generate_route s user tid newId = (Json code m, s))
    \<or> (\<exists>n s'. generate_route s user tid newId =
           (JsonEntriesCount 200 ''Timetable generated successfully'' n, s')
         \<and> n = length (filter (\<lambda>e. timetableId e = tid) (entries s')))"
    by (rule generate_route_response)
next
  assume "\<forall>x \<in> set fss. fs_facultyId x \<in> f_id ` set fs"
  then show "\<exists>es. generateTimetableEntries timetable bs ss fs cs fss = Inr es
              \<and> length es \<le> required_units bs ss"
    by (rule generate_total)
qed

theorem generate_reports_created_entries_witness:
  "list_all (\<lambda>x. fs_facultyId x \<in> f_id ` set ex_faculty) ex_facultySubjects
   \<and> generateTimetableEntries ex_timetable [ex_batch] [ex_subject_with_lab] ex_faculty
        ex_classrooms ex_facultySubjects = Inr ex_generated
   \<and> length ex_generated = 3 \<and> required_units [ex_batch] [ex_subject_with_lab] = 4
   \<and> length ex_generated \<le> required_units [ex_batch] [ex_subject_with_lab]
   \<and> fst (generate_route ex_db_with_lab ex_admin ''t1'' ex_newId) =
       JsonEntriesCount 200 ''Timetable generated successfully'' 3"
proof -
  have h: "list_all (\<lambda>x. fs_facultyId x \<in> f_id ` set ex_faculty) ex_facultySubjects"
    by (simp add: ex_facultySubjects_def ex_faculty_def)
  then have h': "\<forall>x \<in> set ex_facultySubjects. fs_facultyId x \<in> f_id ` set ex_faculty"
    by (simp add: list_all_iff)
  have len: "length ex_generated = 3" by (simp add: ex_generated_def)
  have req: "required_units [ex_batch] [ex_subject_with_lab] = 4"
    by (simp add: required_units_def subject_units_def ex_subject_with_lab_def ex_subject_def)
  from generate_reports_created_entries[of ex_db_with_lab ex_admin "''t1''" ex_newId
      ex_facultySubjects ex_faculty ex_timetable "[ex_batch]" "[ex_subject_with_lab]"
      ex_classrooms] h'
  obtain es where "generateTimetableEntries ex_timetable [ex_batch] [ex_subject_with_lab]
      ex_faculty ex_classrooms ex_facultySubjects = Inr es"
    "length es \<le> required_units [ex_batch] [ex_subject_with_lab]" by blast
  with ex_generate_with_lab have
    "length ex_generated \<le> required_units [ex_batch] [ex_subject_with_lab]" by simp
  with h len req ex_generate_with_lab ex_generate_route_with_lab show ?thesis by simp
qed

text \<open>
  C5 as stated has the answer carry the count of unassigned units. Two runs that
  leave none and one unit unassigned get the same answer.
\<close>

theorem generate_response_hides_unassigned_counterexample:
  "fst (generate_route ex_db ex_admin ''t1'' ex_newId) =
     fst (generate_route ex_db_with_lab ex_admin ''t1'' ex_newId)
   \<and> generateTimetableEntries ex_timetable [ex_batch] [ex_subject] ex_faculty ex_classrooms
        ex_facultySubjects = Inr ex_generated
   \<and> unassigned_units [ex_batch] [ex_subject] ex_generated = 0
   \<and> generateTimetableEntries ex_timetable [ex_batch] [ex_subject_with_lab] ex_faculty
        ex_classrooms ex_facultySubjects = Inr ex_generated
   \<and> unassigned_units [ex_batch] [ex_subject_with_lab] ex_generated = 1"
proof -
  have len: "length ex_generated = 3" by (simp add: ex_generated_def)
  have a: "unassigned_units [ex_batch] [ex_subject] ex_generated = 0"
    by (simp add: unassigned_units_def required_units_def subject_units_def ex_subject_def len)
  have b: "unassigned_units [ex_batch] [ex_subject_with_lab] ex_generated = 1"
    by (simp add: unassigned_units_def required_units_def subject_units_def
        ex_subject_with_lab_def ex_subject_def len)
  show ?thesis
    by (simp add: ex_generate_route ex_generate_route_with_lab ex_generateTimetableEntries
        ex_generate_with_lab a b)
qed

section \<open>Generation: the ranking of the faculty\<close>

lemma facultyPreferences_sorted:
  "sorted_wrt (\<lambda>a b. fp_preference a \<ge> fp_preference b) (facultyPreferences fss sid)"
proof -
  have "sorted (map (\<lambda>fp. - fp_preference fp) (facultyPreferences fss sid))"
    by (simp add: facultyPreferences_def)
  then show ?thesis by (simp add: sorted_map)
qed

lemma facultyPreferences_stable:
  "filter (\<lambda>fp. fp_preference fp = k) (facultyPreferences fss sid) =
     filter (\<lambda>fp. fp_preference fp = k) (preference_pairs fss sid)"
proof -
  have "filter (\<lambda>fp. - fp_preference fp = - k) (facultyPreferences fss sid) =
     filter (\<lambda>fp. - fp_preference fp = - k) (preference_pairs fss sid)"
    unfolding facultyPreferences_def by (rule sort_key_stable)
  then show ?thesis by simp
qed

lemma init_assignedSlots_ids:
  assumes "set (map f_id fs) = set (map f_id fs')"
  shows "init_assignedSlots fs bs cs = init_assignedSlots fs' bs cs"
proof -
  have "map_of (map (\<lambda>f. (f_id f, [])) fs) k = map_of (map (\<lambda>f. (f_id f, [])) fs') k"
    for k :: uuid
  proof -
    have *: "map_of (map (\<lambda>f. (f_id f, [])) xs) k = (if k \<in> set (map f_id xs) then Some [] else None)"
      for xs :: "Faculty list"
      by (induction xs) auto
    show ?thesis using assms by (simp only: *)
  qed
  then show ?thesis unfolding init_assignedSlots_def by auto
qed

lemma first_free_by_rank:
  fixes B :: "uuid \<Rightarrow> bool" and fss :: "FacultySubject list" and sid :: uuid
  defines "ys \<equiv> facultyPreferences fss sid" and "xs \<equiv> preference_pairs fss sid"
  assumes j: "j < length ys"
    and busy: "\<forall>j' < j. B (fp_facultyId (ys ! j'))"
  shows "ys ! j \<in> set xs"
    and "\<forall>q \<in> set xs. fp_preference (ys ! j) < fp_preference q \<longrightarrow> B (fp_facultyId q)"
    and "\<forall>q \<in> set (takeWhile (\<lambda>q. q \<noteq> ys ! j)
            (filter (\<lambda>q. fp_preference q = fp_preference (ys ! j)) xs)). B (fp_facultyId q)"
proof -
  have set_eq: "set ys = set xs" by (simp add: ys_def xs_def facultyPreferences_def)
  from j show "ys ! j \<in> set xs" using set_eq nth_mem by blast
  have srt: "sorted_wrt (\<lambda>a b. fp_preference a \<ge> fp_preference b) ys"
    unfolding ys_def by (rule facultyPreferences_sorted)
  show "\<forall>q \<in> set xs. fp_preference (ys ! j) < fp_preference q \<longrightarrow> B (fp_facultyId q)"
  proof (intro ballI impI)
    fix q assume q: "q \<in> set xs" and lt: "fp_preference (ys ! j) < fp_preference q"
    from q set_eq have "q \<in> set ys" by simp
    then obtain m where m: "m < length ys" "ys ! m = q"
      by (auto simp: in_set_conv_nth)
    have "m < j"
    proof (rule ccontr)
      assume "\<not> m < j"
      then have "j = m \<or> j < m" by auto
      then show False
      proof
        assume "j = m" with m lt show False by simp
      next
        assume "j < m"
        from sorted_wrt_nth_less[OF srt this m(1)] m lt show False by simp
      qed
    qed
    with busy m show "B (fp_facultyId q)" by auto
  qed
  let ?P = "\<lambda>q. fp_preference q = fp_preference (ys ! j)"
  have stable: "filter ?P xs = filter ?P ys"
    unfolding ys_def xs_def by (rule facultyPreferences_stable[symmetric])
  have split: "ys = take j ys @ ys ! j # drop (Suc j) ys"
    using j by (rule id_take_nth_drop)
  have "filter ?P ys = filter ?P (take j ys @ ys ! j # drop (Suc j) ys)"
    using split by simp
  then have f: "filter ?P ys = (filter ?P (take j ys) @ [ys ! j]) @ filter ?P (drop (Suc j) ys)"
    by simp
  have tw: "takeWhile (\<lambda>q. q \<noteq> ys ! j) (filter ?P ys) =
      takeWhile (\<lambda>q. q \<noteq> ys ! j) (filter ?P (take j ys) @ [ys ! j])"
    unfolding f by (rule takeWhile_append1[where x = "ys ! j"]) simp_all
  show "\<forall>q \<in> set (takeWhile (\<lambda>q. q \<noteq> ys ! j) (filter ?P xs)). B (fp_facultyId q)"
  proof
    fix q assume "q \<in> set (takeWhile (\<lambda>q. q \<noteq> ys ! j) (filter ?P xs))"
    then have "q \<in> set (takeWhile (\<lambda>q. q \<noteq> ys ! j) (filter ?P (take j ys) @ [ys ! j]))"
      unfolding stable tw .
    from set_takeWhileD[OF this] have "q \<in> set (take j ys)" by auto
    then obtain j' where "j' < j" "ys ! j' = q"
      using j by (auto simp: in_set_conv_nth)
    with busy show "B (fp_facultyId q)" by auto
  qed
qed

lemma try_faculty_free:
  "try_faculty tid ty subject batch cs d sl st fps = Inr (Some st') \<Longrightarrow>
     isSlotAssigned (as_batch (gs_slots st) (b_id batch)) d sl = Inr False
     \<and> (\<exists>c. find_classroom ty batch d sl (gs_slots st) cs = Inr (Some c))"
  by (induction fps) (auto split: sum.splits option.splits if_splits)

lemma try_faculty_chosen:
  assumes "try_faculty tid ty subject batch cs d sl st fps = Inr (Some st')"
  shows "\<exists>j c fm. j < length fps
        \<and> (\<forall>j' < j. marked (as_faculty (gs_slots st)) (fp_facultyId (fps ! j')) d sl)
        \<and> as_faculty (gs_slots st) (fp_facultyId (fps ! j)) = Some fm
        \<and> gs_entries st' = gs_entries st
             @ [mk_entry tid ty subject batch d sl (fp_facultyId (fps ! j)) c]
        \<and> as_faculty (gs_slots st') =
             (as_faculty (gs_slots st))(fp_facultyId (fps ! j) \<mapsto> (d, sl) # fm)"
  using assms
proof (induction fps)
  case Nil
  then show ?case by simp
next
  case (Cons fp fps)
  from try_faculty_free[OF Cons.prems] obtain c0 where
    bfree: "isSlotAssigned (as_batch (gs_slots st) (b_id batch)) d sl = Inr False"
    and fc: "find_classroom ty batch d sl (gs_slots st) cs = Inr (Some c0)"
    by blast
  from bfree obtain bm where bm: "as_batch (gs_slots st) (b_id batch) = Some bm"
    by (auto simp: isSlotAssigned_def split: option.splits)
  from find_classroom_Some[OF fc] obtain cm where
    cm: "as_classroom (gs_slots st) (c_id c0) = Some cm" by blast
  show ?case
  proof (cases "as_faculty (gs_slots st) (fp_facultyId fp)")
    case None
    with Cons.prems show ?thesis by (simp add: isSlotAssigned_def)
  next
    case fm: (Some fm)
    show ?thesis
    proof (cases "(d, sl) \<in> set fm")
      case True
      with fm Cons.prems have "try_faculty tid ty subject batch cs d sl st fps = Inr (Some st')"
        by (simp add: isSlotAssigned_def)
      from Cons.IH[OF this] obtain j c fm' where ih:
        "j < length fps"
        "\<forall>j' < j. marked (as_faculty (gs_slots st)) (fp_facultyId (fps ! j')) d sl"
        "as_faculty (gs_slots st) (fp_facultyId (fps ! j)) = Some fm'"
        "gs_entries st' = gs_entries st
             @ [mk_entry tid ty subject batch d sl (fp_facultyId (fps ! j)) c]"
        "as_faculty (gs_slots st') =
             (as_faculty (gs_slots st))(fp_facultyId (fps ! j) \<mapsto> (d, sl) # fm')"
        by blast
      have m0: "marked (as_faculty (gs_slots st)) (fp_facultyId fp) d sl"
        using fm True by (simp add: marked_def)
      have "\<forall>j' < Suc j. marked (as_faculty (gs_slots st))
               (fp_facultyId ((fp # fps) ! j')) d sl"
        using ih(2) m0 by (auto simp: less_Suc_eq_0_disj)
      with ih show ?thesis
        by (intro exI[of _ "Suc j"] exI[of _ c] exI[of _ fm']) simp
    next
      case False
      have "commit_entry tid ty subject batch d sl (fp_facultyId fp) c0 st = Inr st'"
        using Cons.prems fm False bfree fc
        by (simp add: isSlotAssigned_def split: sum.splits)
      with commit_entry_eq[OF fm bm cm] have
        "st' = \<lparr>gs_entries = gs_entries st
               @ [mk_entry tid ty subject batch d sl (fp_facultyId fp) c0],
          gs_slots =
            \<lparr>as_faculty = (as_faculty (gs_slots st))(fp_facultyId fp \<mapsto> (d, sl) # fm),
             as_batch = (as_batch (gs_slots st))(b_id batch \<mapsto> (d, sl) # bm),
             as_classroom = (as_classroom (gs_slots st))(c_id c0 \<mapsto> (d, sl) # cm)\<rparr>\<rparr>"
        by simp
      with fm show ?thesis
        by (intro exI[of _ 0] exI[of _ c0] exI[of _ fm]) simp
    qed
  qed
qed

lemma try_slots_chosen:
  assumes "try_slots tid ty subject batch cs prefs d st sls = Inr (Some st')"
  shows "chosen tid ty subject batch prefs st st'"
  using assms
proof (induction sls)
  case Nil
  then show ?case by simp
next
  case (Cons sl sls)
  show ?case
  proof (cases "try_faculty tid ty subject batch cs d sl st prefs")
    case (Inl e)
    with Cons.prems show ?thesis by simp
  next
    case (Inr r)
    show ?thesis
    proof (cases r)
      case None
      with Inr Cons show ?thesis by simp
    next
      case (Some s1)
      with Inr Cons.prems have "try_faculty tid ty subject batch cs d sl st prefs = Inr (Some st')"
        by simp
      from try_faculty_chosen[OF this] show ?thesis unfolding chosen_def by blast
    qed
  qed
qed

lemma try_days_chosen:
  assumes "try_days tid ty subject batch cs prefs st ds = Inr (Some st')"
  shows "chosen tid ty subject batch prefs st st'"
  using assms
proof (induction ds)
  case Nil
  then show ?case by simp
next
  case (Cons d ds)
  then show ?case
    by (auto split: sum.splits option.splits intro: try_slots_chosen)
qed

lemma assign_loop_chosen:
  assumes "assign_loop n tid ty subject batch cs prefs st = Inr st'"
    and "P st"
    and "\<And>s s'. P s \<Longrightarrow> chosen tid ty subject batch prefs s s' \<Longrightarrow> P s'"
  shows "P st'"
  using assms(1,2)
proof (induction n arbitrary: st)
  case 0
  then show ?case by simp
next
  case (Suc n)
  show ?case
  proof (cases "try_days tid ty subject batch cs prefs st days")
    case (Inl e)
    with Suc.prems show ?thesis by simp
  next
    case (Inr r)
    show ?thesis
    proof (cases r)
      case None
      with Inr Suc.prems show ?thesis by simp
    next
      case (Some s1)
      with Inr have td: "try_days tid ty subject batch cs prefs st days = Inr (Some s1)" by simp
      have "P s1" using assms(3)[OF Suc.prems(2) try_days_chosen[OF td]] by simp
      moreover have "assign_loop n tid ty subject batch cs prefs s1 = Inr st'"
        using Suc.prems(1) td by simp
      ultimately show ?thesis using Suc.IH by blast
    qed
  qed
qed

lemma assign_subject_chosen:
  assumes "assign_subject tid cs fss batch subject st = Inr st'"
    and "P st"
    and "\<And>ty s s'. P s \<Longrightarrow>
          chosen tid ty subject batch (facultyPreferences fss (s_id subject)) s s' \<Longrightarrow> P s'"
  shows "P st'"
proof -
  let ?prefs = "facultyPreferences fss (s_id subject)"
  from assms(1) obtain s1 s2 where
    a1: "assign_loop (nat (lectureHoursPerWeek subject)) tid lecture subject batch cs ?prefs st
           = Inr s1"
    and a2: "assign_loop (nat (tutorialHoursPerWeek subject)) tid tutorial subject batch cs ?prefs s1
           = Inr s2"
    and a3: "assign_loop (nat (practicalHoursPerWeek subject)) tid practical subject batch cs ?prefs s2
           = Inr st'"
    by (auto simp: assign_subject_def assignSessions_def split: sum.splits)
  have p1: "P s1"
    by (rule assign_loop_chosen[where P = P, OF a1 assms(2)]) (rule assms(3))
  have p2: "P s2"
    by (rule assign_loop_chosen[where P = P, OF a2 p1]) (rule assms(3))
  show ?thesis
    by (rule assign_loop_chosen[where P = P, OF a3 p2]) (rule assms(3))
qed

lemma generate_chosen:
  assumes "generateTimetableEntries timetable bs ss fs cs fss = Inr es"
    and "P \<lparr>gs_entries = [], gs_slots = init_assignedSlots fs bs cs\<rparr>"
    and "\<And>ty batch subject s s'. P s \<Longrightarrow>
          chosen (t_id timetable) ty subject batch (facultyPreferences fss (s_id subject)) s s'
          \<Longrightarrow> P s'"
  shows "\<exists>st. P st \<and> gs_entries st = es"
proof -
  from assms(1) obtain st where
    f: "forEach (\<lambda>batch. forEach (assign_subject (t_id timetable) cs fss batch) ss) bs
          \<lparr>gs_entries = [], gs_slots = init_assignedSlots fs bs cs\<rparr> = Inr st"
    and es: "es = gs_entries st"
    by (auto simp: generateTimetableEntries_def split: sum.splits)
  have "P st"
  proof (rule forEach_invariant[where P = P, OF f assms(2)])
    fix batch s s'
    assume p: "P s"
      and i: "forEach (assign_subject (t_id timetable) cs fss batch) ss s = Inr s'"
    show "P s'"
    proof (rule forEach_invariant[where P = P, OF i p])
      fix subject s1 s2
      assume p1: "P s1"
        and a: "assign_subject (t_id timetable) cs fss batch subject s1 = Inr s2"
      show "P s2"
        by (rule assign_subject_chosen[where P = P, OF a p1]) (rule assms(3))
    qed
  qed
  with es show ?thesis by blast
qed

lemma ranked_snoc:
  "ranked fss (es @ [e]) \<longleftrightarrow> ranked fss es \<and> picked_by_rank fss es e"
proof -
  have "list_all (\<lambda>i. picked_by_rank fss (take i (es @ [e])) ((es @ [e]) ! i)) [0..<length es]
      = list_all (\<lambda>i. picked_by_rank fss (take i es) (es ! i)) [0..<length es]"
    by (auto simp: list_all_iff nth_append)
  then show ?thesis by (simp add: ranked_def)
qed

lemma ranked_chosen:
  assumes J: "justified st \<and> ranked fss (gs_entries st)"
    and ch: "chosen tid ty subject batch (facultyPreferences fss (s_id subject)) st st'"
  shows "justified st' \<and> ranked fss (gs_entries st')"
proof -
  let ?ys = "facultyPreferences fss (s_id subject)"
  let ?xs = "preference_pairs fss (s_id subject)"
  from ch obtain d sl j c fm where
    j: "j < length ?ys"
    and busy: "\<forall>j' < j. marked (as_faculty (gs_slots st)) (fp_facultyId (?ys ! j')) d sl"
    and fm: "as_faculty (gs_slots st) (fp_facultyId (?ys ! j)) = Some fm"
    and en: "gs_entries st' = gs_entries st
             @ [mk_entry tid ty subject batch d sl (fp_facultyId (?ys ! j)) c]"
    and fa: "as_faculty (gs_slots st') =
             (as_faculty (gs_slots st))(fp_facultyId (?ys ! j) \<mapsto> (d, sl) # fm)"
    unfolding chosen_def by blast
  let ?e = "mk_entry tid ty subject batch d sl (fp_facultyId (?ys ! j)) c"
  have e: "subjectId ?e = s_id subject" "facultyId ?e = fp_facultyId (?ys ! j)"
    "day ?e = d" "startTime ?e = ts_start sl" "endTime ?e = ts_end sl" "slot_of ?e = sl"
    by (simp_all add: mk_entry_def slot_of_def)
  have mb: "busy_at (gs_entries st) ?e fid" if "marked (as_faculty (gs_slots st)) fid d sl" for fid
  proof -
    from J that obtain x where x: "x \<in> set (gs_entries st)" "facultyId x = fid" "day x = d"
      "slot_of x = sl"
      unfolding justified_def by blast
    from x(4) have "startTime x = ts_start sl" "endTime x = ts_end sl"
      by (auto simp: slot_of_def)
    with x show ?thesis by (auto simp: busy_at_def list_ex_iff e)
  qed
  have busy': "\<forall>j' < j. busy_at (gs_entries st) ?e (fp_facultyId (?ys ! j'))"
    using busy mb by blast
  note r = first_free_by_rank[where B = "busy_at (gs_entries st) ?e", OF j busy']
  have "picked_by_rank fss (gs_entries st) ?e"
    unfolding picked_by_rank_def e list_ex_iff list_all_iff
    using r e(2) by (intro bexI[of _ "?ys ! j"]) auto
  with J have rk: "ranked fss (gs_entries st')"
    by (simp add: en ranked_snoc)
  have "justified st'"
    unfolding justified_def
  proof (intro allI impI)
    fix fid d' sl'
    assume m: "marked (as_faculty (gs_slots st')) fid d' sl'"
    show "\<exists>x \<in> set (gs_entries st'). facultyId x = fid \<and> day x = d' \<and> slot_of x = sl'"
    proof (cases "fid = fp_facultyId (?ys ! j) \<and> d' = d \<and> sl' = sl")
      case True
      then show ?thesis by (simp add: en e)
    next
      case False
      with m fm have "marked (as_faculty (gs_slots st)) fid d' sl'"
        by (auto simp: marked_def fa split: if_splits)
      with J obtain x where "x \<in> set (gs_entries st)" "facultyId x = fid" "day x = d'"
        "slot_of x = sl'"
        unfolding justified_def by blast
      then show ?thesis by (auto simp: en)
    qed
  qed
  with rk show ?thesis by simp
qed

lemma generated_ranked:
  assumes "generateTimetableEntries timetable bs ss fs cs fss = Inr es"
  shows "ranked fss es"
proof -
  have empt: "dm = []" if "map_of (map (\<lambda>f. (f_id f, [])) fs) k = Some dm"
    for k :: uuid and dm :: day_map
    using that by (induction fs) (auto split: if_splits)
  have j0: "justified \<lparr>gs_entries = [], gs_slots = init_assignedSlots fs bs cs\<rparr>"
    unfolding justified_def marked_def
  proof (intro allI impI)
    fix fid d sl
    assume "\<exists>dm. as_faculty (gs_slots \<lparr>gs_entries = [],
        gs_slots = init_assignedSlots fs bs cs\<rparr>) fid = Some dm \<and> (d, sl) \<in> set dm"
    then obtain dm where "map_of (map (\<lambda>f. (f_id f, [])) fs) fid = Some dm" "(d, sl) \<in> set dm"
      by (auto simp: init_assignedSlots_def)
    with empt[of fid dm] show "\<exists>x \<in> set (gs_entries \<lparr>gs_entries = [],
        gs_slots = init_assignedSlots fs bs cs\<rparr>). facultyId x = fid \<and> day x = d \<and> slot_of x = sl"
      by simp
  qed
  then have init: "justified \<lparr>gs_entries = [], gs_slots = init_assignedSlots fs bs cs\<rparr>
      \<and> ranked fss (gs_entries \<lparr>gs_entries = [], gs_slots = init_assignedSlots fs bs cs\<rparr>)"
    by (simp add: ranked_def)
  from generate_chosen[where P = "\<lambda>st. justified st \<and> ranked fss (gs_entries st)",
      OF assms init]
  obtain st where "justified st \<and> ranked fss (gs_entries st)" "gs_entries st = es"
    using ranked_chosen by blast
  then show ?thesis by simp
qed

lemma ex_tied_run:
  "generateTimetableEntries ex_timetable ex_batches [ex_subject] ex_faculty ex_rooms ex_tied
     = Inr (ex_tied_generated ''f2'')"
  by (simp add: generateTimetableEntries_def assign_subject_def assignSessions_def
     ex_subject_def facultyPreferences_def preference_pairs_def ex_tied_def
     numeral_3_eq_3 days_def timeSlots_def ex_batches_def
     ex_rooms_def ex_classroom_def isSlotAssigned_def init_assignedSlots_def
     ex_faculty_def ex_batch_def commit_entry_def markSlotAsAssigned_def ex_timetable_def hms_def
     ex_tied_generated_def ex_lecture_def)

lemma ex_tied_swapped_run:
  "generateTimetableEntries ex_timetable ex_batches [ex_subject] ex_faculty ex_rooms
     ex_tied_swapped = Inr (ex_tied_generated ''f3'')"
  by (simp add: generateTimetableEntries_def assign_subject_def assignSessions_def
     ex_subject_def facultyPreferences_def preference_pairs_def ex_tied_swapped_def
     numeral_3_eq_3 days_def timeSlots_def ex_batches_def
     ex_rooms_def ex_classroom_def isSlotAssigned_def init_assignedSlots_def
     ex_faculty_def ex_batch_def commit_entry_def markSlotAsAssigned_def ex_timetable_def hms_def
     ex_tied_generated_def ex_lecture_def)


lemma map_of_empty_day_maps:
  "k \<in> g ` set xs \<Longrightarrow> map_of (map (\<lambda>x. (g x, [])) xs) k = Some ([] :: day_map)"
  by (induction xs) auto

lemma find_classroom_init:
  assumes "find (\<lambda>c. \<not> c_isLab c \<and> b_strength batch \<le> c_capacity c) cs' = Some c"
    and "set cs' \<subseteq> set cs"
  shows "find_classroom lecture batch d sl (init_assignedSlots fs bs cs) cs' = Inr (Some c)"
  using assms
proof (induction cs')
  case Nil
  then show ?case by simp
next
  case (Cons x xs)
  then have "as_classroom (init_assignedSlots fs bs cs) (c_id x) = Some []"
    by (simp add: init_assignedSlots_def map_of_empty_day_maps)
  with Cons show ?case
    by (auto simp: isSlotAssigned_def split: if_splits)
qed

lemma first_pair_by_rank:
  assumes "preference_pairs fss sid \<noteq> []"
  shows "\<exists>p ps. facultyPreferences fss sid = p # ps
     \<and> p \<in> set (preference_pairs fss sid)
     \<and> list_all (\<lambda>q. fp_preference q \<le> fp_preference p) (preference_pairs fss sid)
     \<and> p = hd (filter (\<lambda>q. fp_preference q = fp_preference p) (preference_pairs fss sid))"
proof -
  let ?ys = "facultyPreferences fss sid" and ?xs = "preference_pairs fss sid"
  have "length ?ys = length ?xs" by (simp add: facultyPreferences_def)
  with assms obtain p ps where ys: "?ys = p # ps" by (cases ?ys) auto
  then have j: "0 < length ?ys" and p: "?ys ! 0 = p" by simp_all
  have b: "\<forall>j' < 0. (\<lambda>_. False) (fp_facultyId (?ys ! j'))" by simp
  note r = first_free_by_rank[where B = "\<lambda>_. False", OF j b, unfolded p]
  from r(2) have mx: "list_all (\<lambda>q. fp_preference q \<le> fp_preference p) ?xs"
    by (auto simp: list_all_iff not_less)
  let ?T = "filter (\<lambda>q. fp_preference q = fp_preference p) ?xs"
  from r(1) have "p \<in> set ?T" by simp
  then obtain t ts where T: "?T = t # ts" by (cases ?T) auto
  from r(3) have "takeWhile (\<lambda>q. q \<noteq> p) ?T = []"
    by (cases "takeWhile (\<lambda>q. q \<noteq> p) ?T") auto
  with T have "t = p" by (auto split: if_splits)
  with T have "p = hd ?T" by simp
  with ys r(1) mx show ?thesis by blast
qed

lemma batches_invariant:
  assumes "forEach (\<lambda>batch. forEach (assign_subject tid cs fss batch) ss) bs st = Inr st'"
    and "P st"
    and "\<And>ty batch subject s s'. P s \<Longrightarrow>
          placed tid ty subject batch cs (facultyPreferences fss (s_id subject)) s s' \<Longrightarrow> P s'"
  shows "P st'"
proof (rule forEach_invariant[where P = P, OF assms(1,2)])
  fix batch s s'
  assume p: "P s" and i: "forEach (assign_subject tid cs fss batch) ss s = Inr s'"
  show "P s'"
  proof (rule forEach_invariant[where P = P, OF i p])
    fix subject s1 s2
    assume p1: "P s1" and a: "assign_subject tid cs fss batch subject s1 = Inr s2"
    show "P s2"
      by (rule assign_subject_invariant[where P = P, OF a p1]) (rule assms(3))
  qed
qed

lemma generated_first_entry:
  assumes bs: "bs = batch # bs'" and ss: "ss = subject # ss'"
    and hours: "0 < lectureHoursPerWeek subject"
    and listed: "\<forall>x \<in> set fss. fs_facultyId x \<in> f_id ` set fs"
    and pairs: "preference_pairs fss (s_id subject) \<noteq> []"
    and room: "find (\<lambda>c. \<not> c_isLab c \<and> b_strength batch \<le> c_capacity c) cs = Some c"
  shows "\<exists>es p. generateTimetableEntries timetable bs ss fs cs fss =
        Inr (mk_entry (t_id timetable) lecture subject batch Monday
               \<lparr>ts_start = hms 9 0 0, ts_end = hms 10 0 0\<rparr> (fp_facultyId p) c # es)
     \<and> p \<in> set (preference_pairs fss (s_id subject))
     \<and> list_all (\<lambda>q. fp_preference q \<le> fp_preference p) (preference_pairs fss (s_id subject))
     \<and> p = hd (filter (\<lambda>q. fp_preference q = fp_preference p)
                 (preference_pairs fss (s_id subject)))"
proof -
  let ?tid = "t_id timetable"
  let ?init = "\<lparr>gs_entries = [], gs_slots = init_assignedSlots fs bs cs\<rparr>"
  let ?prefs = "facultyPreferences fss (s_id subject)"
  let ?sl = "\<lparr>ts_start = hms 9 0 0, ts_end = hms 10 0 0\<rparr>"
  from first_pair_by_rank[OF pairs] obtain p ps where
    prefs: "?prefs = p # ps"
    and p: "p \<in> set (preference_pairs fss (s_id subject))"
      "list_all (\<lambda>q. fp_preference q \<le> fp_preference p) (preference_pairs fss (s_id subject))"
      "p = hd (filter (\<lambda>q. fp_preference q = fp_preference p)
                 (preference_pairs fss (s_id subject)))"
    by blast
  let ?e = "mk_entry ?tid lecture subject batch Monday ?sl (fp_facultyId p) c"
  from p(1) listed have "fp_facultyId p \<in> f_id ` set fs"
    by (auto simp: preference_pairs_def)
  then have fm: "as_faculty (gs_slots ?init) (fp_facultyId p) = Some []"
    by (simp add: init_assignedSlots_def map_of_empty_day_maps)
  have bm: "as_batch (gs_slots ?init) (b_id batch) = Some []"
    by (simp add: init_assignedSlots_def bs)
  from find_SomeD[OF room] have "c \<in> set cs" by simp
  then have cm: "as_classroom (gs_slots ?init) (c_id c) = Some []"
    by (simp add: init_assignedSlots_def map_of_empty_day_maps)
  have fc: "find_classroom lecture batch Monday ?sl (gs_slots ?init) cs = Inr (Some c)"
    using find_classroom_init[OF room subset_refl] by simp
  obtain st1 where
    ce: "commit_entry ?tid lecture subject batch Monday ?sl (fp_facultyId p) c ?init = Inr st1"
    and e1: "gs_entries st1 = [?e]"
    using commit_entry_eq[OF fm bm cm, of ?tid lecture subject Monday ?sl] by simp
  have tf: "try_faculty ?tid lecture subject batch cs Monday ?sl ?init ?prefs = Inr (Some st1)"
    unfolding prefs using fm bm fc ce by (simp add: isSlotAssigned_def)
  have td: "try_days ?tid lecture subject batch cs ?prefs ?init days = Inr (Some st1)"
    using tf by (simp add: days_def timeSlots_def)
  from generate_total[OF listed, of timetable bs ss cs] obtain es where
    gen: "generateTimetableEntries timetable bs ss fs cs fss = Inr es"
    by blast
  then obtain st where
    f: "forEach (\<lambda>batch. forEach (assign_subject ?tid cs fss batch) ss) bs ?init = Inr st"
    and es: "es = gs_entries st"
    by (auto simp: generateTimetableEntries_def split: sum.splits)
  from f obtain sA where
    fa: "forEach (assign_subject ?tid cs fss batch) (subject # ss') ?init = Inr sA"
    and fb: "forEach (\<lambda>batch. forEach (assign_subject ?tid cs fss batch) ss) bs' sA = Inr st"
    unfolding bs ss by (auto split: sum.splits)
  from fa obtain sS where
    as: "assign_subject ?tid cs fss batch subject ?init = Inr sS"
    and fs': "forEach (assign_subject ?tid cs fss batch) ss' sS = Inr sA"
    by (auto split: sum.splits)
  from as obtain s1 s2 where
    a1: "assign_loop (nat (lectureHoursPerWeek subject)) ?tid lecture subject batch cs ?prefs
           ?init = Inr s1"
    and a2: "assign_loop (nat (tutorialHoursPerWeek subject)) ?tid tutorial subject batch cs
           ?prefs s1 = Inr s2"
    and a3: "assign_loop (nat (practicalHoursPerWeek subject)) ?tid practical subject batch cs
           ?prefs s2 = Inr sS"
    by (auto simp: assign_subject_def assignSessions_def split: sum.splits)
  from hours obtain n where n: "nat (lectureHoursPerWeek subject) = Suc n"
    by (cases "nat (lectureHoursPerWeek subject)") auto
  from a1 td have a1': "assign_loop n ?tid lecture subject batch cs ?prefs st1 = Inr s1"
    unfolding n by simp
  let ?P = "\<lambda>s. \<exists>rest. gs_entries s = ?e # rest"
  have step: "?P s'" if "?P s" "placed tid' ty subject' batch' cs prefs' s s'"
    for s s' tid' ty subject' batch' prefs'
    using that unfolding placed_def by (elim exE conjE) auto
  have p0: "?P st1" using e1 by simp
  have p1: "?P s1"
    by (rule assign_loop_invariant[where P = ?P, OF a1' p0]) (rule step)
  have p2: "?P s2"
    by (rule assign_loop_invariant[where P = ?P, OF a2 p1]) (rule step)
  have p3: "?P sS"
    by (rule assign_loop_invariant[where P = ?P, OF a3 p2]) (rule step)
  have p4: "?P sA"
  proof (rule forEach_invariant[where P = ?P, OF fs' p3])
    fix subject' s1' s2'
    assume q: "?P s1'" and a: "assign_subject ?tid cs fss batch subject' s1' = Inr s2'"
    show "?P s2'"
      by (rule assign_subject_invariant[where P = ?P, OF a q]) (rule step)
  qed
  have p5: "?P st"
    by (rule batches_invariant[where P = ?P, OF fb p4]) (rule step)
  then obtain rest where "es = ?e # rest" using es by auto
  with gen p show ?thesis by blast
qed


text \<open>
  C9. A run of the generator is a function of its inputs, and of the timetable it
  reads only the id, of the faculty list only the ids. The ranking decides the
  entries: every entry of a run is picked by rank, so that its faculty has a
  preference pair for the subject, every pair of greater preference is busy in that
  slot with an earlier entry of the run, and so is every pair of the same preference
  that stands before it in the input. And the run starts as the ranking says: when
  the first subject of the first batch has a lecture to place, a pair, a classroom
  that is no laboratory and holds the batch, and every pair names a faculty of the
  list, then the run returns, and its first entry is Monday 9:00 to 10:00 in the
  first such classroom, for a pair of the greatest preference that is the first of
  its preference in the input.
\<close>

theorem generation_ranked:
  "(generateTimetableEntries timetable bs ss fs cs fss = Inr es \<longrightarrow> ranked fss es)
   \<and> (bs = batch # bs' \<and> ss = subject # ss' \<and> 0 < lectureHoursPerWeek subject
        \<and> list_all (\<lambda>x. fs_facultyId x \<in> f_id ` set fs) fss
        \<and> preference_pairs fss (s_id subject) \<noteq> []
        \<and> find (\<lambda>c. \<not> c_isLab c \<and> b_strength batch \<le> c_capacity c) cs = Some c
      \<longrightarrow> (\<exists>rest p. generateTimetableEntries timetable bs ss fs cs fss =
              Inr (mk_entry (t_id timetable) lecture subject batch Monday
                     \<lparr>ts_start = hms 9 0 0, ts_end = hms 10 0 0\<rparr> (fp_facultyId p) c # rest)
            \<and> p \<in> set (preference_pairs fss (s_id subject))
            \<and> list_all (\<lambda>q. fp_preference q \<le> fp_preference p)
                 (preference_pairs fss (s_id subject))
            \<and> p = hd (filter (\<lambda>q. fp_preference q = fp_preference p)
                        (preference_pairs fss (s_id subject)))))
   \<and> (t_id timetable = t_id timetable' \<and> set (map f_id fs) = set (map f_id fs') \<longrightarrow>
        generateTimetableEntries timetable bs ss fs cs fss =
        generateTimetableEntries timetable' bs ss fs' cs fss)"
proof (intro conjI impI)
  assume "generateTimetableEntries timetable bs ss fs cs fss = Inr es"
  then show "ranked fss es" by (rule generated_ranked)
next
  assume h: "bs = batch # bs' \<and> ss = subject # ss' \<and> 0 < lectureHoursPerWeek subject
        \<and> list_all (\<lambda>x. fs_facultyId x \<in> f_id ` set fs) fss
        \<and> preference_pairs fss (s_id subject) \<noteq> []
        \<and> find (\<lambda>c. \<not> c_isLab c \<and> b_strength batch \<le> c_capacity c) cs = Some c"
  then have bs: "bs = batch # bs'" and ss: "ss = subject # ss'"
    and hours: "0 < lectureHoursPerWeek subject"
    and listed: "\<forall>x \<in> set fss. fs_facultyId x \<in> f_id ` set fs"
    and pairs: "preference_pairs fss (s_id subject) \<noteq> []"
    and room: "find (\<lambda>c. \<not> c_isLab c \<and> b_strength batch \<le> c_capacity c) cs = Some c"
    by (simp_all add: list_all_iff)
  show "\<exists>rest p. generateTimetableEntries timetable bs ss fs cs fss =
              Inr (mk_entry (t_id timetable) lecture subject batch Monday
                     \<lparr>ts_start = hms 9 0 0, ts_end = hms 10 0 0\<rparr> (fp_facultyId p) c # rest)
            \<and> p \<in> set (preference_pairs fss (s_id subject))
            \<and> list_all (\<lambda>q. fp_preference q \<le> fp_preference p)
                 (preference_pairs fss (s_id subject))
            \<and> p = hd (filter (\<lambda>q. fp_preference q = fp_preference p)
                        (preference_pairs fss (s_id subject)))"
    by (rule generated_first_entry[OF bs ss hours listed pairs room])
next
  assume a: "t_id timetable = t_id timetable' \<and> set (map f_id fs) = set (map f_id fs')"
  then have i: "init_assignedSlots fs bs cs = init_assignedSlots fs' bs cs"
    by (intro init_assignedSlots_ids) simp
  show "generateTimetableEntries timetable bs ss fs cs fss =
        generateTimetableEntries timetable' bs ss fs' cs fss"
    unfolding generateTimetableEntries_def i using a by simp
qed

text \<open>
  Two batches, two classrooms, and the pairs f2 and f3 of preference 5 behind f1 of
  preference 7. The first batch has f1 three times; for the second batch f1 is busy
  and the lectures go to f2, the first of the two in the input. With f3 before f2
  in the input they go to f3.
\<close>

theorem generation_ranked_witness:
  "generateTimetableEntries ex_timetable ex_batches [ex_subject] ex_faculty ex_rooms ex_tied
     = Inr (ex_tied_generated ''f2'')
   \<and> ranked ex_tied (ex_tied_generated ''f2'')
   \<and> generateTimetableEntries ex_timetable ex_batches [ex_subject] ex_faculty ex_rooms
       ex_tied_swapped = Inr (ex_tied_generated ''f3'')
   \<and> ranked ex_tied_swapped (ex_tied_generated ''f3'')
   \<and> map facultyId (ex_tied_generated ''f2'') = [''f1'', ''f1'', ''f1'', ''f2'', ''f2'', ''f2'']
   \<and> (\<exists>rest p. generateTimetableEntries ex_timetable ex_batches [ex_subject] ex_faculty
                   ex_rooms ex_tied =
              Inr (mk_entry (t_id ex_timetable) lecture ex_subject ex_batch Monday
                     \<lparr>ts_start = hms 9 0 0, ts_end = hms 10 0 0\<rparr> (fp_facultyId p)
                     ex_classroom # rest)
            \<and> p \<in> set (preference_pairs ex_tied (s_id ex_subject))
            \<and> list_all (\<lambda>q. fp_preference q \<le> fp_preference p)
                 (preference_pairs ex_tied (s_id ex_subject))
            \<and> p = hd (filter (\<lambda>q. fp_preference q = fp_preference p)
                        (preference_pairs ex_tied (s_id ex_subject))))
   \<and> generateTimetableEntries (ex_timetable\<lparr>t_status := ''pending_approval''\<rparr>) ex_batches
        [ex_subject] (rev ex_faculty) ex_rooms ex_tied = Inr (ex_tied_generated ''f2'')"
proof -
  note T1 = generation_ranked[where timetable = ex_timetable and bs = ex_batches
      and ss = "[ex_subject]" and fs = ex_faculty and cs = ex_rooms and fss = ex_tied
      and es = "ex_tied_generated ''f2''" and batch = ex_batch
      and bs' = "[ex_batch\<lparr>b_id := ''b2''\<rparr>]" and subject = ex_subject and ss' = "[]"
      and c = ex_classroom and timetable' = "ex_timetable\<lparr>t_status := ''pending_approval''\<rparr>"
      and fs' = "rev ex_faculty"]
  note T2 = generation_ranked[where timetable = ex_timetable and bs = ex_batches
      and ss = "[ex_subject]" and fs = ex_faculty and cs = ex_rooms and fss = ex_tied_swapped
      and es = "ex_tied_generated ''f3''" and batch = ex_batch
      and bs' = "[ex_batch\<lparr>b_id := ''b2''\<rparr>]" and subject = ex_subject and ss' = "[]"
      and c = ex_classroom and timetable' = ex_timetable and fs' = ex_faculty]
  have r1: "ranked ex_tied (ex_tied_generated ''f2'')"
    by (rule T1[THEN conjunct1, THEN mp, OF ex_tied_run])
  have r2: "ranked ex_tied_swapped (ex_tied_generated ''f3'')"
    by (rule T2[THEN conjunct1, THEN mp, OF ex_tied_swapped_run])
  have h1: "ex_batches = ex_batch # [ex_batch\<lparr>b_id := ''b2''\<rparr>]"
    by (simp add: ex_batches_def)
  have h2: "0 < lectureHoursPerWeek ex_subject" by (simp add: ex_subject_def)
  have h3: "list_all (\<lambda>x. fs_facultyId x \<in> f_id ` set ex_faculty) ex_tied"
    by (simp add: ex_tied_def ex_faculty_def)
  have h4: "preference_pairs ex_tied (s_id ex_subject) \<noteq> []"
    by (simp add: preference_pairs_def ex_tied_def ex_subject_def)
  have h5: "find (\<lambda>c. \<not> c_isLab c \<and> b_strength ex_batch \<le> c_capacity c) ex_rooms
      = Some ex_classroom"
    by (simp add: ex_rooms_def ex_classroom_def ex_batch_def)
  have h: "ex_batches = ex_batch # [ex_batch\<lparr>b_id := ''b2''\<rparr>] \<and> [ex_subject] = ex_subject # []
        \<and> 0 < lectureHoursPerWeek ex_subject
        \<and> list_all (\<lambda>x. fs_facultyId x \<in> f_id ` set ex_faculty) ex_tied
        \<and> preference_pairs ex_tied (s_id ex_subject) \<noteq> []
        \<and> find (\<lambda>c. \<not> c_isLab c \<and> b_strength ex_batch \<le> c_capacity c) ex_rooms
            = Some ex_classroom"
    by (intro conjI) (rule h1 refl h2 h3 h4 h5)+
  note first = T1[THEN conjunct2, THEN conjunct1, THEN mp, OF h]
  have ids: "t_id ex_timetable = t_id (ex_timetable\<lparr>t_status := ''pending_approval''\<rparr>)
      \<and> set (map f_id ex_faculty) = set (map f_id (rev ex_faculty))"
    by simp
  have same: "generateTimetableEntries (ex_timetable\<lparr>t_status := ''pending_approval''\<rparr>)
        ex_batches [ex_subject] (rev ex_faculty) ex_rooms ex_tied = Inr (ex_tied_generated ''f2'')"
    using T1[THEN conjunct2, THEN conjunct2, THEN mp, OF ids] ex_tied_run by simp
  have fac: "map facultyId (ex_tied_generated ''f2'') =
      [''f1'', ''f1'', ''f1'', ''f2'', ''f2'', ''f2'']"
    by (simp add: ex_tied_generated_def ex_lecture_def)
  show ?thesis
    by (intro conjI) (rule ex_tied_run r1 ex_tied_swapped_run r2 fac first same)+
qed

section \<open>Substitution routes: accepting a request\<close>

lemma ex_sub_db_sel:
  "faculty ex_sub_db = ex_faculty" "users ex_sub_db = ex_users"
  "entries ex_sub_db = [ex_entry, ex_entry_g]" "substitutions ex_sub_db = [ex_offer]"
  "subjects ex_sub_db = [ex_subject]" "facultySubjects ex_sub_db = ex_facultySubjects"
  by (simp_all add: ex_sub_db_def ex_db_def)

lemma ex_find_g: "find (\<lambda>f. f_userId f = u_id ex_user_g) ex_faculty
    = Some \<lparr>f_id = ''f2'', f_userId = ''u2'', f_isActive = True\<rparr>"
  by (simp add: ex_faculty_def ex_user_g_def)

lemma select_where_day_number:
  "table \<noteq> [] \<Longrightarrow> substitute_conflicts table fid dt st en = Inl DatabaseError"
  by (cases table) (simp_all add: substitute_conflicts_def)

lemma accept_route_never_succeeds:
  "fst (accept_route s user subId) \<noteq> JsonSubstitution code msg x
   \<and> fst (accept_route s user subId) \<noteq> JsonConflicts code msg cs"
proof -
  have q: "substitute_conflicts (entries s) fid dt st en = Inl DatabaseError"
    if "find P (entries s) = Some te" for P te fid dt st en
  proof -
    from that have "entries s \<noteq> []" by (cases "entries s") auto
    then show ?thesis by (rule select_where_day_number)
  qed
  show ?thesis
    by (auto simp: accept_route_def q split: option.splits)
qed

text \<open>
  C3. The claim: before committing, accepting re-checks the accepting faculty's
  entries on the weekday of the request's date and, on a conflict, fails reporting
  the conflicting entries. The handler's query compares the column of day names with
  the day-of-week number of the date, where the sibling leave route maps the number
  to a name first. On the example the accepting faculty f2 teaches the entry e9 on
  Monday 10:00 to 11:00, the request is for Monday 2024-01-01 at the same hour, and
  the handler answers 500 \<^verbatim>\<open>Server error while accepting substitution\<close> instead of
  400 with the conflicting entry; the request is left as it was. No call of the
  handler answers with a substitution or with a list of conflicts
  (\<open>accept_route_never_succeeds\<close>).
\<close>

theorem accept_does_not_report_conflict:
  "accept_route ex_sub_db ex_user_g ''x1'' =
     (Json 500 ''Server error while accepting substitution'', ex_sub_db)
   \<and> facultyId ex_entry_g = ''f2'' \<and> day ex_entry_g = Monday
   \<and> daysOfWeek ! getDay (sub_date ex_offer) = Monday
   \<and> intervals_overlap (startTime ex_entry) (endTime ex_entry)
        (startTime ex_entry_g) (endTime ex_entry_g)"
proof -
  have of: "substituteFacultyId ex_offer = Some ''f2''" "sub_status ex_offer = ''pending''"
    "timetableEntryId ex_offer = ''e1''" "sub_date ex_offer = 19723" "sub_id ex_offer = ''x1''"
    by (simp_all add: ex_offer_def)
  have te: "e_id ex_entry = ''e1''" "e_id ex_entry_g = ''e9''"
    by (simp_all add: ex_entry_def ex_entry_g_def)
  have q: "substitute_conflicts [ex_entry, ex_entry_g] ''f2'' 19723 (startTime ex_entry)
      (endTime ex_entry) = Inl DatabaseError"
    by (simp add: substitute_conflicts_def)
  have r: "accept_route ex_sub_db ex_user_g ''x1'' =
     (Json 500 ''Server error while accepting substitution'', ex_sub_db)"
    by (simp add: accept_route_def ex_sub_db_sel ex_find_g of te q)
      (simp add: ex_user_g_def)
  have d: "daysOfWeek ! getDay (sub_date ex_offer) = Monday"
    by (simp add: daysOfWeek_def getDay_def of)
  have ov: "intervals_overlap (startTime ex_entry) (endTime ex_entry)
        (startTime ex_entry_g) (endTime ex_entry_g)"
    by (simp add: intervals_overlap_def ex_entry_def ex_entry_g_def hms_def)
  have g: "facultyId ex_entry_g = ''f2''" "day ex_entry_g = Monday"
    by (simp_all add: ex_entry_g_def)
  from r d ov g show ?thesis by simp
qed

section \<open>Substitution routes: declining a request\<close>

lemma set_potentialSubstitutes:
  "c \<in> set (potentialSubstitutes s department subj excluded) \<longleftrightarrow>
     eligible_substitute s department subj (fp_facultyId c) (fp_preference c)
     \<and> fp_facultyId c \<notin> set excluded"
proof -
  have "c \<in> set (potentialSubstitutes s department subj excluded) \<longleftrightarrow>
     (\<exists>f \<in> set (faculty s). \<exists>u \<in> set (users s). \<exists>fs \<in> set (facultySubjects s).
        u_id u = f_userId f \<and> fs_facultyId fs = f_id f
        \<and> u_department u = department \<and> fs_subjectId fs = subj \<and> fs_isActive fs
        \<and> f_id f \<notin> set excluded
        \<and> c = \<lparr>fp_facultyId = f_id f, fp_preference = fs_preference fs\<rparr>)"
    by (auto simp: potentialSubstitutes_def)
  also have "\<dots> \<longleftrightarrow> eligible_substitute s department subj (fp_facultyId c) (fp_preference c)
     \<and> fp_facultyId c \<notin> set excluded"
    unfolding eligible_substitute_def by (cases c) force
  finally show ?thesis .
qed

lemma potentialSubstitutes_head:
  assumes "potentialSubstitutes s department subj excluded = c # cs"
  shows "eligible_substitute s department subj (fp_facultyId c) (fp_preference c)
     \<and> fp_facultyId c \<notin> set excluded
     \<and> (\<forall>fid pref. eligible_substitute s department subj fid pref \<and> fid \<notin> set excluded
           \<longrightarrow> pref \<le> fp_preference c)"
proof -
  have mem: "c \<in> set (potentialSubstitutes s department subj excluded)"
    using assms by simp
  have srt: "sorted (map (\<lambda>x. - fp_preference x) (potentialSubstitutes s department subj excluded))"
    by (simp add: potentialSubstitutes_def)
  have top: "fp_preference x \<le> fp_preference c"
    if "x \<in> set (potentialSubstitutes s department subj excluded)" for x
    using srt that unfolding assms by auto
  have "pref \<le> fp_preference c"
    if "eligible_substitute s department subj fid pref" "fid \<notin> set excluded" for fid pref
  proof -
    from that have "\<lparr>fp_facultyId = fid, fp_preference = pref\<rparr>
        \<in> set (potentialSubstitutes s department subj excluded)"
      by (simp add: set_potentialSubstitutes)
    from top[OF this] show ?thesis by simp
  qed
  with mem show ?thesis unfolding set_potentialSubstitutes by blast
qed

lemma ex_candidates_without_g:
  "potentialSubstitutes ex_sub_db ''CS'' ''s1'' [''f1'', ''f2''] =
     [\<lparr>fp_facultyId = ''f3'', fp_preference = 9\<rparr>]"
  by (simp add: potentialSubstitutes_def ex_sub_db_sel ex_faculty_def ex_users_def
      ex_facultySubjects_def)

lemma decline_update_refused: "decline_update x = Inl DatabaseError"
  by (simp add: decline_update_def set_status_def Substitution_status_ENUM_def)

lemma assign_update_refused: "assign_update fid x = Inl DatabaseError"
  by (simp add: assign_update_def set_status_def Substitution_status_ENUM_def)

lemma decline_route_never_succeeds:
  "snd (decline_route s user subId) = s
   \<and> fst (decline_route s user subId) \<noteq> JsonSubstitution code msg y"
  by (simp add: decline_route_def decline_update_refused split: option.splits)

lemma substitute_conflicts_entry:
  assumes "find P (entries s) = Some te"
  shows "substitute_conflicts (entries s) fid dt st en = Inl DatabaseError"
proof -
  from assms have "entries s \<noteq> []" by (cases "entries s") auto
  then show ?thesis by (rule select_where_day_number)
qed

lemma assign_route_never_succeeds:
  "snd (assign_route s user subId body) = s
   \<and> fst (assign_route s user subId body) \<noteq> JsonSubstitution code msg y"
  by (auto simp: assign_route_def substitute_conflicts_entry
      split: option.splits sum.splits bool.splits)

lemma ex_decline_by_g:
  "decline_route ex_sub_db ex_user_g ''x1'' =
     (Json 500 ''Server error while declining substitution'', ex_sub_db)"
proof -
  have of: "substituteFacultyId ex_offer = Some ''f2''" "sub_status ex_offer = ''pending''"
    "sub_id ex_offer = ''x1''"
    by (simp_all add: ex_offer_def)
  have ro: "u_role ex_user_g = ''faculty''" by (simp add: ex_user_g_def)
  show ?thesis
    by (simp add: decline_route_def ex_sub_db_sel ex_find_g of ro decline_update_refused)
qed

lemma ex_lone_db_sel:
  "faculty ex_lone_db = ex_faculty" "substitutions ex_lone_db = [ex_offer]"
  "entries ex_lone_db = [ex_entry, ex_entry_g]" "users ex_lone_db = ex_users"
  by (simp_all add: ex_lone_db_def ex_sub_db_sel)

lemma ex_decline_lone:
  "decline_route ex_lone_db ex_user_g ''x1'' =
     (Json 500 ''Server error while declining substitution'', ex_lone_db)"
proof -
  have of: "substituteFacultyId ex_offer = Some ''f2''" "sub_status ex_offer = ''pending''"
    "sub_id ex_offer = ''x1''"
    by (simp_all add: ex_offer_def)
  have ro: "u_role ex_user_g = ''faculty''" by (simp add: ex_user_g_def)
  show ?thesis
    by (simp add: decline_route_def ex_lone_db_sel ex_find_g of ro decline_update_refused)
qed

lemma ex_assign_lone:
  "assign_route ex_lone_db ex_hod ''x1'' (Some ''f3'') =
     (Json 500 ''Server error while assigning substitution'', ex_lone_db)"
proof -
  have of: "timetableEntryId ex_offer = ''e1''" "sub_id ex_offer = ''x1''"
    "originalFacultyId ex_offer = ''f1''" "sub_date ex_offer = 19723"
    by (simp_all add: ex_offer_def)
  have ro: "u_role ex_hod = ''hod''" "u_department ex_hod = ''CS''"
    by (simp_all add: ex_hod_def)
  have te: "e_id ex_entry = ''e1''" "e_id ex_entry_g = ''e9''"
    by (simp_all add: ex_entry_def ex_entry_g_def)
  have ou: "faculty_user ex_lone_db ''f1'' =
     Some \<lparr>u_id = ''u1'', u_role = ''faculty'', u_department = ''CS'', u_isActive = True\<rparr>"
    by (simp add: faculty_user_def ex_lone_db_sel ex_faculty_def ex_users_def)
  have fa: "find (\<lambda>f. f_id f = ''f3'') ex_faculty =
      Some \<lparr>f_id = ''f3'', f_userId = ''u3'', f_isActive = True\<rparr>"
    by (simp add: ex_faculty_def)
  have fu: "find (\<lambda>u. u_id u = ''u3'') ex_users =
      Some \<lparr>u_id = ''u3'', u_role = ''faculty'', u_department = ''CS'', u_isActive = True\<rparr>"
    by (simp add: ex_users_def)
  have q: "substitute_conflicts [ex_entry, ex_entry_g] ''f3'' 19723 (startTime ex_entry)
      (endTime ex_entry) = Inl DatabaseError"
    by (simp add: substitute_conflicts_def)
  show ?thesis
    by (simp add: assign_route_def ex_lone_db_sel of ro te ou fa fu q truthy_def)
qed

text \<open>
  C4. The claim: when the addressed candidate declines a pending request and a
  further eligible candidate remains, a pending request for the next candidate
  results. The handler first updates the request to the status \<^verbatim>\<open>declined\<close>, which
  the status enumeration of the model does not have: the update is refused and the
  handler answers 500 \<^verbatim>\<open>Server error while declining substitution\<close>. On the example
  the request is pending and addressed to f2, f3 is eligible and is neither f2 nor
  the original faculty f1, f2 declines, and the request is still the one for f2.
\<close>

theorem decline_does_not_readdress:
  "decline_route ex_sub_db ex_user_g ''x1'' =
     (Json 500 ''Server error while declining substitution'', ex_sub_db)
   \<and> substitutions ex_sub_db = [ex_offer]
   \<and> sub_id ex_offer = ''x1'' \<and> sub_status ex_offer = ''pending''
   \<and> substituteFacultyId ex_offer = Some ''f2'' \<and> originalFacultyId ex_offer = ''f1''
   \<and> find (\<lambda>f. f_userId f = u_id ex_user_g) (faculty ex_sub_db)
        = Some \<lparr>f_id = ''f2'', f_userId = ''u2'', f_isActive = True\<rparr>
   \<and> potentialSubstitutes ex_sub_db ''CS'' ''s1'' [''f1'', ''f2''] =
        [\<lparr>fp_facultyId = ''f3'', fp_preference = 9\<rparr>]"
proof -
  have of: "sub_id ex_offer = ''x1''" "sub_status ex_offer = ''pending''"
    "substituteFacultyId ex_offer = Some ''f2''" "originalFacultyId ex_offer = ''f1''"
    by (simp_all add: ex_offer_def)
  have f: "find (\<lambda>f. f_userId f = u_id ex_user_g) (faculty ex_sub_db)
        = Some \<lparr>f_id = ''f2'', f_userId = ''u2'', f_isActive = True\<rparr>"
    by (simp add: ex_sub_db_sel ex_find_g)
  show ?thesis
    by (intro conjI) (rule ex_decline_by_g ex_sub_db_sel of f ex_candidates_without_g)+
qed

text \<open>
  C10. The claim: every status written by accept, decline and assign is a value of
  the enumeration declared on the model, \<^verbatim>\<open>declined\<close> and \<^verbatim>\<open>assigned\<close> among
  them. The model declares \<^verbatim>\<open>pending\<close>, \<^verbatim>\<open>accepted\<close> and \<^verbatim>\<open>rejected\<close>. The update
  that the decline handler issues and the update that the assign handler issues are
  refused for every request, so that neither handler ever answers with a
  substitution or changes a table. On the example the decline handler answers 500 at
  its update; the assign handler answers 500 as well, already at its conflict query,
  which compares the day name with a number as the query of the accept handler does.
\<close>

theorem decline_and_assign_statuses_refused:
  "decline_update x = Inl DatabaseError
   \<and> assign_update fid x = Inl DatabaseError
   \<and> ''declined'' \<notin> set Substitution_status_ENUM
   \<and> ''assigned'' \<notin> set Substitution_status_ENUM
   \<and> snd (decline_route s user subId) = s
   \<and> fst (decline_route s user subId) \<noteq> JsonSubstitution code msg y
   \<and> snd (assign_route s user subId body) = s
   \<and> fst (assign_route s user subId body) \<noteq> JsonSubstitution code msg y
   \<and> decline_route ex_lone_db ex_user_g ''x1'' =
       (Json 500 ''Server error while declining substitution'', ex_lone_db)
   \<and> assign_route ex_lone_db ex_hod ''x1'' (Some ''f3'') =
       (Json 500 ''Server error while assigning substitution'', ex_lone_db)"
proof -
  have e: "''declined'' \<notin> set Substitution_status_ENUM"
    "''assigned'' \<notin> set Substitution_status_ENUM"
    by (simp_all add: Substitution_status_ENUM_def)
  have d: "snd (decline_route s user subId) = s"
    "fst (decline_route s user subId) \<noteq> JsonSubstitution code msg y"
    using decline_route_never_succeeds[of s user subId code msg y] by simp_all
  have a: "snd (assign_route s user subId body) = s"
    "fst (assign_route s user subId body) \<noteq> JsonSubstitution code msg y"
    using assign_route_never_succeeds[of s user subId body code msg y] by simp_all
  show ?thesis
    by (intro conjI)
      (rule decline_update_refused assign_update_refused e d a ex_decline_lone ex_assign_lone)+
qed

section \<open>Leave routes: the substitution requests of a leave\<close>

lemma mset_concat_map_cong:
  "mset xs = mset ys \<Longrightarrow> mset (concat (map G xs)) = mset (concat (map G ys))"
proof -
  have "mset (concat (map G zs)) = (\<Sum>z\<in>#mset zs. mset (G z))" for zs
    by (induction zs) simp_all
  then show "mset xs = mset ys \<Longrightarrow> ?thesis" by simp
qed

lemma first_occurrences_set: "set (first_occurrences ks) = set ks"
  by (induction ks) auto

lemma first_occurrences_distinct: "distinct (first_occurrences ks)"
  by (induction ks) (auto simp: first_occurrences_set)

lemma mset_groups:
  "distinct ks \<Longrightarrow>
   mset (concat (map (\<lambda>k. filter (\<lambda>e. key e = k) xs) ks)) =
   mset (filter (\<lambda>e. key e \<in> set ks) xs)"
proof (induction ks)
  case Nil
  then show ?case by simp
next
  case (Cons k ks)
  then have "k \<notin> set ks" "distinct ks" by simp_all
  have "mset (filter (\<lambda>e. key e = k) xs) + mset (filter (\<lambda>e. key e \<in> set ks) xs) =
        mset (filter (\<lambda>e. key e \<in> set (k # ks)) xs)"
    using \<open>k \<notin> set ks\<close> by (induction xs) auto
  with Cons.IH[OF \<open>distinct ks\<close>] show ?case by simp
qed

lemma mset_entriesBySubject:
  "mset (concat (map snd (entriesBySubject affected))) = mset affected"
proof -
  have "concat (map snd (entriesBySubject affected)) =
        concat (map (\<lambda>k. filter (\<lambda>e. subjectId e = k) affected)
                 (first_occurrences (map subjectId affected)))"
    by (simp add: entriesBySubject_def comp_def)
  also have "mset \<dots> = mset (filter (\<lambda>e. subjectId e \<in> set (first_occurrences (map subjectId affected))) affected)"
    by (rule mset_groups) (rule first_occurrences_distinct)
  also have "\<dots> = mset affected"
    by (simp add: first_occurrences_set)
  finally show ?thesis .
qed


lemma planned_substitutions_groups:
  "planned_substitutions west s department fid startDate endDate affected =
     expected_offers west s department fid startDate endDate
       (concat (map snd (entriesBySubject affected)))"
proof -
  have top: "(if length cs > 0 then Some (fp_facultyId (hd cs)) else None) =
      (case cs of [] \<Rightarrow> None | c # cs' \<Rightarrow> Some (fp_facultyId c))" for cs :: "FacultyPreference list"
    by (cases cs) simp_all
  have one: "(\<lambda>(sid, es).
        let candidates = potentialSubstitutes s department sid [fid]
        in concat (map (\<lambda>entry.
             map (\<lambda>dt. (e_id entry,
                        (if length candidates > 0 then Some (fp_facultyId (hd candidates))
                         else None),
                        dt))
               (getDatesByDayOfWeek west (day entry) startDate endDate)) es)) g =
      expected_offers west s department fid startDate endDate (snd g)"
    if "g \<in> set (entriesBySubject affected)" for g
  proof -
    from that obtain sid where g: "g = (sid, filter (\<lambda>e. subjectId e = sid) affected)"
      by (auto simp: entriesBySubject_def)
    show ?thesis
      unfolding g expected_offers_def top_ranked_def
      by (auto simp: Let_def intro!: arg_cong[where f = concat] map_cong split: list.splits)
  qed
  have "planned_substitutions west s department fid startDate endDate affected =
      concat (map (\<lambda>g. expected_offers west s department fid startDate endDate (snd g))
                (entriesBySubject affected))"
    unfolding planned_substitutions_def
    by (rule arg_cong[where f = concat], rule map_cong[OF refl], rule one)
  also have "\<dots> = expected_offers west s department fid startDate endDate
       (concat (map snd (entriesBySubject affected)))"
  proof -
    have "concat (map (\<lambda>g. concat (map F (snd g))) gs) = concat (map F (concat (map snd gs)))"
      for F :: "TimetableEntry \<Rightarrow> (uuid \<times> uuid option \<times> date) list"
        and gs :: "(uuid \<times> TimetableEntry list) list"
      by (induction gs) simp_all
    then show ?thesis by (simp add: expected_offers_def)
  qed
  finally show ?thesis .
qed

lemma mset_planned_substitutions:
  "mset (planned_substitutions west s department fid startDate endDate affected) =
   mset (expected_offers west s department fid startDate endDate affected)"
  unfolding planned_substitutions_groups expected_offers_def
  by (rule mset_concat_map_cong) (rule mset_entriesBySubject)


lemma create_substitutions_Inr:
  assumes "create_substitutions newId fid leaveId plan = Inr created"
  shows "map offer_key created = plan"
    and "list_all (\<lambda>x. sub_status x = ''pending'' \<and> originalFacultyId x = fid
                 \<and> leaveRequestId x = Some leaveId \<and> substituteFacultyId x \<noteq> None) created"
proof -
  from assms have none: "\<not> list_ex (\<lambda>(entryId, substitute, dt). substitute = None) plan"
    and c: "created = map (\<lambda>(k, (entryId, substitute, dt)).
            \<lparr>sub_id = newId k, timetableEntryId = entryId, originalFacultyId = fid,
             substituteFacultyId = substitute, sub_date = dt, leaveRequestId = Some leaveId,
             sub_status = ''pending'', notificationSent = False\<rparr>) (enumerate 0 plan)"
    by (auto simp: create_substitutions_def split: if_splits)
  have "offer_key \<circ> (\<lambda>(k, (entryId, substitute, dt)).
            \<lparr>sub_id = newId k, timetableEntryId = entryId, originalFacultyId = fid,
             substituteFacultyId = substitute, sub_date = dt, leaveRequestId = Some leaveId,
             sub_status = ''pending'', notificationSent = False\<rparr>) = snd"
    by (auto simp: fun_eq_iff offer_key_def)
  then have "map offer_key created = map snd (enumerate 0 plan)"
    by (simp add: c)
  then show "map offer_key created = plan" by simp
  from none have "\<forall>x \<in> set plan. fst (snd x) \<noteq> None"
    by (auto simp: list_ex_iff)
  then have "\<forall>kx \<in> set (enumerate 0 plan). fst (snd (snd kx)) \<noteq> None"
    by (metis enumerate_eq_zip in_set_zipE prod.collapse snd_conv)
  then show "list_all (\<lambda>x. sub_status x = ''pending'' \<and> originalFacultyId x = fid
                 \<and> leaveRequestId x = Some leaveId \<and> substituteFacultyId x \<noteq> None) created"
    unfolding c by (auto simp: list_all_iff)
qed

lemma top_ranked_Some:
  assumes "top_ranked s department subj fid = Some c"
  shows "c \<noteq> fid \<and> (\<exists>p. eligible_substitute s department subj c p
     \<and> (\<forall>c' p'. eligible_substitute s department subj c' p' \<and> c' \<noteq> fid \<longrightarrow> p' \<le> p))"
proof -
  from assms obtain x xs where x: "potentialSubstitutes s department subj [fid] = x # xs"
    and c: "c = fp_facultyId x"
    by (auto simp: top_ranked_def split: list.splits)
  from potentialSubstitutes_head[OF x] show ?thesis unfolding c by auto
qed


lemma create_leave_for_substitutions:
  assumes "create_leave_for west s fid startDate endDate reason newLeaveId newId =
             (JsonLeaveCreated code msg leave n, s')"
  shows "\<exists>created. substitutions s' = substitutions s @ created
     \<and> list_all (\<lambda>x. sub_status x = ''pending'' \<and> originalFacultyId x = fid
                     \<and> leaveRequestId x = Some newLeaveId
                     \<and> substituteFacultyId x \<noteq> None) created
     \<and> (affectedEntries west s fid startDate endDate = [] \<and> created = []
        \<or> (\<exists>facultyUser. faculty_user s fid = Some facultyUser
             \<and> mset (map offer_key created) =
                 mset (expected_offers west s (u_department facultyUser) fid startDate endDate
                         (affectedEntries west s fid startDate endDate))))"
proof (cases "affectedEntries west s fid startDate endDate = []")
  case True
  with assms have "substitutions s' = substitutions s @ []"
    by (auto simp: create_leave_for_def Let_def split: if_splits)
  with True show ?thesis by (intro exI[of _ "[]"]) simp
next
  case False
  with assms obtain facultyUser where fu: "faculty_user s fid = Some facultyUser"
    by (cases "faculty_user s fid") (auto simp: create_leave_for_def Let_def split: if_splits)
  let ?plan = "planned_substitutions west s (u_department facultyUser) fid startDate endDate
        (affectedEntries west s fid startDate endDate)"
  from assms False fu obtain created where
    cr: "create_substitutions newId fid newLeaveId ?plan = Inr created"
    by (cases "create_substitutions newId fid newLeaveId ?plan")
      (auto simp: create_leave_for_def Let_def split: if_splits)
  from assms False fu cr have "substitutions s' = substitutions s @ created"
    by (auto simp: create_leave_for_def Let_def split: if_splits)
  moreover note create_substitutions_Inr(2)[OF cr]
  moreover have "mset (map offer_key created) =
      mset (expected_offers west s (u_department facultyUser) fid startDate endDate
                         (affectedEntries west s fid startDate endDate))"
    unfolding create_substitutions_Inr(1)[OF cr] by (rule mset_planned_substitutions)
  ultimately show ?thesis using fu by blast
qed

lemma approve_leave_route_substitutions:
  assumes "approve_leave_route s user leaveId = (JsonLeave code msg leave, s')"
  shows "substitutions s' =
     map (\<lambda>x. if leaveRequestId x = Some leaveId then x\<lparr>sub_status := ''pending''\<rparr> else x)
       (substitutions s)"
proof -
  from assms obtain l where l: "find (\<lambda>l. l_id l = leaveId) (leaveRequests s) = Some l"
    by (cases "find (\<lambda>l. l_id l = leaveId) (leaveRequests s)")
      (auto simp: approve_leave_route_def split: if_splits)
  from find_SomeD[OF l] have lid: "l_id l = leaveId" by simp
  from assms l lid show ?thesis
    by (cases "faculty_user s (l_facultyId l)")
      (auto simp: approve_leave_route_def Let_def split: if_splits)
qed


lemma ex_days: "[19723..<Suc 19725] = [19723, 19724, 19725]"
  by (simp add: upt_conv_Cons)

lemma ex_getDaysOfWeekBetweenDates:
  "getDaysOfWeekBetweenDates False 19723 19725 = [Monday, Tuesday, Wednesday]"
  unfolding getDaysOfWeekBetweenDates_def ex_days
  by (simp add: daysOfWeek_def local_getDay_def getDay_def)

lemma ex_getDatesByDayOfWeek:
  "getDatesByDayOfWeek False Monday 19723 19725 = [19723]"
  "getDatesByDayOfWeek False Wednesday 19723 19725 = [19725]"
  unfolding getDatesByDayOfWeek_def ex_days
  by (simp_all add: daysOfWeek_def local_getDay_def getDay_def)

lemma ex_leave_db_sel:
  "faculty ex_leave_db = ex_faculty" "users ex_leave_db = ex_users"
  "entries ex_leave_db = [ex_entry, ex_entry_w]" "substitutions ex_leave_db = []"
  "leaveRequests ex_leave_db = []" "facultySubjects ex_leave_db = ex_facultySubjects"
  "timetables ex_leave_db = [ex_timetable\<lparr>t_status := ''published''\<rparr>]"
  by (simp_all add: ex_leave_db_def ex_db_def)

lemma ex_affectedEntries:
  "affectedEntries False ex_leave_db ''f1'' 19723 19725 = [ex_entry, ex_entry_w]"
  by (simp add: affectedEntries_def ex_leave_db_sel ex_getDaysOfWeekBetweenDates
      ex_entry_def ex_entry_w_def ex_timetable_def)

lemma ex_leave_user:
  "faculty_user ex_leave_db ''f1'' =
     Some \<lparr>u_id = ''u1'', u_role = ''faculty'', u_department = ''CS'', u_isActive = True\<rparr>"
  by (simp add: faculty_user_def ex_leave_db_sel ex_faculty_def ex_users_def)

lemma ex_candidates:
  "potentialSubstitutes ex_leave_db ''CS'' ''s1'' [''f1''] =
     [\<lparr>fp_facultyId = ''f3'', fp_preference = 9\<rparr>, \<lparr>fp_facultyId = ''f2'', fp_preference = 4\<rparr>]"
  by (simp add: potentialSubstitutes_def ex_leave_db_sel ex_faculty_def ex_users_def
      ex_facultySubjects_def)

lemma ex_top_ranked:
  "top_ranked ex_leave_db ''CS'' ''s1'' ''f1'' = Some ''f3''"
  by (simp add: top_ranked_def ex_candidates)

lemma ex_planned_substitutions:
  "planned_substitutions False ex_leave_db ''CS'' ''f1'' 19723 19725 [ex_entry, ex_entry_w] =
     [(''e1'', Some ''f3'', 19723), (''e2'', Some ''f3'', 19725)]"
proof -
  have e: "subjectId ex_entry = ''s1''" "subjectId ex_entry_w = ''s1''"
    "day ex_entry = Monday" "day ex_entry_w = Wednesday"
    "e_id ex_entry = ''e1''" "e_id ex_entry_w = ''e2''"
    by (simp_all add: ex_entry_def ex_entry_w_def)
  show ?thesis
    by (simp add: planned_substitutions_def entriesBySubject_def e ex_candidates
        ex_getDatesByDayOfWeek)
qed

lemma ex_create_substitutions:
  "create_substitutions ex_newId ''f1'' ''l1''
     [(''e1'', Some ''f3'', 19723), (''e2'', Some ''f3'', 19725)] = Inr ex_offers"
  by (simp add: create_substitutions_def ex_offers_def enumerate_simps)

lemma ex_create_leave:
  "create_leave_for False ex_leave_db ''f1'' 19723 19725 ''conference'' ''l1'' ex_newId =
     (JsonLeaveCreated 201 ''Leave request created successfully'' ex_leave 2, ex_requested_db)"
  by (simp add: create_leave_for_def ex_leave_db_sel ex_getDaysOfWeekBetweenDates
      ex_affectedEntries ex_leave_user ex_planned_substitutions ex_create_substitutions
      ex_leave_def ex_requested_db_def Let_def)

lemma ex_approve_requested:
  "approve_leave_route ex_requested_db ex_admin ''l1'' =
     (JsonLeave 200 ''Leave request approved successfully'' ex_leave_approved,
      ex_requested_db\<lparr>leaveRequests := [ex_leave_approved]\<rparr>)"
proof -
  have sel: "leaveRequests ex_requested_db = [ex_leave]"
    "substitutions ex_requested_db = ex_offers"
    by (simp_all add: ex_requested_db_def)
  have l: "l_id ex_leave = ''l1''" "l_facultyId ex_leave = ''f1''"
    "l_status ex_leave = ''pending''"
    by (simp_all add: ex_leave_def)
  have fu: "faculty_user ex_requested_db ''f1'' =
     Some \<lparr>u_id = ''u1'', u_role = ''faculty'', u_department = ''CS'', u_isActive = True\<rparr>"
    by (simp add: faculty_user_def ex_requested_db_def ex_leave_db_sel ex_faculty_def
        ex_users_def)
  have a: "isAdminOrHOD ex_admin" "u_role ex_admin = ''admin''" "u_id ex_admin = ''u0''"
    by (simp_all add: isAdminOrHOD_def ex_admin_def)
  have m: "map (\<lambda>x. if leaveRequestId x = Some ''l1'' then x\<lparr>sub_status := ''pending''\<rparr> else x)
      ex_offers = ex_offers"
    by (simp add: ex_offers_def)
  have r: "ex_requested_db\<lparr>leaveRequests := [ex_leave_approved], substitutions := ex_offers\<rparr>
      = ex_requested_db\<lparr>leaveRequests := [ex_leave_approved]\<rparr>"
    by (simp add: ex_requested_db_def)
  show ?thesis
    by (simp add: approve_leave_route_def sel l fu a m r Let_def ex_leave_approved_def)
qed

lemma ex_approve_unplanned:
  "approve_leave_route ex_unplanned_db ex_admin ''l1'' =
     (JsonLeave 200 ''Leave request approved successfully'' ex_leave_approved,
      ex_unplanned_db\<lparr>leaveRequests := [ex_leave_approved]\<rparr>)"
proof -
  have sel: "leaveRequests ex_unplanned_db = [ex_leave]"
    "substitutions ex_unplanned_db = []"
    by (simp_all add: ex_unplanned_db_def ex_leave_db_sel)
  have l: "l_id ex_leave = ''l1''" "l_facultyId ex_leave = ''f1''"
    "l_status ex_leave = ''pending''"
    by (simp_all add: ex_leave_def)
  have fu: "faculty_user ex_unplanned_db ''f1'' =
     Some \<lparr>u_id = ''u1'', u_role = ''faculty'', u_department = ''CS'', u_isActive = True\<rparr>"
    by (simp add: faculty_user_def ex_unplanned_db_def ex_leave_db_sel ex_faculty_def
        ex_users_def)
  have a: "isAdminOrHOD ex_admin" "u_role ex_admin = ''admin''" "u_id ex_admin = ''u0''"
    by (simp_all add: isAdminOrHOD_def ex_admin_def)
  have r: "ex_unplanned_db\<lparr>leaveRequests := [ex_leave_approved], substitutions := []\<rparr>
      = ex_unplanned_db\<lparr>leaveRequests := [ex_leave_approved]\<rparr>"
    by (simp add: ex_unplanned_db_def ex_leave_db_def ex_db_def)
  show ?thesis
    by (simp add: approve_leave_route_def sel l fu a r Let_def ex_leave_approved_def)
qed

lemma create_leave_for_leave:
  assumes "create_leave_for west s fid startDate endDate reason newLeaveId newId =
             (JsonLeaveCreated code msg leave n, s')"
  shows "leave = \<lparr>l_id = newLeaveId, l_facultyId = fid, l_startDate = startDate,
              l_endDate = endDate, l_reason = reason, l_status = ''pending'',
              l_approvedBy = None\<rparr>"
  using assms
  by (cases "faculty_user s fid")
    (auto simp: create_leave_for_def Let_def split: if_splits sum.splits)

lemma create_leave_route_created:
  assumes "create_leave_route west s user body now newLeaveId newId =
             (JsonLeaveCreated code msg leave n, s')"
  shows "\<exists>fid startDate endDate reason.
     create_leave_for west s fid startDate endDate reason newLeaveId newId =
       (JsonLeaveCreated code msg leave n, s')"
  using assms
  by (auto simp: create_leave_route_def Let_def split: if_splits option.splits)

lemma create_leave_route_substitutions:
  assumes "create_leave_route west s user body now newLeaveId newId =
             (JsonLeaveCreated code msg leave n, s')"
  shows "l_status leave = ''pending''
     \<and> (\<exists>created. substitutions s' = substitutions s @ created
        \<and> list_all (\<lambda>x. sub_status x = ''pending'' \<and> originalFacultyId x = l_facultyId leave
                        \<and> leaveRequestId x = Some (l_id leave)
                        \<and> substituteFacultyId x \<noteq> None) created
        \<and> (affectedEntries west s (l_facultyId leave) (l_startDate leave) (l_endDate leave) = []
              \<and> created = []
            \<or> (\<exists>facultyUser. faculty_user s (l_facultyId leave) = Some facultyUser
                 \<and> mset (map offer_key created) =
                     mset (expected_offers west s (u_department facultyUser) (l_facultyId leave)
                             (l_startDate leave) (l_endDate leave)
                             (affectedEntries west s (l_facultyId leave) (l_startDate leave)
                                (l_endDate leave))))))"
proof -
  from create_leave_route_created[OF assms] obtain fid startDate endDate reason where
    c: "create_leave_for west s fid startDate endDate reason newLeaveId newId =
       (JsonLeaveCreated code msg leave n, s')"
    by blast
  note l = create_leave_for_leave[OF c]
  have f: "l_facultyId leave = fid" "l_startDate leave = startDate" "l_endDate leave = endDate"
    "l_id leave = newLeaveId" "l_status leave = ''pending''"
    by (simp_all add: l)
  from create_leave_for_substitutions[OF c] show ?thesis
    unfolding f by simp
qed

lemma ex_create_leave_route:
  "create_leave_route False ex_leave_db ex_user_f ex_leave_body 0 ''l1'' ex_newId =
     (JsonLeaveCreated 201 ''Leave request created successfully'' ex_leave 2, ex_requested_db)"
proof -
  have b: "body_startDate ex_leave_body = Some 19723" "body_endDate ex_leave_body = Some 19725"
    "body_reason ex_leave_body = Some ''conference''"
    by (simp_all add: ex_leave_body_def)
  have u: "u_role ex_user_f = ''faculty''" "u_id ex_user_f = ''u1''"
    by (simp_all add: ex_user_f_def)
  have f: "find (\<lambda>f. f_userId f = ''u1'') ex_faculty =
      Some \<lparr>f_id = ''f1'', f_userId = ''u1'', f_isActive = True\<rparr>"
    by (simp add: ex_faculty_def)
  show ?thesis
    by (simp add: create_leave_route_def b u f truthy_def date_ms_def ex_leave_db_sel
        ex_create_leave Let_def)
qed

text \<open>
  C6. The substitution requests of a leave are created by \<^verbatim>\<open>POST /api/leaves\<close>, with
  the leave request and before any approval: when the handler answers with the
  created leave, the leave is pending, and the requests the handler adds are pending,
  name the faculty on leave and the leave, have a substitute, and are, up to their
  order, one per affected entry and date of the entry's day of the week in the date
  range, each for the top-ranked candidate of the entry's subject. The top-ranked
  candidate is eligible, is not the faculty on leave and has the greatest preference.
  \<^verbatim>\<open>PUT /api/leaves/:id/approve\<close> creates no request: it sets the requests of the
  leave back to pending and keeps all others.
\<close>

theorem offers_are_created_with_the_leave_request:
  "(create_leave_route west s user body now newLeaveId newId =
       (JsonLeaveCreated code msg leave n, s') \<longrightarrow>
     l_status leave = ''pending''
     \<and> (\<exists>created. substitutions s' = substitutions s @ created
        \<and> list_all (\<lambda>x. sub_status x = ''pending'' \<and> originalFacultyId x = l_facultyId leave
                        \<and> leaveRequestId x = Some (l_id leave)
                        \<and> substituteFacultyId x \<noteq> None) created
        \<and> (affectedEntries west s (l_facultyId leave) (l_startDate leave) (l_endDate leave) = []
              \<and> created = []
            \<or> (\<exists>facultyUser. faculty_user s (l_facultyId leave) = Some facultyUser
                 \<and> mset (map offer_key created) =
                     mset (expected_offers west s (u_department facultyUser) (l_facultyId leave)
                             (l_startDate leave) (l_endDate leave)
                             (affectedEntries west s (l_facultyId leave) (l_startDate leave)
                                (l_endDate leave)))))))
   \<and> (top_ranked s department subj fid = Some c \<longrightarrow>
        c \<noteq> fid \<and> (\<exists>p. eligible_substitute s department subj c p
          \<and> (\<forall>c' p'. eligible_substitute s department subj c' p' \<and> c' \<noteq> fid \<longrightarrow> p' \<le> p)))
   \<and> (approve_leave_route t approver leaveId = (JsonLeave code' msg' leave' , t') \<longrightarrow>
        substitutions t' =
          map (\<lambda>x. if leaveRequestId x = Some leaveId then x\<lparr>sub_status := ''pending''\<rparr> else x)
            (substitutions t))"
proof (intro conjI impI)
  assume a: "create_leave_route west s user body now newLeaveId newId =
       (JsonLeaveCreated code msg leave n, s')"
  from create_leave_route_substitutions[OF a] show "l_status leave = ''pending''"
    by (rule conjunct1)
  from create_leave_route_substitutions[OF a]
  show "\<exists>created. substitutions s' = substitutions s @ created
        \<and> list_all (\<lambda>x. sub_status x = ''pending'' \<and> originalFacultyId x = l_facultyId leave
                        \<and> leaveRequestId x = Some (l_id leave)
                        \<and> substituteFacultyId x \<noteq> None) created
        \<and> (affectedEntries west s (l_facultyId leave) (l_startDate leave) (l_endDate leave) = []
              \<and> created = []
            \<or> (\<exists>facultyUser. faculty_user s (l_facultyId leave) = Some facultyUser
                 \<and> mset (map offer_key created) =
                     mset (expected_offers west s (u_department facultyUser) (l_facultyId leave)
                             (l_startDate leave) (l_endDate leave)
                             (affectedEntries west s (l_facultyId leave) (l_startDate leave)
                                (l_endDate leave)))))"
    by (rule conjunct2)
next
  assume a: "top_ranked s department subj fid = Some c"
  from top_ranked_Some[OF a] show "c \<noteq> fid" by (rule conjunct1)
  from top_ranked_Some[OF a]
  show "\<exists>p. eligible_substitute s department subj c p
          \<and> (\<forall>c' p'. eligible_substitute s department subj c' p' \<and> c' \<noteq> fid \<longrightarrow> p' \<le> p)"
    by (rule conjunct2)
next
  assume "approve_leave_route t approver leaveId = (JsonLeave code' msg' leave' , t')"
  then show "substitutions t' =
          map (\<lambda>x. if leaveRequestId x = Some leaveId then x\<lparr>sub_status := ''pending''\<rparr> else x)
            (substitutions t)"
    by (rule approve_leave_route_substitutions)
qed

text \<open>
  The leave of f1 is created with its two requests, both for f3, the candidate of
  the greatest preference; the approval leaves them as they are.
\<close>

theorem offers_are_created_with_the_leave_request_witness:
  "create_leave_route False ex_leave_db ex_user_f ex_leave_body 0 ''l1'' ex_newId =
     (JsonLeaveCreated 201 ''Leave request created successfully'' ex_leave 2, ex_requested_db)
   \<and> l_status ex_leave = ''pending''
   \<and> substitutions ex_requested_db = substitutions ex_leave_db @ ex_offers
   \<and> mset (map offer_key ex_offers) =
       mset (expected_offers False ex_leave_db ''CS'' ''f1'' 19723 19725
               (affectedEntries False ex_leave_db ''f1'' 19723 19725))
   \<and> map substituteFacultyId ex_offers = [Some ''f3'', Some ''f3'']
   \<and> map sub_date ex_offers = [19723, 19725]
   \<and> top_ranked ex_leave_db ''CS'' ''s1'' ''f1'' = Some ''f3''
   \<and> approve_leave_route ex_requested_db ex_admin ''l1'' =
     (JsonLeave 200 ''Leave request approved successfully'' ex_leave_approved,
      ex_requested_db\<lparr>leaveRequests := [ex_leave_approved]\<rparr>)
   \<and> substitutions (ex_requested_db\<lparr>leaveRequests := [ex_leave_approved]\<rparr>) = ex_offers"
proof -
  note T = offers_are_created_with_the_leave_request[where west = False and s = ex_leave_db
      and user = ex_user_f and body = ex_leave_body and now = 0 and fid = "''f1''"
      and newLeaveId = "''l1''" and newId = ex_newId and code = 201
      and msg = "''Leave request created successfully''" and leave = ex_leave and n = 2
      and s' = ex_requested_db and department = "''CS''" and subj = "''s1''" and c = "''f3''"
      and t = ex_requested_db and approver = ex_admin and leaveId = "''l1''" and code' = 200
      and msg' = "''Leave request approved successfully''" and leave' = ex_leave_approved
      and t' = "ex_requested_db\<lparr>leaveRequests := [ex_leave_approved]\<rparr>"]
  have l: "l_facultyId ex_leave = ''f1''" "l_startDate ex_leave = 19723"
    "l_endDate ex_leave = 19725" "l_id ex_leave = ''l1''"
    by (simp_all add: ex_leave_def)
  from T ex_create_leave_route obtain created where
    p: "l_status ex_leave = ''pending''"
    and c: "substitutions ex_requested_db = substitutions ex_leave_db @ created"
    and d: "affectedEntries False ex_leave_db ''f1'' 19723 19725 = [] \<and> created = []
        \<or> (\<exists>facultyUser. faculty_user ex_leave_db ''f1'' = Some facultyUser
             \<and> mset (map offer_key created) =
                 mset (expected_offers False ex_leave_db (u_department facultyUser) ''f1''
                         19723 19725 (affectedEntries False ex_leave_db ''f1'' 19723 19725)))"
    unfolding l by blast
  from c have created: "created = ex_offers"
    by (simp add: ex_requested_db_def ex_leave_db_sel)
  from d have m: "mset (map offer_key ex_offers) =
       mset (expected_offers False ex_leave_db ''CS'' ''f1'' 19723 19725
               (affectedEntries False ex_leave_db ''f1'' 19723 19725))"
    unfolding created ex_leave_user by (simp add: ex_affectedEntries)
  have a': "substitutions (ex_requested_db\<lparr>leaveRequests := [ex_leave_approved]\<rparr>) = ex_offers"
    using T ex_approve_requested by (simp add: ex_requested_db_def)
  have c': "substitutions ex_requested_db = substitutions ex_leave_db @ ex_offers"
    using c created by simp
  have o: "map substituteFacultyId ex_offers = [Some ''f3'', Some ''f3'']"
    "map sub_date ex_offers = [19723, 19725]"
    by (simp_all add: ex_offers_def)
  show ?thesis
    by (intro conjI) (rule ex_create_leave_route p c' m o ex_top_ranked ex_approve_requested a')+
qed

text \<open>
  A pending leave of f1 whose entries have no request (the timetable was published,
  or the entries were added, after the leave was asked for): the approval answers 200
  and there is still no request.
\<close>

theorem approval_creates_no_offer_counterexample:
  "approve_leave_route ex_unplanned_db ex_admin ''l1'' =
     (JsonLeave 200 ''Leave request approved successfully'' ex_leave_approved,
      ex_unplanned_db\<lparr>leaveRequests := [ex_leave_approved]\<rparr>)
   \<and> l_facultyId ex_leave = ''f1'' \<and> l_startDate ex_leave = 19723
   \<and> l_endDate ex_leave = 19725
   \<and> affectedEntries False ex_unplanned_db ''f1'' 19723 19725 = [ex_entry, ex_entry_w]
   \<and> getDatesByDayOfWeek False (day ex_entry) 19723 19725 = [19723]
   \<and> substitutions ex_unplanned_db = []
   \<and> substitutions (ex_unplanned_db\<lparr>leaveRequests := [ex_leave_approved]\<rparr>) = []"
proof -
  have af: "affectedEntries False ex_unplanned_db ''f1'' 19723 19725 = [ex_entry, ex_entry_w]"
    using ex_affectedEntries by (simp add: affectedEntries_def ex_unplanned_db_def)
  have d: "getDatesByDayOfWeek False (day ex_entry) 19723 19725 = [19723]"
    by (simp add: ex_entry_def ex_getDatesByDayOfWeek)
  have s: "substitutions ex_unplanned_db = []"
    "substitutions (ex_unplanned_db\<lparr>leaveRequests := [ex_leave_approved]\<rparr>) = []"
    by (simp_all add: ex_unplanned_db_def ex_leave_db_sel)
  have l: "l_facultyId ex_leave = ''f1''" "l_startDate ex_leave = 19723"
    "l_endDate ex_leave = 19725"
    by (simp_all add: ex_leave_def)
  show ?thesis
    by (intro conjI) (rule ex_approve_unplanned l af d s)+
qed

end
